theory Spec2Isabelle
  imports Main "HOL-Library.Word"
begin

unbundle bit_operations_syntax

section \<open>The wrapped library, as the header sees it\<close>

text \<open>
  \<^verbatim>\<open>DirectXMathExtension.h\<close> is a single header on top of DirectXMath
  (\<^verbatim>\<open>#include <DirectXMath.h>\<close>, line 94). DirectXMath itself is not part of the
  repository: the header only names its types and calls its routines. This section fixes
  that interface: the values, the names of the types and routines the header uses, and a
  record holding an implementation of the routines. Every operation of the header takes
  such a record, so every theorem about the header holds for whatever the library does.

  All scalars of the interface are 32 bits wide (\<^verbatim>\<open>float\<close>, \<^verbatim>\<open>int32_t\<close>,
  \<^verbatim>\<open>uint32_t\<close>). A scalar is its bit pattern, a \<^typ>\<open>32 word\<close>; the header does no
  arithmetic on scalars. Memory is an array of such cells; an address counts cells, so an
  object with \<open>n\<close> scalar members at address \<open>p\<close> occupies the cells \<open>p, ..., p + n - 1\<close>.
\<close>

type_synonym addr = nat

type_synonym memory = "addr \<Rightarrow> 32 word"

text \<open>The SIMD types: \<^verbatim>\<open>XMVECTOR\<close> has four lanes, \<^verbatim>\<open>XMMATRIX\<close> has the four rows
  \<^verbatim>\<open>r[0]\<close>, ..., \<^verbatim>\<open>r[3]\<close>.\<close>

record XMVECTOR =
  vec_x :: "32 word"
  vec_y :: "32 word"
  vec_z :: "32 word"
  vec_w :: "32 word"

record XMMATRIX =
  r0 :: XMVECTOR
  r1 :: XMVECTOR
  r2 :: XMVECTOR
  r3 :: XMVECTOR

text \<open>The memory types of the library that the header derives from, by name.\<close>

datatype vector_type =
    XMFLOAT2 | XMFLOAT2A | XMINT2 | XMUINT2 | XMFLOAT3 | XMFLOAT3A | XMINT3
  | XMUINT3 | XMFLOAT4 | XMFLOAT4A | XMINT4 | XMUINT4

datatype matrix_type =
    XMFLOAT3X3 | XMFLOAT4X3 | XMFLOAT4X3A | XMFLOAT4X4 | XMFLOAT4X4A

datatype memory_type = Vector vector_type | Matrix matrix_type

text \<open>The number of scalar members of each memory type and its alignment in bytes, as
  DirectXMath declares the types (those whose name ends in \<^verbatim>\<open>A\<close> are aligned to 16 bytes,
  the others as their scalars are).\<close>

fun vector_components :: "vector_type \<Rightarrow> nat" where
  "vector_components XMFLOAT2 = 2"
| "vector_components XMFLOAT2A = 2"
| "vector_components XMINT2 = 2"
| "vector_components XMUINT2 = 2"
| "vector_components XMFLOAT3 = 3"
| "vector_components XMFLOAT3A = 3"
| "vector_components XMINT3 = 3"
| "vector_components XMUINT3 = 3"
| "vector_components XMFLOAT4 = 4"
| "vector_components XMFLOAT4A = 4"
| "vector_components XMINT4 = 4"
| "vector_components XMUINT4 = 4"

fun matrix_components :: "matrix_type \<Rightarrow> nat" where
  "matrix_components XMFLOAT3X3 = 9"
| "matrix_components XMFLOAT4X3 = 12"
| "matrix_components XMFLOAT4X3A = 12"
| "matrix_components XMFLOAT4X4 = 16"
| "matrix_components XMFLOAT4X4A = 16"

fun components :: "memory_type \<Rightarrow> nat" where
  "components (Vector t) = vector_components t"
| "components (Matrix t) = matrix_components t"

fun vector_alignment :: "vector_type \<Rightarrow> nat" where
  "vector_alignment XMFLOAT2 = 4"
| "vector_alignment XMFLOAT2A = 16"
| "vector_alignment XMINT2 = 4"
| "vector_alignment XMUINT2 = 4"
| "vector_alignment XMFLOAT3 = 4"
| "vector_alignment XMFLOAT3A = 16"
| "vector_alignment XMINT3 = 4"
| "vector_alignment XMUINT3 = 4"
| "vector_alignment XMFLOAT4 = 4"
| "vector_alignment XMFLOAT4A = 16"
| "vector_alignment XMINT4 = 4"
| "vector_alignment XMUINT4 = 4"

fun matrix_alignment :: "matrix_type \<Rightarrow> nat" where
  "matrix_alignment XMFLOAT3X3 = 4"
| "matrix_alignment XMFLOAT4X3 = 4"
| "matrix_alignment XMFLOAT4X3A = 16"
| "matrix_alignment XMFLOAT4X4 = 4"
| "matrix_alignment XMFLOAT4X4A = 16"

fun alignment :: "memory_type \<Rightarrow> nat" where
  "alignment (Vector t) = vector_alignment t"
| "alignment (Matrix t) = matrix_alignment t"

fun vector_type_name :: "vector_type \<Rightarrow> string" where
  "vector_type_name XMFLOAT2 = ''XMFLOAT2''"
| "vector_type_name XMFLOAT2A = ''XMFLOAT2A''"
| "vector_type_name XMINT2 = ''XMINT2''"
| "vector_type_name XMUINT2 = ''XMUINT2''"
| "vector_type_name XMFLOAT3 = ''XMFLOAT3''"
| "vector_type_name XMFLOAT3A = ''XMFLOAT3A''"
| "vector_type_name XMINT3 = ''XMINT3''"
| "vector_type_name XMUINT3 = ''XMUINT3''"
| "vector_type_name XMFLOAT4 = ''XMFLOAT4''"
| "vector_type_name XMFLOAT4A = ''XMFLOAT4A''"
| "vector_type_name XMINT4 = ''XMINT4''"
| "vector_type_name XMUINT4 = ''XMUINT4''"

fun matrix_type_name :: "matrix_type \<Rightarrow> string" where
  "matrix_type_name XMFLOAT3X3 = ''XMFLOAT3X3''"
| "matrix_type_name XMFLOAT4X3 = ''XMFLOAT4X3''"
| "matrix_type_name XMFLOAT4X3A = ''XMFLOAT4X3A''"
| "matrix_type_name XMFLOAT4X4 = ''XMFLOAT4X4''"
| "matrix_type_name XMFLOAT4X4A = ''XMFLOAT4X4A''"

text \<open>The load and store routines the header calls, by name.\<close>

datatype XMLoad_vector =
    XMLoadFloat2 | XMLoadFloat2A | XMLoadSInt2 | XMLoadUInt2 | XMLoadFloat3
  | XMLoadFloat3A | XMLoadSInt3 | XMLoadUInt3 | XMLoadFloat4 | XMLoadFloat4A
  | XMLoadSInt4 | XMLoadUInt4

datatype XMStore_vector =
    XMStoreFloat2 | XMStoreFloat2A | XMStoreSInt2 | XMStoreUInt2 | XMStoreFloat3
  | XMStoreFloat3A | XMStoreSInt3 | XMStoreUInt3 | XMStoreFloat4 | XMStoreFloat4A
  | XMStoreSInt4 | XMStoreUInt4

datatype XMLoad_matrix =
    XMLoadFloat3x3 | XMLoadFloat4x3 | XMLoadFloat4x3A | XMLoadFloat4x4
  | XMLoadFloat4x4A

datatype XMStore_matrix =
    XMStoreFloat3x3 | XMStoreFloat4x3 | XMStoreFloat4x3A | XMStoreFloat4x4
  | XMStoreFloat4x4A

text \<open>The library's signatures: for each memory type, the routine whose parameter is a
  pointer to const of that type (it loads), and the routine whose first parameter is a
  pointer to that type (it stores).\<close>

fun XMLoad_vector_for :: "vector_type \<Rightarrow> XMLoad_vector" where
  "XMLoad_vector_for XMFLOAT2 = XMLoadFloat2"
| "XMLoad_vector_for XMFLOAT2A = XMLoadFloat2A"
| "XMLoad_vector_for XMINT2 = XMLoadSInt2"
| "XMLoad_vector_for XMUINT2 = XMLoadUInt2"
| "XMLoad_vector_for XMFLOAT3 = XMLoadFloat3"
| "XMLoad_vector_for XMFLOAT3A = XMLoadFloat3A"
| "XMLoad_vector_for XMINT3 = XMLoadSInt3"
| "XMLoad_vector_for XMUINT3 = XMLoadUInt3"
| "XMLoad_vector_for XMFLOAT4 = XMLoadFloat4"
| "XMLoad_vector_for XMFLOAT4A = XMLoadFloat4A"
| "XMLoad_vector_for XMINT4 = XMLoadSInt4"
| "XMLoad_vector_for XMUINT4 = XMLoadUInt4"

fun XMStore_vector_for :: "vector_type \<Rightarrow> XMStore_vector" where
  "XMStore_vector_for XMFLOAT2 = XMStoreFloat2"
| "XMStore_vector_for XMFLOAT2A = XMStoreFloat2A"
| "XMStore_vector_for XMINT2 = XMStoreSInt2"
| "XMStore_vector_for XMUINT2 = XMStoreUInt2"
| "XMStore_vector_for XMFLOAT3 = XMStoreFloat3"
| "XMStore_vector_for XMFLOAT3A = XMStoreFloat3A"
| "XMStore_vector_for XMINT3 = XMStoreSInt3"
| "XMStore_vector_for XMUINT3 = XMStoreUInt3"
| "XMStore_vector_for XMFLOAT4 = XMStoreFloat4"
| "XMStore_vector_for XMFLOAT4A = XMStoreFloat4A"
| "XMStore_vector_for XMINT4 = XMStoreSInt4"
| "XMStore_vector_for XMUINT4 = XMStoreUInt4"

fun XMLoad_matrix_for :: "matrix_type \<Rightarrow> XMLoad_matrix" where
  "XMLoad_matrix_for XMFLOAT3X3 = XMLoadFloat3x3"
| "XMLoad_matrix_for XMFLOAT4X3 = XMLoadFloat4x3"
| "XMLoad_matrix_for XMFLOAT4X3A = XMLoadFloat4x3A"
| "XMLoad_matrix_for XMFLOAT4X4 = XMLoadFloat4x4"
| "XMLoad_matrix_for XMFLOAT4X4A = XMLoadFloat4x4A"

fun XMStore_matrix_for :: "matrix_type \<Rightarrow> XMStore_matrix" where
  "XMStore_matrix_for XMFLOAT3X3 = XMStoreFloat3x3"
| "XMStore_matrix_for XMFLOAT4X3 = XMStoreFloat4x3"
| "XMStore_matrix_for XMFLOAT4X3A = XMStoreFloat4x3A"
| "XMStore_matrix_for XMFLOAT4X4 = XMStoreFloat4x4"
| "XMStore_matrix_for XMFLOAT4X4A = XMStoreFloat4x4A"

text \<open>
  An implementation of the library. A load reads through a pointer to const and returns a
  SIMD value; a store writes through a pointer and returns nothing, so it is a function
  from the memory before to the memory after. Either may fail (an assertion, a fault on a
  misaligned pointer): \<open>Inl e\<close>. The constructors of the memory types cannot fail.
  \<^item> \<open>default_initialize T\<close>: what default-initialising a base subobject of type \<open>T\<close>
    does (a constructor of the derived type that names no base initialiser);
  \<^item> \<open>construct T\<close>: the initialiser \<^verbatim>\<open>T()\<close>;
  \<^item> \<open>construct_components T\<close>: \<^verbatim>\<open>T(c0, c1, ...)\<close>, the components as a list;
  \<^item> \<open>construct_array T\<close>: \<^verbatim>\<open>T(pArray)\<close>.
\<close>

record 'e DirectXMath =
  load_vector :: "XMLoad_vector \<Rightarrow> memory \<Rightarrow> addr \<Rightarrow> 'e + XMVECTOR"
  store_vector :: "XMStore_vector \<Rightarrow> memory \<Rightarrow> addr \<Rightarrow> XMVECTOR \<Rightarrow> 'e + memory"
  load_matrix :: "XMLoad_matrix \<Rightarrow> memory \<Rightarrow> addr \<Rightarrow> 'e + XMMATRIX"
  store_matrix :: "XMStore_matrix \<Rightarrow> memory \<Rightarrow> addr \<Rightarrow> XMMATRIX \<Rightarrow> 'e + memory"
  XMVectorAbs :: "XMVECTOR \<Rightarrow> XMVECTOR"
  default_initialize :: "memory_type \<Rightarrow> memory \<Rightarrow> addr \<Rightarrow> memory"
  construct :: "memory_type \<Rightarrow> memory \<Rightarrow> addr \<Rightarrow> memory"
  construct_components :: "memory_type \<Rightarrow> memory \<Rightarrow> addr \<Rightarrow> 32 word list \<Rightarrow> memory"
  construct_array :: "memory_type \<Rightarrow> memory \<Rightarrow> addr \<Rightarrow> addr \<Rightarrow> memory"

section \<open>The header\<close>

text \<open>
  Lines 96-524 of \<^verbatim>\<open>DirectXMathExtension.h\<close>, in the order of the source. The calling
  convention (\<^verbatim>\<open>XM_CALLCONV\<close>) and the inlining attribute (\<^verbatim>\<open>__MXM_INLINE\<close>) of
  the functions do not change what they compute and are left out.
\<close>

subsection \<open>MXMMatrixAbs\<close>

text \<open>
  Lines 107-115:
  \<^verbatim>\<open>XMMATRIX MXMMatrixAbs(const FXMMATRIX mat)
  { XMMATRIX res;
    res.r[0] = XMVectorAbs(mat.r[0]); res.r[1] = XMVectorAbs(mat.r[1]);
    res.r[2] = XMVectorAbs(mat.r[2]); res.r[3] = XMVectorAbs(mat.r[3]);
    return res; }\<close>
  The function has two variables, the parameter \<^verbatim>\<open>mat\<close> and the local \<^verbatim>\<open>res\<close>,
  which starts with indeterminate content. Each statement is a step on this state.
\<close>

record MXMMatrixAbs_state =
  mat :: XMMATRIX
  res :: XMMATRIX

definition MXMMatrixAbs_body :: "'e DirectXMath \<Rightarrow> MXMMatrixAbs_state \<Rightarrow> MXMMatrixAbs_state" where
  "MXMMatrixAbs_body lib s =
     (let s = s\<lparr>res := (res s)\<lparr>r0 := XMVectorAbs lib (r0 (mat s))\<rparr>\<rparr>;
          s = s\<lparr>res := (res s)\<lparr>r1 := XMVectorAbs lib (r1 (mat s))\<rparr>\<rparr>;
          s = s\<lparr>res := (res s)\<lparr>r2 := XMVectorAbs lib (r2 (mat s))\<rparr>\<rparr>;
          s = s\<lparr>res := (res s)\<lparr>r3 := XMVectorAbs lib (r3 (mat s))\<rparr>\<rparr>
      in s)"

definition MXMMatrixAbs :: "'e DirectXMath \<Rightarrow> XMMATRIX \<Rightarrow> XMMATRIX \<Rightarrow> XMMATRIX" where
  \<comment> \<open>\<open>indeterminate\<close> is the content of \<^verbatim>\<open>res\<close> before its first assignment\<close>
  "MXMMatrixAbs lib indeterminate m = res (MXMMatrixAbs_body lib \<lparr>mat = m, res = indeterminate\<rparr>)"

subsection \<open>The wrapper types\<close>

text \<open>
  The header declares seventeen structs, each derived from one memory type of the
  library. An operation on an object takes the memory and the address \<open>this\<close> of the object;
  the base subobject is at the same address, which is what the header passes to the
  library. A constructor returns the memory after it, a conversion the SIMD value and the
  memory after it, an assignment the address it returns (\<^verbatim>\<open>*this\<close>) and the memory
  after it. \<^verbatim>\<open>FXMVECTOR\<close>, \<^verbatim>\<open>FXMMATRIX\<close> and \<^verbatim>\<open>CXMMATRIX\<close> are the library's
  parameter types for an \<^verbatim>\<open>XMVECTOR\<close> or \<^verbatim>\<open>XMMATRIX\<close> passed by value or by
  reference to const; a SIMD argument is a value here.
\<close>

datatype vector_wrapper =
    MXMFLOAT2 | MXMFLOAT2A | MXMINT2 | MXMUINT2 | MXMFLOAT3 | MXMFLOAT3A | MXMINT3
  | MXMUINT3 | MXMFLOAT4 | MXMFLOAT4A | MXMINT4 | MXMUINT4

datatype matrix_wrapper =
    MXMFLOAT3X3 | MXMFLOAT4X3 | MXMFLOAT4X3A | MXMFLOAT4X4 | MXMFLOAT4X4A

text \<open>The base of each struct (\<^verbatim>\<open>struct W : public B\<close>), the data members its body
  declares (none), and its \<^verbatim>\<open>__declspec(align(16))\<close>, where it has one.\<close>

fun vector_base :: "vector_wrapper \<Rightarrow> vector_type" where
  "vector_base MXMFLOAT2 = XMFLOAT2"
| "vector_base MXMFLOAT2A = XMFLOAT2A"
| "vector_base MXMINT2 = XMINT2"
| "vector_base MXMUINT2 = XMUINT2"
| "vector_base MXMFLOAT3 = XMFLOAT3"
| "vector_base MXMFLOAT3A = XMFLOAT3A"
| "vector_base MXMINT3 = XMINT3"
| "vector_base MXMUINT3 = XMUINT3"
| "vector_base MXMFLOAT4 = XMFLOAT4"
| "vector_base MXMFLOAT4A = XMFLOAT4A"
| "vector_base MXMINT4 = XMINT4"
| "vector_base MXMUINT4 = XMUINT4"

fun matrix_base :: "matrix_wrapper \<Rightarrow> matrix_type" where
  "matrix_base MXMFLOAT3X3 = XMFLOAT3X3"
| "matrix_base MXMFLOAT4X3 = XMFLOAT4X3"
| "matrix_base MXMFLOAT4X3A = XMFLOAT4X3A"
| "matrix_base MXMFLOAT4X4 = XMFLOAT4X4"
| "matrix_base MXMFLOAT4X4A = XMFLOAT4X4A"

fun vector_wrapper_members :: "vector_wrapper \<Rightarrow> string list" where
  "vector_wrapper_members MXMFLOAT2 = []"
| "vector_wrapper_members MXMFLOAT2A = []"
| "vector_wrapper_members MXMINT2 = []"
| "vector_wrapper_members MXMUINT2 = []"
| "vector_wrapper_members MXMFLOAT3 = []"
| "vector_wrapper_members MXMFLOAT3A = []"
| "vector_wrapper_members MXMINT3 = []"
| "vector_wrapper_members MXMUINT3 = []"
| "vector_wrapper_members MXMFLOAT4 = []"
| "vector_wrapper_members MXMFLOAT4A = []"
| "vector_wrapper_members MXMINT4 = []"
| "vector_wrapper_members MXMUINT4 = []"

fun matrix_wrapper_members :: "matrix_wrapper \<Rightarrow> string list" where
  "matrix_wrapper_members MXMFLOAT3X3 = []"
| "matrix_wrapper_members MXMFLOAT4X3 = []"
| "matrix_wrapper_members MXMFLOAT4X3A = []"
| "matrix_wrapper_members MXMFLOAT4X4 = []"
| "matrix_wrapper_members MXMFLOAT4X4A = []"

fun vector_wrapper_declspec_align :: "vector_wrapper \<Rightarrow> nat option" where
  "vector_wrapper_declspec_align MXMFLOAT2 = None"
| "vector_wrapper_declspec_align MXMFLOAT2A = Some 16"
| "vector_wrapper_declspec_align MXMINT2 = None"
| "vector_wrapper_declspec_align MXMUINT2 = None"
| "vector_wrapper_declspec_align MXMFLOAT3 = None"
| "vector_wrapper_declspec_align MXMFLOAT3A = Some 16"
| "vector_wrapper_declspec_align MXMINT3 = None"
| "vector_wrapper_declspec_align MXMUINT3 = None"
| "vector_wrapper_declspec_align MXMFLOAT4 = None"
| "vector_wrapper_declspec_align MXMFLOAT4A = Some 16"
| "vector_wrapper_declspec_align MXMINT4 = None"
| "vector_wrapper_declspec_align MXMUINT4 = None"

fun matrix_wrapper_declspec_align :: "matrix_wrapper \<Rightarrow> nat option" where
  "matrix_wrapper_declspec_align MXMFLOAT3X3 = None"
| "matrix_wrapper_declspec_align MXMFLOAT4X3 = None"
| "matrix_wrapper_declspec_align MXMFLOAT4X3A = Some 16"
| "matrix_wrapper_declspec_align MXMFLOAT4X4 = None"
| "matrix_wrapper_declspec_align MXMFLOAT4X4A = Some 16"

fun vector_wrapper_name :: "vector_wrapper \<Rightarrow> string" where
  "vector_wrapper_name MXMFLOAT2 = ''MXMFLOAT2''"
| "vector_wrapper_name MXMFLOAT2A = ''MXMFLOAT2A''"
| "vector_wrapper_name MXMINT2 = ''MXMINT2''"
| "vector_wrapper_name MXMUINT2 = ''MXMUINT2''"
| "vector_wrapper_name MXMFLOAT3 = ''MXMFLOAT3''"
| "vector_wrapper_name MXMFLOAT3A = ''MXMFLOAT3A''"
| "vector_wrapper_name MXMINT3 = ''MXMINT3''"
| "vector_wrapper_name MXMUINT3 = ''MXMUINT3''"
| "vector_wrapper_name MXMFLOAT4 = ''MXMFLOAT4''"
| "vector_wrapper_name MXMFLOAT4A = ''MXMFLOAT4A''"
| "vector_wrapper_name MXMINT4 = ''MXMINT4''"
| "vector_wrapper_name MXMUINT4 = ''MXMUINT4''"

fun matrix_wrapper_name :: "matrix_wrapper \<Rightarrow> string" where
  "matrix_wrapper_name MXMFLOAT3X3 = ''MXMFLOAT3X3''"
| "matrix_wrapper_name MXMFLOAT4X3 = ''MXMFLOAT4X3''"
| "matrix_wrapper_name MXMFLOAT4X3A = ''MXMFLOAT4X3A''"
| "matrix_wrapper_name MXMFLOAT4X4 = ''MXMFLOAT4X4''"
| "matrix_wrapper_name MXMFLOAT4X4A = ''MXMFLOAT4X4A''"

text \<open>An object of a derived struct holds its base subobject and then its own members;
  it is aligned as its base is, or more strictly where the struct says so.\<close>

definition vector_wrapper_components :: "vector_wrapper \<Rightarrow> nat" where
  "vector_wrapper_components w = vector_components (vector_base w) + length (vector_wrapper_members w)"

definition matrix_wrapper_components :: "matrix_wrapper \<Rightarrow> nat" where
  "matrix_wrapper_components w = matrix_components (matrix_base w) + length (matrix_wrapper_members w)"

definition vector_wrapper_alignment :: "vector_wrapper \<Rightarrow> nat" where
  "vector_wrapper_alignment w =
     (case vector_wrapper_declspec_align w of
        None \<Rightarrow> vector_alignment (vector_base w)
      | Some a \<Rightarrow> max a (vector_alignment (vector_base w)))"

definition matrix_wrapper_alignment :: "matrix_wrapper \<Rightarrow> nat" where
  "matrix_wrapper_alignment w =
     (case matrix_wrapper_declspec_align w of
        None \<Rightarrow> matrix_alignment (matrix_base w)
      | Some a \<Rightarrow> max a (matrix_alignment (matrix_base w)))"

subsection \<open>MXMFLOAT2\<close>

text \<open>
  Lines 120-138: \<^verbatim>\<open>struct MXMFLOAT2 : public XMFLOAT2\<close>. The body declares three
  forwarding constructors, the constructor from an XMVECTOR, the conversion operator to
  XMVECTOR and the assignment operator from an XMVECTOR; it declares no data member.
\<close>

definition MXMFLOAT2_ctor :: "'e DirectXMath \<Rightarrow> memory \<Rightarrow> addr \<Rightarrow> 'e + memory" where
  \<comment> \<open>\<^verbatim>\<open>MXMFLOAT2() : XMFLOAT2() {}\<close>\<close>
  "MXMFLOAT2_ctor lib h this = Inr (construct lib (Vector XMFLOAT2) h this)"

definition MXMFLOAT2_ctor_components ::
  "'e DirectXMath \<Rightarrow> memory \<Rightarrow> addr \<Rightarrow> 32 word \<Rightarrow> 32 word \<Rightarrow> 'e + memory" where
  \<comment> \<open>\<^verbatim>\<open>MXMFLOAT2(float ...) : XMFLOAT2(...) {}\<close>: the 2 components, in the order given\<close>
  "MXMFLOAT2_ctor_components lib h this x y =
     Inr (construct_components lib (Vector XMFLOAT2) h this
       [x, y])"

definition MXMFLOAT2_ctor_array ::
  "'e DirectXMath \<Rightarrow> memory \<Rightarrow> addr \<Rightarrow> addr \<Rightarrow> 'e + memory" where
  \<comment> \<open>\<^verbatim>\<open>explicit MXMFLOAT2(const float *pArray) : XMFLOAT2(pArray) {}\<close>\<close>
  "MXMFLOAT2_ctor_array lib h this pArray =
     Inr (construct_array lib (Vector XMFLOAT2) h this pArray)"

definition MXMFLOAT2_ctor_XMVECTOR ::
  "'e DirectXMath \<Rightarrow> memory \<Rightarrow> addr \<Rightarrow> XMVECTOR \<Rightarrow> 'e + memory" where
  \<comment> \<open>\<^verbatim>\<open>MXMFLOAT2(FXMVECTOR v) { XMStoreFloat2(this, v); }\<close>: the base is default-initialised first\<close>
  "MXMFLOAT2_ctor_XMVECTOR lib h this v =
     store_vector lib XMStoreFloat2 (default_initialize lib (Vector XMFLOAT2) h this) this v"

definition MXMFLOAT2_operator_XMVECTOR ::
  "'e DirectXMath \<Rightarrow> memory \<Rightarrow> addr \<Rightarrow> 'e + (XMVECTOR \<times> memory)" where
  \<comment> \<open>\<^verbatim>\<open>operator const XMVECTOR() const { return XMLoadFloat2(this); }\<close>\<close>
  "MXMFLOAT2_operator_XMVECTOR lib h this =
     (case load_vector lib XMLoadFloat2 h this of
        Inl e \<Rightarrow> Inl e | Inr v \<Rightarrow> Inr (v, h))"

definition MXMFLOAT2_operator_assign ::
  "'e DirectXMath \<Rightarrow> memory \<Rightarrow> addr \<Rightarrow> XMVECTOR \<Rightarrow> 'e + (addr \<times> memory)" where
  \<comment> \<open>\<^verbatim>\<open>MXMFLOAT2& operator= (const FXMVECTOR v) { XMStoreFloat2(this, v); return *this; }\<close>\<close>
  "MXMFLOAT2_operator_assign lib h this v =
     (case store_vector lib XMStoreFloat2 h this v of
        Inl e \<Rightarrow> Inl e | Inr h' \<Rightarrow> Inr (this, h'))"

subsection \<open>MXMFLOAT2A\<close>

text \<open>
  Lines 140-158: \<^verbatim>\<open>__declspec(align(16)) struct MXMFLOAT2A : public XMFLOAT2A\<close>. The body declares three
  forwarding constructors, the constructor from an XMVECTOR, the conversion operator to
  XMVECTOR and the assignment operator from an XMVECTOR; it declares no data member.
\<close>

definition MXMFLOAT2A_ctor :: "'e DirectXMath \<Rightarrow> memory \<Rightarrow> addr \<Rightarrow> 'e + memory" where
  \<comment> \<open>\<^verbatim>\<open>MXMFLOAT2A() : XMFLOAT2A() {}\<close>\<close>
  "MXMFLOAT2A_ctor lib h this = Inr (construct lib (Vector XMFLOAT2A) h this)"

definition MXMFLOAT2A_ctor_components ::
  "'e DirectXMath \<Rightarrow> memory \<Rightarrow> addr \<Rightarrow> 32 word \<Rightarrow> 32 word \<Rightarrow> 'e + memory" where
  \<comment> \<open>\<^verbatim>\<open>MXMFLOAT2A(float ...) : XMFLOAT2A(...) {}\<close>: the 2 components, in the order given\<close>
  "MXMFLOAT2A_ctor_components lib h this x y =
     Inr (construct_components lib (Vector XMFLOAT2A) h this
       [x, y])"

definition MXMFLOAT2A_ctor_array ::
  "'e DirectXMath \<Rightarrow> memory \<Rightarrow> addr \<Rightarrow> addr \<Rightarrow> 'e + memory" where
  \<comment> \<open>\<^verbatim>\<open>explicit MXMFLOAT2A(const float *pArray) : XMFLOAT2A(pArray) {}\<close>\<close>
  "MXMFLOAT2A_ctor_array lib h this pArray =
     Inr (construct_array lib (Vector XMFLOAT2A) h this pArray)"

definition MXMFLOAT2A_ctor_XMVECTOR ::
  "'e DirectXMath \<Rightarrow> memory \<Rightarrow> addr \<Rightarrow> XMVECTOR \<Rightarrow> 'e + memory" where
  \<comment> \<open>\<^verbatim>\<open>MXMFLOAT2A(FXMVECTOR v) { XMStoreFloat2A(this, v); }\<close>: the base is default-initialised first\<close>
  "MXMFLOAT2A_ctor_XMVECTOR lib h this v =
     store_vector lib XMStoreFloat2A (default_initialize lib (Vector XMFLOAT2A) h this) this v"

definition MXMFLOAT2A_operator_XMVECTOR ::
  "'e DirectXMath \<Rightarrow> memory \<Rightarrow> addr \<Rightarrow> 'e + (XMVECTOR \<times> memory)" where
  \<comment> \<open>\<^verbatim>\<open>operator const XMVECTOR() const { return XMLoadFloat2A(this); }\<close>\<close>
  "MXMFLOAT2A_operator_XMVECTOR lib h this =
     (case load_vector lib XMLoadFloat2A h this of
        Inl e \<Rightarrow> Inl e | Inr v \<Rightarrow> Inr (v, h))"

definition MXMFLOAT2A_operator_assign ::
  "'e DirectXMath \<Rightarrow> memory \<Rightarrow> addr \<Rightarrow> XMVECTOR \<Rightarrow> 'e + (addr \<times> memory)" where
  \<comment> \<open>\<^verbatim>\<open>MXMFLOAT2A& operator= (const FXMVECTOR v) { XMStoreFloat2A(this, v); return *this; }\<close>\<close>
  "MXMFLOAT2A_operator_assign lib h this v =
     (case store_vector lib XMStoreFloat2A h this v of
        Inl e \<Rightarrow> Inl e | Inr h' \<Rightarrow> Inr (this, h'))"

subsection \<open>MXMINT2\<close>

text \<open>
  Lines 160-178: \<^verbatim>\<open>struct MXMINT2 : public XMINT2\<close>. The body declares three
  forwarding constructors, the constructor from an XMVECTOR, the conversion operator to
  XMVECTOR and the assignment operator from an XMVECTOR; it declares no data member.
\<close>

definition MXMINT2_ctor :: "'e DirectXMath \<Rightarrow> memory \<Rightarrow> addr \<Rightarrow> 'e + memory" where
  \<comment> \<open>\<^verbatim>\<open>MXMINT2() : XMINT2() {}\<close>\<close>
  "MXMINT2_ctor lib h this = Inr (construct lib (Vector XMINT2) h this)"

definition MXMINT2_ctor_components ::
  "'e DirectXMath \<Rightarrow> memory \<Rightarrow> addr \<Rightarrow> 32 word \<Rightarrow> 32 word \<Rightarrow> 'e + memory" where
  \<comment> \<open>\<^verbatim>\<open>MXMINT2(int32_t ...) : XMINT2(...) {}\<close>: the 2 components, in the order given\<close>
  "MXMINT2_ctor_components lib h this x y =
     Inr (construct_components lib (Vector XMINT2) h this
       [x, y])"

definition MXMINT2_ctor_array ::
  "'e DirectXMath \<Rightarrow> memory \<Rightarrow> addr \<Rightarrow> addr \<Rightarrow> 'e + memory" where
  \<comment> \<open>\<^verbatim>\<open>explicit MXMINT2(const int32_t *pArray) : XMINT2(pArray) {}\<close>\<close>
  "MXMINT2_ctor_array lib h this pArray =
     Inr (construct_array lib (Vector XMINT2) h this pArray)"

definition MXMINT2_ctor_XMVECTOR ::
  "'e DirectXMath \<Rightarrow> memory \<Rightarrow> addr \<Rightarrow> XMVECTOR \<Rightarrow> 'e + memory" where
  \<comment> \<open>\<^verbatim>\<open>MXMINT2(FXMVECTOR v) { XMStoreSInt2(this, v); }\<close>: the base is default-initialised first\<close>
  "MXMINT2_ctor_XMVECTOR lib h this v =
     store_vector lib XMStoreSInt2 (default_initialize lib (Vector XMINT2) h this) this v"

definition MXMINT2_operator_XMVECTOR ::
  "'e DirectXMath \<Rightarrow> memory \<Rightarrow> addr \<Rightarrow> 'e + (XMVECTOR \<times> memory)" where
  \<comment> \<open>\<^verbatim>\<open>operator const XMVECTOR() const { return XMLoadSInt2(this); }\<close>\<close>
  "MXMINT2_operator_XMVECTOR lib h this =
     (case load_vector lib XMLoadSInt2 h this of
        Inl e \<Rightarrow> Inl e | Inr v \<Rightarrow> Inr (v, h))"

definition MXMINT2_operator_assign ::
  "'e DirectXMath \<Rightarrow> memory \<Rightarrow> addr \<Rightarrow> XMVECTOR \<Rightarrow> 'e + (addr \<times> memory)" where
  \<comment> \<open>\<^verbatim>\<open>MXMINT2& operator= (const FXMVECTOR v) { XMStoreSInt2(this, v); return *this; }\<close>\<close>
  "MXMINT2_operator_assign lib h this v =
     (case store_vector lib XMStoreSInt2 h this v of
        Inl e \<Rightarrow> Inl e | Inr h' \<Rightarrow> Inr (this, h'))"

subsection \<open>MXMUINT2\<close>

text \<open>
  Lines 180-198: \<^verbatim>\<open>struct MXMUINT2 : public XMUINT2\<close>. The body declares three
  forwarding constructors, the constructor from an XMVECTOR, the conversion operator to
  XMVECTOR and the assignment operator from an XMVECTOR; it declares no data member.
\<close>

definition MXMUINT2_ctor :: "'e DirectXMath \<Rightarrow> memory \<Rightarrow> addr \<Rightarrow> 'e + memory" where
  \<comment> \<open>\<^verbatim>\<open>MXMUINT2() : XMUINT2() {}\<close>\<close>
  "MXMUINT2_ctor lib h this = Inr (construct lib (Vector XMUINT2) h this)"

definition MXMUINT2_ctor_components ::
  "'e DirectXMath \<Rightarrow> memory \<Rightarrow> addr \<Rightarrow> 32 word \<Rightarrow> 32 word \<Rightarrow> 'e + memory" where
  \<comment> \<open>\<^verbatim>\<open>MXMUINT2(uint32_t ...) : XMUINT2(...) {}\<close>: the 2 components, in the order given\<close>
  "MXMUINT2_ctor_components lib h this x y =
     Inr (construct_components lib (Vector XMUINT2) h this
       [x, y])"

definition MXMUINT2_ctor_array ::
  "'e DirectXMath \<Rightarrow> memory \<Rightarrow> addr \<Rightarrow> addr \<Rightarrow> 'e + memory" where
  \<comment> \<open>\<^verbatim>\<open>explicit MXMUINT2(const uint32_t *pArray) : XMUINT2(pArray) {}\<close>\<close>
  "MXMUINT2_ctor_array lib h this pArray =
     Inr (construct_array lib (Vector XMUINT2) h this pArray)"

definition MXMUINT2_ctor_XMVECTOR ::
  "'e DirectXMath \<Rightarrow> memory \<Rightarrow> addr \<Rightarrow> XMVECTOR \<Rightarrow> 'e + memory" where
  \<comment> \<open>\<^verbatim>\<open>MXMUINT2(FXMVECTOR v) { XMStoreUInt2(this, v); }\<close>: the base is default-initialised first\<close>
  "MXMUINT2_ctor_XMVECTOR lib h this v =
     store_vector lib XMStoreUInt2 (default_initialize lib (Vector XMUINT2) h this) this v"

definition MXMUINT2_operator_XMVECTOR ::
  "'e DirectXMath \<Rightarrow> memory \<Rightarrow> addr \<Rightarrow> 'e + (XMVECTOR \<times> memory)" where
  \<comment> \<open>\<^verbatim>\<open>operator const XMVECTOR() const { return XMLoadUInt2(this); }\<close>\<close>
  "MXMUINT2_operator_XMVECTOR lib h this =
     (case load_vector lib XMLoadUInt2 h this of
        Inl e \<Rightarrow> Inl e | Inr v \<Rightarrow> Inr (v, h))"

definition MXMUINT2_operator_assign ::
  "'e DirectXMath \<Rightarrow> memory \<Rightarrow> addr \<Rightarrow> XMVECTOR \<Rightarrow> 'e + (addr \<times> memory)" where
  \<comment> \<open>\<^verbatim>\<open>MXMUINT2& operator= (const FXMVECTOR v) { XMStoreUInt2(this, v); return *this; }\<close>\<close>
  "MXMUINT2_operator_assign lib h this v =
     (case store_vector lib XMStoreUInt2 h this v of
        Inl e \<Rightarrow> Inl e | Inr h' \<Rightarrow> Inr (this, h'))"

subsection \<open>MXMFLOAT3\<close>

text \<open>
  Lines 203-221: \<^verbatim>\<open>struct MXMFLOAT3 : public XMFLOAT3\<close>. The body declares three
  forwarding constructors, the constructor from an XMVECTOR, the conversion operator to
  XMVECTOR and the assignment operator from an XMVECTOR; it declares no data member.
\<close>

definition MXMFLOAT3_ctor :: "'e DirectXMath \<Rightarrow> memory \<Rightarrow> addr \<Rightarrow> 'e + memory" where
  \<comment> \<open>\<^verbatim>\<open>MXMFLOAT3() : XMFLOAT3() {}\<close>\<close>
  "MXMFLOAT3_ctor lib h this = Inr (construct lib (Vector XMFLOAT3) h this)"

definition MXMFLOAT3_ctor_components ::
  "'e DirectXMath \<Rightarrow> memory \<Rightarrow> addr \<Rightarrow> 32 word \<Rightarrow> 32 word \<Rightarrow> 32 word \<Rightarrow> 'e + memory" where
  \<comment> \<open>\<^verbatim>\<open>MXMFLOAT3(float ...) : XMFLOAT3(...) {}\<close>: the 3 components, in the order given\<close>
  "MXMFLOAT3_ctor_components lib h this x y z =
     Inr (construct_components lib (Vector XMFLOAT3) h this
       [x, y, z])"

definition MXMFLOAT3_ctor_array ::
  "'e DirectXMath \<Rightarrow> memory \<Rightarrow> addr \<Rightarrow> addr \<Rightarrow> 'e + memory" where
  \<comment> \<open>\<^verbatim>\<open>explicit MXMFLOAT3(const float *pArray) : XMFLOAT3(pArray) {}\<close>\<close>
  "MXMFLOAT3_ctor_array lib h this pArray =
     Inr (construct_array lib (Vector XMFLOAT3) h this pArray)"

definition MXMFLOAT3_ctor_XMVECTOR ::
  "'e DirectXMath \<Rightarrow> memory \<Rightarrow> addr \<Rightarrow> XMVECTOR \<Rightarrow> 'e + memory" where
  \<comment> \<open>\<^verbatim>\<open>MXMFLOAT3(FXMVECTOR v) { XMStoreFloat3(this, v); }\<close>: the base is default-initialised first\<close>
  "MXMFLOAT3_ctor_XMVECTOR lib h this v =
     store_vector lib XMStoreFloat3 (default_initialize lib (Vector XMFLOAT3) h this) this v"

definition MXMFLOAT3_operator_XMVECTOR ::
  "'e DirectXMath \<Rightarrow> memory \<Rightarrow> addr \<Rightarrow> 'e + (XMVECTOR \<times> memory)" where
  \<comment> \<open>\<^verbatim>\<open>operator const XMVECTOR() const { return XMLoadFloat3(this); }\<close>\<close>
  "MXMFLOAT3_operator_XMVECTOR lib h this =
     (case load_vector lib XMLoadFloat3 h this of
        Inl e \<Rightarrow> Inl e | Inr v \<Rightarrow> Inr (v, h))"

definition MXMFLOAT3_operator_assign ::
  "'e DirectXMath \<Rightarrow> memory \<Rightarrow> addr \<Rightarrow> XMVECTOR \<Rightarrow> 'e + (addr \<times> memory)" where
  \<comment> \<open>\<^verbatim>\<open>MXMFLOAT3& operator= (const FXMVECTOR v) { XMStoreFloat3(this, v); return *this; }\<close>\<close>
  "MXMFLOAT3_operator_assign lib h this v =
     (case store_vector lib XMStoreFloat3 h this v of
        Inl e \<Rightarrow> Inl e | Inr h' \<Rightarrow> Inr (this, h'))"

subsection \<open>MXMFLOAT3A\<close>

text \<open>
  Lines 223-241: \<^verbatim>\<open>__declspec(align(16)) struct MXMFLOAT3A : public XMFLOAT3A\<close>. The body declares three
  forwarding constructors, the constructor from an XMVECTOR, the conversion operator to
  XMVECTOR and the assignment operator from an XMVECTOR; it declares no data member.
\<close>

definition MXMFLOAT3A_ctor :: "'e DirectXMath \<Rightarrow> memory \<Rightarrow> addr \<Rightarrow> 'e + memory" where
  \<comment> \<open>\<^verbatim>\<open>MXMFLOAT3A() : XMFLOAT3A() {}\<close>\<close>
  "MXMFLOAT3A_ctor lib h this = Inr (construct lib (Vector XMFLOAT3A) h this)"

definition MXMFLOAT3A_ctor_components ::
  "'e DirectXMath \<Rightarrow> memory \<Rightarrow> addr \<Rightarrow> 32 word \<Rightarrow> 32 word \<Rightarrow> 32 word \<Rightarrow> 'e + memory" where
  \<comment> \<open>\<^verbatim>\<open>MXMFLOAT3A(float ...) : XMFLOAT3A(...) {}\<close>: the 3 components, in the order given\<close>
  "MXMFLOAT3A_ctor_components lib h this x y z =
     Inr (construct_components lib (Vector XMFLOAT3A) h this
       [x, y, z])"

definition MXMFLOAT3A_ctor_array ::
  "'e DirectXMath \<Rightarrow> memory \<Rightarrow> addr \<Rightarrow> addr \<Rightarrow> 'e + memory" where
  \<comment> \<open>\<^verbatim>\<open>explicit MXMFLOAT3A(const float *pArray) : XMFLOAT3A(pArray) {}\<close>\<close>
  "MXMFLOAT3A_ctor_array lib h this pArray =
     Inr (construct_array lib (Vector XMFLOAT3A) h this pArray)"

definition MXMFLOAT3A_ctor_XMVECTOR ::
  "'e DirectXMath \<Rightarrow> memory \<Rightarrow> addr \<Rightarrow> XMVECTOR \<Rightarrow> 'e + memory" where
  \<comment> \<open>\<^verbatim>\<open>MXMFLOAT3A(FXMVECTOR v) { XMStoreFloat3A(this, v); }\<close>: the base is default-initialised first\<close>
  "MXMFLOAT3A_ctor_XMVECTOR lib h this v =
     store_vector lib XMStoreFloat3A (default_initialize lib (Vector XMFLOAT3A) h this) this v"

definition MXMFLOAT3A_operator_XMVECTOR ::
  "'e DirectXMath \<Rightarrow> memory \<Rightarrow> addr \<Rightarrow> 'e + (XMVECTOR \<times> memory)" where
  \<comment> \<open>\<^verbatim>\<open>operator const XMVECTOR() const { return XMLoadFloat3A(this); }\<close>\<close>
  "MXMFLOAT3A_operator_XMVECTOR lib h this =
     (case load_vector lib XMLoadFloat3A h this of
        Inl e \<Rightarrow> Inl e | Inr v \<Rightarrow> Inr (v, h))"

definition MXMFLOAT3A_operator_assign ::
  "'e DirectXMath \<Rightarrow> memory \<Rightarrow> addr \<Rightarrow> XMVECTOR \<Rightarrow> 'e + (addr \<times> memory)" where
  \<comment> \<open>\<^verbatim>\<open>MXMFLOAT3A& operator= (const FXMVECTOR v) { XMStoreFloat3A(this, v); return *this; }\<close>\<close>
  "MXMFLOAT3A_operator_assign lib h this v =
     (case store_vector lib XMStoreFloat3A h this v of
        Inl e \<Rightarrow> Inl e | Inr h' \<Rightarrow> Inr (this, h'))"

subsection \<open>MXMINT3\<close>

text \<open>
  Lines 243-261: \<^verbatim>\<open>struct MXMINT3 : public XMINT3\<close>. The body declares three
  forwarding constructors, the constructor from an XMVECTOR, the conversion operator to
  XMVECTOR and the assignment operator from an XMVECTOR; it declares no data member.
\<close>

definition MXMINT3_ctor :: "'e DirectXMath \<Rightarrow> memory \<Rightarrow> addr \<Rightarrow> 'e + memory" where
  \<comment> \<open>\<^verbatim>\<open>MXMINT3() : XMINT3() {}\<close>\<close>
  "MXMINT3_ctor lib h this = Inr (construct lib (Vector XMINT3) h this)"

definition MXMINT3_ctor_components ::
  "'e DirectXMath \<Rightarrow> memory \<Rightarrow> addr \<Rightarrow> 32 word \<Rightarrow> 32 word \<Rightarrow> 32 word \<Rightarrow> 'e + memory" where
  \<comment> \<open>\<^verbatim>\<open>MXMINT3(int32_t ...) : XMINT3(...) {}\<close>: the 3 components, in the order given\<close>
  "MXMINT3_ctor_components lib h this x y z =
     Inr (construct_components lib (Vector XMINT3) h this
       [x, y, z])"

definition MXMINT3_ctor_array ::
  "'e DirectXMath \<Rightarrow> memory \<Rightarrow> addr \<Rightarrow> addr \<Rightarrow> 'e + memory" where
  \<comment> \<open>\<^verbatim>\<open>explicit MXMINT3(const int32_t *pArray) : XMINT3(pArray) {}\<close>\<close>
  "MXMINT3_ctor_array lib h this pArray =
     Inr (construct_array lib (Vector XMINT3) h this pArray)"

definition MXMINT3_ctor_XMVECTOR ::
  "'e DirectXMath \<Rightarrow> memory \<Rightarrow> addr \<Rightarrow> XMVECTOR \<Rightarrow> 'e + memory" where
  \<comment> \<open>\<^verbatim>\<open>MXMINT3(FXMVECTOR v) { XMStoreSInt3(this, v); }\<close>: the base is default-initialised first\<close>
  "MXMINT3_ctor_XMVECTOR lib h this v =
     store_vector lib XMStoreSInt3 (default_initialize lib (Vector XMINT3) h this) this v"

definition MXMINT3_operator_XMVECTOR ::
  "'e DirectXMath \<Rightarrow> memory \<Rightarrow> addr \<Rightarrow> 'e + (XMVECTOR \<times> memory)" where
  \<comment> \<open>\<^verbatim>\<open>operator const XMVECTOR() const { return XMLoadSInt3(this); }\<close>\<close>
  "MXMINT3_operator_XMVECTOR lib h this =
     (case load_vector lib XMLoadSInt3 h this of
        Inl e \<Rightarrow> Inl e | Inr v \<Rightarrow> Inr (v, h))"

definition MXMINT3_operator_assign ::
  "'e DirectXMath \<Rightarrow> memory \<Rightarrow> addr \<Rightarrow> XMVECTOR \<Rightarrow> 'e + (addr \<times> memory)" where
  \<comment> \<open>\<^verbatim>\<open>MXMINT3& operator= (const FXMVECTOR v) { XMStoreSInt3(this, v); return *this; }\<close>\<close>
  "MXMINT3_operator_assign lib h this v =
     (case store_vector lib XMStoreSInt3 h this v of
        Inl e \<Rightarrow> Inl e | Inr h' \<Rightarrow> Inr (this, h'))"

subsection \<open>MXMUINT3\<close>

text \<open>
  Lines 263-281: \<^verbatim>\<open>struct MXMUINT3 : public XMUINT3\<close>. The body declares three
  forwarding constructors, the constructor from an XMVECTOR, the conversion operator to
  XMVECTOR and the assignment operator from an XMVECTOR; it declares no data member.
\<close>

definition MXMUINT3_ctor :: "'e DirectXMath \<Rightarrow> memory \<Rightarrow> addr \<Rightarrow> 'e + memory" where
  \<comment> \<open>\<^verbatim>\<open>MXMUINT3() : XMUINT3() {}\<close>\<close>
  "MXMUINT3_ctor lib h this = Inr (construct lib (Vector XMUINT3) h this)"

definition MXMUINT3_ctor_components ::
  "'e DirectXMath \<Rightarrow> memory \<Rightarrow> addr \<Rightarrow> 32 word \<Rightarrow> 32 word \<Rightarrow> 32 word \<Rightarrow> 'e + memory" where
  \<comment> \<open>\<^verbatim>\<open>MXMUINT3(uint32_t ...) : XMUINT3(...) {}\<close>: the 3 components, in the order given\<close>
  "MXMUINT3_ctor_components lib h this x y z =
     Inr (construct_components lib (Vector XMUINT3) h this
       [x, y, z])"

definition MXMUINT3_ctor_array ::
  "'e DirectXMath \<Rightarrow> memory \<Rightarrow> addr \<Rightarrow> addr \<Rightarrow> 'e + memory" where
  \<comment> \<open>\<^verbatim>\<open>explicit MXMUINT3(const uint32_t *pArray) : XMUINT3(pArray) {}\<close>\<close>
  "MXMUINT3_ctor_array lib h this pArray =
     Inr (construct_array lib (Vector XMUINT3) h this pArray)"

definition MXMUINT3_ctor_XMVECTOR ::
  "'e DirectXMath \<Rightarrow> memory \<Rightarrow> addr \<Rightarrow> XMVECTOR \<Rightarrow> 'e + memory" where
  \<comment> \<open>\<^verbatim>\<open>MXMUINT3(FXMVECTOR v) { XMStoreUInt3(this, v); }\<close>: the base is default-initialised first\<close>
  "MXMUINT3_ctor_XMVECTOR lib h this v =
     store_vector lib XMStoreUInt3 (default_initialize lib (Vector XMUINT3) h this) this v"

definition MXMUINT3_operator_XMVECTOR ::
  "'e DirectXMath \<Rightarrow> memory \<Rightarrow> addr \<Rightarrow> 'e + (XMVECTOR \<times> memory)" where
  \<comment> \<open>\<^verbatim>\<open>operator const XMVECTOR() const { return XMLoadUInt3(this); }\<close>\<close>
  "MXMUINT3_operator_XMVECTOR lib h this =
     (case load_vector lib XMLoadUInt3 h this of
        Inl e \<Rightarrow> Inl e | Inr v \<Rightarrow> Inr (v, h))"

definition MXMUINT3_operator_assign ::
  "'e DirectXMath \<Rightarrow> memory \<Rightarrow> addr \<Rightarrow> XMVECTOR \<Rightarrow> 'e + (addr \<times> memory)" where
  \<comment> \<open>\<^verbatim>\<open>MXMUINT3& operator= (const FXMVECTOR v) { XMStoreUInt3(this, v); return *this; }\<close>\<close>
  "MXMUINT3_operator_assign lib h this v =
     (case store_vector lib XMStoreUInt3 h this v of
        Inl e \<Rightarrow> Inl e | Inr h' \<Rightarrow> Inr (this, h'))"

subsection \<open>MXMFLOAT4\<close>

text \<open>
  Lines 286-304: \<^verbatim>\<open>struct MXMFLOAT4 : public XMFLOAT4\<close>. The body declares three
  forwarding constructors, the constructor from an XMVECTOR, the conversion operator to
  XMVECTOR and the assignment operator from an XMVECTOR; it declares no data member.
\<close>

definition MXMFLOAT4_ctor :: "'e DirectXMath \<Rightarrow> memory \<Rightarrow> addr \<Rightarrow> 'e + memory" where
  \<comment> \<open>\<^verbatim>\<open>MXMFLOAT4() : XMFLOAT4() {}\<close>\<close>
  "MXMFLOAT4_ctor lib h this = Inr (construct lib (Vector XMFLOAT4) h this)"

definition MXMFLOAT4_ctor_components ::
  "'e DirectXMath \<Rightarrow> memory \<Rightarrow> addr \<Rightarrow> 32 word \<Rightarrow> 32 word \<Rightarrow> 32 word \<Rightarrow> 32 word \<Rightarrow> 'e + memory" where
  \<comment> \<open>\<^verbatim>\<open>MXMFLOAT4(float ...) : XMFLOAT4(...) {}\<close>: the 4 components, in the order given\<close>
  "MXMFLOAT4_ctor_components lib h this x y z w =
     Inr (construct_components lib (Vector XMFLOAT4) h this
       [x, y, z, w])"

definition MXMFLOAT4_ctor_array ::
  "'e DirectXMath \<Rightarrow> memory \<Rightarrow> addr \<Rightarrow> addr \<Rightarrow> 'e + memory" where
  \<comment> \<open>\<^verbatim>\<open>explicit MXMFLOAT4(const float *pArray) : XMFLOAT4(pArray) {}\<close>\<close>
  "MXMFLOAT4_ctor_array lib h this pArray =
     Inr (construct_array lib (Vector XMFLOAT4) h this pArray)"

definition MXMFLOAT4_ctor_XMVECTOR ::
  "'e DirectXMath \<Rightarrow> memory \<Rightarrow> addr \<Rightarrow> XMVECTOR \<Rightarrow> 'e + memory" where
  \<comment> \<open>\<^verbatim>\<open>MXMFLOAT4(FXMVECTOR v) { XMStoreFloat4(this, v); }\<close>: the base is default-initialised first\<close>
  "MXMFLOAT4_ctor_XMVECTOR lib h this v =
     store_vector lib XMStoreFloat4 (default_initialize lib (Vector XMFLOAT4) h this) this v"

definition MXMFLOAT4_operator_XMVECTOR ::
  "'e DirectXMath \<Rightarrow> memory \<Rightarrow> addr \<Rightarrow> 'e + (XMVECTOR \<times> memory)" where
  \<comment> \<open>\<^verbatim>\<open>operator const XMVECTOR() const { return XMLoadFloat4(this); }\<close>\<close>
  "MXMFLOAT4_operator_XMVECTOR lib h this =
     (case load_vector lib XMLoadFloat4 h this of
        Inl e \<Rightarrow> Inl e | Inr v \<Rightarrow> Inr (v, h))"

definition MXMFLOAT4_operator_assign ::
  "'e DirectXMath \<Rightarrow> memory \<Rightarrow> addr \<Rightarrow> XMVECTOR \<Rightarrow> 'e + (addr \<times> memory)" where
  \<comment> \<open>\<^verbatim>\<open>MXMFLOAT4& operator= (const FXMVECTOR v) { XMStoreFloat4(this, v); return *this; }\<close>\<close>
  "MXMFLOAT4_operator_assign lib h this v =
     (case store_vector lib XMStoreFloat4 h this v of
        Inl e \<Rightarrow> Inl e | Inr h' \<Rightarrow> Inr (this, h'))"

subsection \<open>MXMFLOAT4A\<close>

text \<open>
  Lines 306-324: \<^verbatim>\<open>__declspec(align(16)) struct MXMFLOAT4A : public XMFLOAT4A\<close>. The body declares three
  forwarding constructors, the constructor from an XMVECTOR, the conversion operator to
  XMVECTOR and the assignment operator from an XMVECTOR; it declares no data member.
\<close>

definition MXMFLOAT4A_ctor :: "'e DirectXMath \<Rightarrow> memory \<Rightarrow> addr \<Rightarrow> 'e + memory" where
  \<comment> \<open>\<^verbatim>\<open>MXMFLOAT4A() : XMFLOAT4A() {}\<close>\<close>
  "MXMFLOAT4A_ctor lib h this = Inr (construct lib (Vector XMFLOAT4A) h this)"

definition MXMFLOAT4A_ctor_components ::
  "'e DirectXMath \<Rightarrow> memory \<Rightarrow> addr \<Rightarrow> 32 word \<Rightarrow> 32 word \<Rightarrow> 32 word \<Rightarrow> 32 word \<Rightarrow> 'e + memory" where
  \<comment> \<open>\<^verbatim>\<open>MXMFLOAT4A(float ...) : XMFLOAT4A(...) {}\<close>: the 4 components, in the order given\<close>
  "MXMFLOAT4A_ctor_components lib h this x y z w =
     Inr (construct_components lib (Vector XMFLOAT4A) h this
       [x, y, z, w])"

definition MXMFLOAT4A_ctor_array ::
  "'e DirectXMath \<Rightarrow> memory \<Rightarrow> addr \<Rightarrow> addr \<Rightarrow> 'e + memory" where
  \<comment> \<open>\<^verbatim>\<open>explicit MXMFLOAT4A(const float *pArray) : XMFLOAT4A(pArray) {}\<close>\<close>
  "MXMFLOAT4A_ctor_array lib h this pArray =
     Inr (construct_array lib (Vector XMFLOAT4A) h this pArray)"

definition MXMFLOAT4A_ctor_XMVECTOR ::
  "'e DirectXMath \<Rightarrow> memory \<Rightarrow> addr \<Rightarrow> XMVECTOR \<Rightarrow> 'e + memory" where
  \<comment> \<open>\<^verbatim>\<open>MXMFLOAT4A(FXMVECTOR v) { XMStoreFloat4A(this, v); }\<close>: the base is default-initialised first\<close>
  "MXMFLOAT4A_ctor_XMVECTOR lib h this v =
     store_vector lib XMStoreFloat4A (default_initialize lib (Vector XMFLOAT4A) h this) this v"

definition MXMFLOAT4A_operator_XMVECTOR ::
  "'e DirectXMath \<Rightarrow> memory \<Rightarrow> addr \<Rightarrow> 'e + (XMVECTOR \<times> memory)" where
  \<comment> \<open>\<^verbatim>\<open>operator const XMVECTOR() const { return XMLoadFloat4A(this); }\<close>\<close>
  "MXMFLOAT4A_operator_XMVECTOR lib h this =
     (case load_vector lib XMLoadFloat4A h this of
        Inl e \<Rightarrow> Inl e | Inr v \<Rightarrow> Inr (v, h))"

definition MXMFLOAT4A_operator_assign ::
  "'e DirectXMath \<Rightarrow> memory \<Rightarrow> addr \<Rightarrow> XMVECTOR \<Rightarrow> 'e + (addr \<times> memory)" where
  \<comment> \<open>\<^verbatim>\<open>MXMFLOAT4A& operator= (const FXMVECTOR v) { XMStoreFloat4A(this, v); return *this; }\<close>\<close>
  "MXMFLOAT4A_operator_assign lib h this v =
     (case store_vector lib XMStoreFloat4A h this v of
        Inl e \<Rightarrow> Inl e | Inr h' \<Rightarrow> Inr (this, h'))"

subsection \<open>MXMINT4\<close>

text \<open>
  Lines 326-344: \<^verbatim>\<open>struct MXMINT4 : public XMINT4\<close>. The body declares three
  forwarding constructors, the constructor from an XMVECTOR, the conversion operator to
  XMVECTOR and the assignment operator from an XMVECTOR; it declares no data member.
\<close>

definition MXMINT4_ctor :: "'e DirectXMath \<Rightarrow> memory \<Rightarrow> addr \<Rightarrow> 'e + memory" where
  \<comment> \<open>\<^verbatim>\<open>MXMINT4() : XMINT4() {}\<close>\<close>
  "MXMINT4_ctor lib h this = Inr (construct lib (Vector XMINT4) h this)"

definition MXMINT4_ctor_components ::
  "'e DirectXMath \<Rightarrow> memory \<Rightarrow> addr \<Rightarrow> 32 word \<Rightarrow> 32 word \<Rightarrow> 32 word \<Rightarrow> 32 word \<Rightarrow> 'e + memory" where
  \<comment> \<open>\<^verbatim>\<open>MXMINT4(int32_t ...) : XMINT4(...) {}\<close>: the 4 components, in the order given\<close>
  "MXMINT4_ctor_components lib h this x y z w =
     Inr (construct_components lib (Vector XMINT4) h this
       [x, y, z, w])"

definition MXMINT4_ctor_array ::
  "'e DirectXMath \<Rightarrow> memory \<Rightarrow> addr \<Rightarrow> addr \<Rightarrow> 'e + memory" where
  \<comment> \<open>\<^verbatim>\<open>explicit MXMINT4(const int32_t *pArray) : XMINT4(pArray) {}\<close>\<close>
  "MXMINT4_ctor_array lib h this pArray =
     Inr (construct_array lib (Vector XMINT4) h this pArray)"

definition MXMINT4_ctor_XMVECTOR ::
  "'e DirectXMath \<Rightarrow> memory \<Rightarrow> addr \<Rightarrow> XMVECTOR \<Rightarrow> 'e + memory" where
  \<comment> \<open>\<^verbatim>\<open>MXMINT4(FXMVECTOR v) { XMStoreSInt4(this, v); }\<close>: the base is default-initialised first\<close>
  "MXMINT4_ctor_XMVECTOR lib h this v =
     store_vector lib XMStoreSInt4 (default_initialize lib (Vector XMINT4) h this) this v"

definition MXMINT4_operator_XMVECTOR ::
  "'e DirectXMath \<Rightarrow> memory \<Rightarrow> addr \<Rightarrow> 'e + (XMVECTOR \<times> memory)" where
  \<comment> \<open>\<^verbatim>\<open>operator const XMVECTOR() const { return XMLoadSInt4(this); }\<close>\<close>
  "MXMINT4_operator_XMVECTOR lib h this =
     (case load_vector lib XMLoadSInt4 h this of
        Inl e \<Rightarrow> Inl e | Inr v \<Rightarrow> Inr (v, h))"

definition MXMINT4_operator_assign ::
  "'e DirectXMath \<Rightarrow> memory \<Rightarrow> addr \<Rightarrow> XMVECTOR \<Rightarrow> 'e + (addr \<times> memory)" where
  \<comment> \<open>\<^verbatim>\<open>MXMINT4& operator= (const FXMVECTOR v) { XMStoreSInt4(this, v); return *this; }\<close>\<close>
  "MXMINT4_operator_assign lib h this v =
     (case store_vector lib XMStoreSInt4 h this v of
        Inl e \<Rightarrow> Inl e | Inr h' \<Rightarrow> Inr (this, h'))"

subsection \<open>MXMUINT4\<close>

text \<open>
  Lines 346-364: \<^verbatim>\<open>struct MXMUINT4 : public XMUINT4\<close>. The body declares three
  forwarding constructors, the constructor from an XMVECTOR, the conversion operator to
  XMVECTOR and the assignment operator from an XMVECTOR; it declares no data member.
\<close>

definition MXMUINT4_ctor :: "'e DirectXMath \<Rightarrow> memory \<Rightarrow> addr \<Rightarrow> 'e + memory" where
  \<comment> \<open>\<^verbatim>\<open>MXMUINT4() : XMUINT4() {}\<close>\<close>
  "MXMUINT4_ctor lib h this = Inr (construct lib (Vector XMUINT4) h this)"

definition MXMUINT4_ctor_components ::
  "'e DirectXMath \<Rightarrow> memory \<Rightarrow> addr \<Rightarrow> 32 word \<Rightarrow> 32 word \<Rightarrow> 32 word \<Rightarrow> 32 word \<Rightarrow> 'e + memory" where
  \<comment> \<open>\<^verbatim>\<open>MXMUINT4(uint32_t ...) : XMUINT4(...) {}\<close>: the 4 components, in the order given\<close>
  "MXMUINT4_ctor_components lib h this x y z w =
     Inr (construct_components lib (Vector XMUINT4) h this
       [x, y, z, w])"

definition MXMUINT4_ctor_array ::
  "'e DirectXMath \<Rightarrow> memory \<Rightarrow> addr \<Rightarrow> addr \<Rightarrow> 'e + memory" where
  \<comment> \<open>\<^verbatim>\<open>explicit MXMUINT4(const uint32_t *pArray) : XMUINT4(pArray) {}\<close>\<close>
  "MXMUINT4_ctor_array lib h this pArray =
     Inr (construct_array lib (Vector XMUINT4) h this pArray)"

definition MXMUINT4_ctor_XMVECTOR ::
  "'e DirectXMath \<Rightarrow> memory \<Rightarrow> addr \<Rightarrow> XMVECTOR \<Rightarrow> 'e + memory" where
  \<comment> \<open>\<^verbatim>\<open>MXMUINT4(FXMVECTOR v) { XMStoreUInt4(this, v); }\<close>: the base is default-initialised first\<close>
  "MXMUINT4_ctor_XMVECTOR lib h this v =
     store_vector lib XMStoreUInt4 (default_initialize lib (Vector XMUINT4) h this) this v"

definition MXMUINT4_operator_XMVECTOR ::
  "'e DirectXMath \<Rightarrow> memory \<Rightarrow> addr \<Rightarrow> 'e + (XMVECTOR \<times> memory)" where
  \<comment> \<open>\<^verbatim>\<open>operator const XMVECTOR() const { return XMLoadUInt4(this); }\<close>\<close>
  "MXMUINT4_operator_XMVECTOR lib h this =
     (case load_vector lib XMLoadUInt4 h this of
        Inl e \<Rightarrow> Inl e | Inr v \<Rightarrow> Inr (v, h))"

definition MXMUINT4_operator_assign ::
  "'e DirectXMath \<Rightarrow> memory \<Rightarrow> addr \<Rightarrow> XMVECTOR \<Rightarrow> 'e + (addr \<times> memory)" where
  \<comment> \<open>\<^verbatim>\<open>MXMUINT4& operator= (const FXMVECTOR v) { XMStoreUInt4(this, v); return *this; }\<close>\<close>
  "MXMUINT4_operator_assign lib h this v =
     (case store_vector lib XMStoreUInt4 h this v of
        Inl e \<Rightarrow> Inl e | Inr h' \<Rightarrow> Inr (this, h'))"

subsection \<open>MXMFLOAT3X3\<close>

text \<open>
  Lines 369-391: \<^verbatim>\<open>struct MXMFLOAT3X3 : public XMFLOAT3X3\<close>. The body declares three
  forwarding constructors, the constructor from an XMMATRIX, the conversion operator to
  XMMATRIX and the assignment operator from an XMMATRIX; it declares no data member.
\<close>

definition MXMFLOAT3X3_ctor :: "'e DirectXMath \<Rightarrow> memory \<Rightarrow> addr \<Rightarrow> 'e + memory" where
  \<comment> \<open>\<^verbatim>\<open>MXMFLOAT3X3() : XMFLOAT3X3() {}\<close>\<close>
  "MXMFLOAT3X3_ctor lib h this = Inr (construct lib (Matrix XMFLOAT3X3) h this)"

definition MXMFLOAT3X3_ctor_components ::
  "'e DirectXMath \<Rightarrow> memory \<Rightarrow> addr \<Rightarrow> 32 word \<Rightarrow> 32 word \<Rightarrow> 32 word \<Rightarrow> 32 word \<Rightarrow> 32 word \<Rightarrow> 32 word \<Rightarrow> 32 word \<Rightarrow> 32 word \<Rightarrow> 32 word \<Rightarrow> 'e + memory" where
  \<comment> \<open>\<^verbatim>\<open>MXMFLOAT3X3(float ...) : XMFLOAT3X3(...) {}\<close>: the 9 components, in the order given\<close>
  "MXMFLOAT3X3_ctor_components lib h this m00 m01 m02 m10 m11 m12 m20 m21 m22 =
     Inr (construct_components lib (Matrix XMFLOAT3X3) h this
       [m00, m01, m02, m10, m11, m12, m20, m21, m22])"

definition MXMFLOAT3X3_ctor_array ::
  "'e DirectXMath \<Rightarrow> memory \<Rightarrow> addr \<Rightarrow> addr \<Rightarrow> 'e + memory" where
  \<comment> \<open>\<^verbatim>\<open>explicit MXMFLOAT3X3(const float *pArray) : XMFLOAT3X3(pArray) {}\<close>\<close>
  "MXMFLOAT3X3_ctor_array lib h this pArray =
     Inr (construct_array lib (Matrix XMFLOAT3X3) h this pArray)"

definition MXMFLOAT3X3_ctor_XMMATRIX ::
  "'e DirectXMath \<Rightarrow> memory \<Rightarrow> addr \<Rightarrow> XMMATRIX \<Rightarrow> 'e + memory" where
  \<comment> \<open>\<^verbatim>\<open>MXMFLOAT3X3(CXMMATRIX m) { XMStoreFloat3x3(this, m); }\<close>: the base is default-initialised first\<close>
  "MXMFLOAT3X3_ctor_XMMATRIX lib h this m =
     store_matrix lib XMStoreFloat3x3 (default_initialize lib (Matrix XMFLOAT3X3) h this) this m"

definition MXMFLOAT3X3_operator_XMMATRIX ::
  "'e DirectXMath \<Rightarrow> memory \<Rightarrow> addr \<Rightarrow> 'e + (XMMATRIX \<times> memory)" where
  \<comment> \<open>\<^verbatim>\<open>operator const XMMATRIX() const { return XMLoadFloat3x3(this); }\<close>\<close>
  "MXMFLOAT3X3_operator_XMMATRIX lib h this =
     (case load_matrix lib XMLoadFloat3x3 h this of
        Inl e \<Rightarrow> Inl e | Inr m \<Rightarrow> Inr (m, h))"

definition MXMFLOAT3X3_operator_assign ::
  "'e DirectXMath \<Rightarrow> memory \<Rightarrow> addr \<Rightarrow> XMMATRIX \<Rightarrow> 'e + (addr \<times> memory)" where
  \<comment> \<open>\<^verbatim>\<open>MXMFLOAT3X3& operator= (const FXMMATRIX m) { XMStoreFloat3x3(this, m); return *this; }\<close>\<close>
  "MXMFLOAT3X3_operator_assign lib h this m =
     (case store_matrix lib XMStoreFloat3x3 h this m of
        Inl e \<Rightarrow> Inl e | Inr h' \<Rightarrow> Inr (this, h'))"

subsection \<open>MXMFLOAT4X3\<close>

text \<open>
  Lines 396-419: \<^verbatim>\<open>struct MXMFLOAT4X3 : public XMFLOAT4X3\<close>. The body declares three
  forwarding constructors, the constructor from an XMMATRIX, the conversion operator to
  XMMATRIX and the assignment operator from an XMMATRIX; it declares no data member.
\<close>

definition MXMFLOAT4X3_ctor :: "'e DirectXMath \<Rightarrow> memory \<Rightarrow> addr \<Rightarrow> 'e + memory" where
  \<comment> \<open>\<^verbatim>\<open>MXMFLOAT4X3() : XMFLOAT4X3() {}\<close>\<close>
  "MXMFLOAT4X3_ctor lib h this = Inr (construct lib (Matrix XMFLOAT4X3) h this)"

definition MXMFLOAT4X3_ctor_components ::
  "'e DirectXMath \<Rightarrow> memory \<Rightarrow> addr \<Rightarrow> 32 word \<Rightarrow> 32 word \<Rightarrow> 32 word \<Rightarrow> 32 word \<Rightarrow> 32 word \<Rightarrow> 32 word \<Rightarrow> 32 word \<Rightarrow> 32 word \<Rightarrow> 32 word \<Rightarrow> 32 word \<Rightarrow> 32 word \<Rightarrow> 32 word \<Rightarrow> 'e + memory" where
  \<comment> \<open>\<^verbatim>\<open>MXMFLOAT4X3(float ...) : XMFLOAT4X3(...) {}\<close>: the 12 components, in the order given\<close>
  "MXMFLOAT4X3_ctor_components lib h this m00 m01 m02 m10 m11 m12 m20 m21 m22 m30 m31 m32 =
     Inr (construct_components lib (Matrix XMFLOAT4X3) h this
       [m00, m01, m02, m10, m11, m12, m20, m21, m22, m30, m31, m32])"

definition MXMFLOAT4X3_ctor_array ::
  "'e DirectXMath \<Rightarrow> memory \<Rightarrow> addr \<Rightarrow> addr \<Rightarrow> 'e + memory" where
  \<comment> \<open>\<^verbatim>\<open>explicit MXMFLOAT4X3(const float *pArray) : XMFLOAT4X3(pArray) {}\<close>\<close>
  "MXMFLOAT4X3_ctor_array lib h this pArray =
     Inr (construct_array lib (Matrix XMFLOAT4X3) h this pArray)"

definition MXMFLOAT4X3_ctor_XMMATRIX ::
  "'e DirectXMath \<Rightarrow> memory \<Rightarrow> addr \<Rightarrow> XMMATRIX \<Rightarrow> 'e + memory" where
  \<comment> \<open>\<^verbatim>\<open>MXMFLOAT4X3(CXMMATRIX m) { XMStoreFloat4x3(this, m); }\<close>: the base is default-initialised first\<close>
  "MXMFLOAT4X3_ctor_XMMATRIX lib h this m =
     store_matrix lib XMStoreFloat4x3 (default_initialize lib (Matrix XMFLOAT4X3) h this) this m"

definition MXMFLOAT4X3_operator_XMMATRIX ::
  "'e DirectXMath \<Rightarrow> memory \<Rightarrow> addr \<Rightarrow> 'e + (XMMATRIX \<times> memory)" where
  \<comment> \<open>\<^verbatim>\<open>operator const XMMATRIX() const { return XMLoadFloat4x3(this); }\<close>\<close>
  "MXMFLOAT4X3_operator_XMMATRIX lib h this =
     (case load_matrix lib XMLoadFloat4x3 h this of
        Inl e \<Rightarrow> Inl e | Inr m \<Rightarrow> Inr (m, h))"

definition MXMFLOAT4X3_operator_assign ::
  "'e DirectXMath \<Rightarrow> memory \<Rightarrow> addr \<Rightarrow> XMMATRIX \<Rightarrow> 'e + (addr \<times> memory)" where
  \<comment> \<open>\<^verbatim>\<open>MXMFLOAT4X3& operator= (const FXMMATRIX m) { XMStoreFloat4x3(this, m); return *this; }\<close>\<close>
  "MXMFLOAT4X3_operator_assign lib h this m =
     (case store_matrix lib XMStoreFloat4x3 h this m of
        Inl e \<Rightarrow> Inl e | Inr h' \<Rightarrow> Inr (this, h'))"

subsection \<open>MXMFLOAT4X3A\<close>

text \<open>
  Lines 421-444: \<^verbatim>\<open>__declspec(align(16)) struct MXMFLOAT4X3A : public XMFLOAT4X3A\<close>. The body declares three
  forwarding constructors, the constructor from an XMMATRIX, the conversion operator to
  XMMATRIX and the assignment operator from an XMMATRIX; it declares no data member.
\<close>

definition MXMFLOAT4X3A_ctor :: "'e DirectXMath \<Rightarrow> memory \<Rightarrow> addr \<Rightarrow> 'e + memory" where
  \<comment> \<open>\<^verbatim>\<open>MXMFLOAT4X3A() : XMFLOAT4X3A() {}\<close>\<close>
  "MXMFLOAT4X3A_ctor lib h this = Inr (construct lib (Matrix XMFLOAT4X3A) h this)"

definition MXMFLOAT4X3A_ctor_components ::
  "'e DirectXMath \<Rightarrow> memory \<Rightarrow> addr \<Rightarrow> 32 word \<Rightarrow> 32 word \<Rightarrow> 32 word \<Rightarrow> 32 word \<Rightarrow> 32 word \<Rightarrow> 32 word \<Rightarrow> 32 word \<Rightarrow> 32 word \<Rightarrow> 32 word \<Rightarrow> 32 word \<Rightarrow> 32 word \<Rightarrow> 32 word \<Rightarrow> 'e + memory" where
  \<comment> \<open>\<^verbatim>\<open>MXMFLOAT4X3A(float ...) : XMFLOAT4X3A(...) {}\<close>: the 12 components, in the order given\<close>
  "MXMFLOAT4X3A_ctor_components lib h this m00 m01 m02 m10 m11 m12 m20 m21 m22 m30 m31 m32 =
     Inr (construct_components lib (Matrix XMFLOAT4X3A) h this
       [m00, m01, m02, m10, m11, m12, m20, m21, m22, m30, m31, m32])"

definition MXMFLOAT4X3A_ctor_array ::
  "'e DirectXMath \<Rightarrow> memory \<Rightarrow> addr \<Rightarrow> addr \<Rightarrow> 'e + memory" where
  \<comment> \<open>\<^verbatim>\<open>explicit MXMFLOAT4X3A(const float *pArray) : XMFLOAT4X3A(pArray) {}\<close>\<close>
  "MXMFLOAT4X3A_ctor_array lib h this pArray =
     Inr (construct_array lib (Matrix XMFLOAT4X3A) h this pArray)"

definition MXMFLOAT4X3A_ctor_XMMATRIX ::
  "'e DirectXMath \<Rightarrow> memory \<Rightarrow> addr \<Rightarrow> XMMATRIX \<Rightarrow> 'e + memory" where
  \<comment> \<open>\<^verbatim>\<open>MXMFLOAT4X3A(CXMMATRIX m) { XMStoreFloat4x3A(this, m); }\<close>: the base is default-initialised first\<close>
  "MXMFLOAT4X3A_ctor_XMMATRIX lib h this m =
     store_matrix lib XMStoreFloat4x3A (default_initialize lib (Matrix XMFLOAT4X3A) h this) this m"

definition MXMFLOAT4X3A_operator_XMMATRIX ::
  "'e DirectXMath \<Rightarrow> memory \<Rightarrow> addr \<Rightarrow> 'e + (XMMATRIX \<times> memory)" where
  \<comment> \<open>\<^verbatim>\<open>operator const XMMATRIX() const { return XMLoadFloat4x3A(this); }\<close>\<close>
  "MXMFLOAT4X3A_operator_XMMATRIX lib h this =
     (case load_matrix lib XMLoadFloat4x3A h this of
        Inl e \<Rightarrow> Inl e | Inr m \<Rightarrow> Inr (m, h))"

definition MXMFLOAT4X3A_operator_assign ::
  "'e DirectXMath \<Rightarrow> memory \<Rightarrow> addr \<Rightarrow> XMMATRIX \<Rightarrow> 'e + (addr \<times> memory)" where
  \<comment> \<open>\<^verbatim>\<open>MXMFLOAT4X3A& operator= (const FXMMATRIX m) { XMStoreFloat4x3A(this, m); return *this; }\<close>\<close>
  "MXMFLOAT4X3A_operator_assign lib h this m =
     (case store_matrix lib XMStoreFloat4x3A h this m of
        Inl e \<Rightarrow> Inl e | Inr h' \<Rightarrow> Inr (this, h'))"

subsection \<open>MXMFLOAT4X4\<close>

text \<open>
  Lines 449-472: \<^verbatim>\<open>struct MXMFLOAT4X4 : public XMFLOAT4X4\<close>. The body declares three
  forwarding constructors, the constructor from an XMMATRIX, the conversion operator to
  XMMATRIX and the assignment operator from an XMMATRIX; it declares no data member.
\<close>

definition MXMFLOAT4X4_ctor :: "'e DirectXMath \<Rightarrow> memory \<Rightarrow> addr \<Rightarrow> 'e + memory" where
  \<comment> \<open>\<^verbatim>\<open>MXMFLOAT4X4() : XMFLOAT4X4() {}\<close>\<close>
  "MXMFLOAT4X4_ctor lib h this = Inr (construct lib (Matrix XMFLOAT4X4) h this)"

definition MXMFLOAT4X4_ctor_components ::
  "'e DirectXMath \<Rightarrow> memory \<Rightarrow> addr \<Rightarrow> 32 word \<Rightarrow> 32 word \<Rightarrow> 32 word \<Rightarrow> 32 word \<Rightarrow> 32 word \<Rightarrow> 32 word \<Rightarrow> 32 word \<Rightarrow> 32 word \<Rightarrow> 32 word \<Rightarrow> 32 word \<Rightarrow> 32 word \<Rightarrow> 32 word \<Rightarrow> 32 word \<Rightarrow> 32 word \<Rightarrow> 32 word \<Rightarrow> 32 word \<Rightarrow> 'e + memory" where
  \<comment> \<open>\<^verbatim>\<open>MXMFLOAT4X4(float ...) : XMFLOAT4X4(...) {}\<close>: the 16 components, in the order given\<close>
  "MXMFLOAT4X4_ctor_components lib h this m00 m01 m02 m03 m10 m11 m12 m13 m20 m21 m22 m23 m30 m31 m32 m33 =
     Inr (construct_components lib (Matrix XMFLOAT4X4) h this
       [m00, m01, m02, m03, m10, m11, m12, m13, m20, m21, m22, m23, m30, m31, m32, m33])"

definition MXMFLOAT4X4_ctor_array ::
  "'e DirectXMath \<Rightarrow> memory \<Rightarrow> addr \<Rightarrow> addr \<Rightarrow> 'e + memory" where
  \<comment> \<open>\<^verbatim>\<open>explicit MXMFLOAT4X4(const float *pArray) : XMFLOAT4X4(pArray) {}\<close>\<close>
  "MXMFLOAT4X4_ctor_array lib h this pArray =
     Inr (construct_array lib (Matrix XMFLOAT4X4) h this pArray)"

definition MXMFLOAT4X4_ctor_XMMATRIX ::
  "'e DirectXMath \<Rightarrow> memory \<Rightarrow> addr \<Rightarrow> XMMATRIX \<Rightarrow> 'e + memory" where
  \<comment> \<open>\<^verbatim>\<open>MXMFLOAT4X4(CXMMATRIX m) { XMStoreFloat4x4(this, m); }\<close>: the base is default-initialised first\<close>
  "MXMFLOAT4X4_ctor_XMMATRIX lib h this m =
     store_matrix lib XMStoreFloat4x4 (default_initialize lib (Matrix XMFLOAT4X4) h this) this m"

definition MXMFLOAT4X4_operator_XMMATRIX ::
  "'e DirectXMath \<Rightarrow> memory \<Rightarrow> addr \<Rightarrow> 'e + (XMMATRIX \<times> memory)" where
  \<comment> \<open>\<^verbatim>\<open>operator const XMMATRIX() const { return XMLoadFloat4x4(this); }\<close>\<close>
  "MXMFLOAT4X4_operator_XMMATRIX lib h this =
     (case load_matrix lib XMLoadFloat4x4 h this of
        Inl e \<Rightarrow> Inl e | Inr m \<Rightarrow> Inr (m, h))"

definition MXMFLOAT4X4_operator_assign ::
  "'e DirectXMath \<Rightarrow> memory \<Rightarrow> addr \<Rightarrow> XMMATRIX \<Rightarrow> 'e + (addr \<times> memory)" where
  \<comment> \<open>\<^verbatim>\<open>MXMFLOAT4X4& operator= (const FXMMATRIX m) { XMStoreFloat4x4(this, m); return *this; }\<close>\<close>
  "MXMFLOAT4X4_operator_assign lib h this m =
     (case store_matrix lib XMStoreFloat4x4 h this m of
        Inl e \<Rightarrow> Inl e | Inr h' \<Rightarrow> Inr (this, h'))"

subsection \<open>MXMFLOAT4X4A\<close>

text \<open>
  Lines 474-497: \<^verbatim>\<open>__declspec(align(16)) struct MXMFLOAT4X4A : public XMFLOAT4X4A\<close>. The body declares three
  forwarding constructors, the constructor from an XMMATRIX, the conversion operator to
  XMMATRIX and the assignment operator from an XMMATRIX; it declares no data member.
\<close>

definition MXMFLOAT4X4A_ctor :: "'e DirectXMath \<Rightarrow> memory \<Rightarrow> addr \<Rightarrow> 'e + memory" where
  \<comment> \<open>\<^verbatim>\<open>MXMFLOAT4X4A() : XMFLOAT4X4A() {}\<close>\<close>
  "MXMFLOAT4X4A_ctor lib h this = Inr (construct lib (Matrix XMFLOAT4X4A) h this)"

definition MXMFLOAT4X4A_ctor_components ::
  "'e DirectXMath \<Rightarrow> memory \<Rightarrow> addr \<Rightarrow> 32 word \<Rightarrow> 32 word \<Rightarrow> 32 word \<Rightarrow> 32 word \<Rightarrow> 32 word \<Rightarrow> 32 word \<Rightarrow> 32 word \<Rightarrow> 32 word \<Rightarrow> 32 word \<Rightarrow> 32 word \<Rightarrow> 32 word \<Rightarrow> 32 word \<Rightarrow> 32 word \<Rightarrow> 32 word \<Rightarrow> 32 word \<Rightarrow> 32 word \<Rightarrow> 'e + memory" where
  \<comment> \<open>\<^verbatim>\<open>MXMFLOAT4X4A(float ...) : XMFLOAT4X4A(...) {}\<close>: the 16 components, in the order given\<close>
  "MXMFLOAT4X4A_ctor_components lib h this m00 m01 m02 m03 m10 m11 m12 m13 m20 m21 m22 m23 m30 m31 m32 m33 =
     Inr (construct_components lib (Matrix XMFLOAT4X4A) h this
       [m00, m01, m02, m03, m10, m11, m12, m13, m20, m21, m22, m23, m30, m31, m32, m33])"

definition MXMFLOAT4X4A_ctor_array ::
  "'e DirectXMath \<Rightarrow> memory \<Rightarrow> addr \<Rightarrow> addr \<Rightarrow> 'e + memory" where
  \<comment> \<open>\<^verbatim>\<open>explicit MXMFLOAT4X4A(const float *pArray) : XMFLOAT4X4A(pArray) {}\<close>\<close>
  "MXMFLOAT4X4A_ctor_array lib h this pArray =
     Inr (construct_array lib (Matrix XMFLOAT4X4A) h this pArray)"

definition MXMFLOAT4X4A_ctor_XMMATRIX ::
  "'e DirectXMath \<Rightarrow> memory \<Rightarrow> addr \<Rightarrow> XMMATRIX \<Rightarrow> 'e + memory" where
  \<comment> \<open>\<^verbatim>\<open>MXMFLOAT4X4A(CXMMATRIX m) { XMStoreFloat4x4A(this, m); }\<close>: the base is default-initialised first\<close>
  "MXMFLOAT4X4A_ctor_XMMATRIX lib h this m =
     store_matrix lib XMStoreFloat4x4A (default_initialize lib (Matrix XMFLOAT4X4A) h this) this m"

definition MXMFLOAT4X4A_operator_XMMATRIX ::
  "'e DirectXMath \<Rightarrow> memory \<Rightarrow> addr \<Rightarrow> 'e + (XMMATRIX \<times> memory)" where
  \<comment> \<open>\<^verbatim>\<open>operator const XMMATRIX() const { return XMLoadFloat4x4A(this); }\<close>\<close>
  "MXMFLOAT4X4A_operator_XMMATRIX lib h this =
     (case load_matrix lib XMLoadFloat4x4A h this of
        Inl e \<Rightarrow> Inl e | Inr m \<Rightarrow> Inr (m, h))"

definition MXMFLOAT4X4A_operator_assign ::
  "'e DirectXMath \<Rightarrow> memory \<Rightarrow> addr \<Rightarrow> XMMATRIX \<Rightarrow> 'e + (addr \<times> memory)" where
  \<comment> \<open>\<^verbatim>\<open>MXMFLOAT4X4A& operator= (const FXMMATRIX m) { XMStoreFloat4x4A(this, m); return *this; }\<close>\<close>
  "MXMFLOAT4X4A_operator_assign lib h this m =
     (case store_matrix lib XMStoreFloat4x4A h this m of
        Inl e \<Rightarrow> Inl e | Inr h' \<Rightarrow> Inr (this, h'))"

subsection \<open>The member function a call selects\<close>

text \<open>Which constructor, conversion or assignment a call runs is decided by the static
  type of the object. (The component-wise constructors differ in their number of
  arguments and are named directly.)\<close>

fun default_construct_vector :: "'e DirectXMath \<Rightarrow> vector_wrapper \<Rightarrow> memory \<Rightarrow> addr \<Rightarrow> 'e + memory" where
  "default_construct_vector lib MXMFLOAT2 = MXMFLOAT2_ctor lib"
| "default_construct_vector lib MXMFLOAT2A = MXMFLOAT2A_ctor lib"
| "default_construct_vector lib MXMINT2 = MXMINT2_ctor lib"
| "default_construct_vector lib MXMUINT2 = MXMUINT2_ctor lib"
| "default_construct_vector lib MXMFLOAT3 = MXMFLOAT3_ctor lib"
| "default_construct_vector lib MXMFLOAT3A = MXMFLOAT3A_ctor lib"
| "default_construct_vector lib MXMINT3 = MXMINT3_ctor lib"
| "default_construct_vector lib MXMUINT3 = MXMUINT3_ctor lib"
| "default_construct_vector lib MXMFLOAT4 = MXMFLOAT4_ctor lib"
| "default_construct_vector lib MXMFLOAT4A = MXMFLOAT4A_ctor lib"
| "default_construct_vector lib MXMINT4 = MXMINT4_ctor lib"
| "default_construct_vector lib MXMUINT4 = MXMUINT4_ctor lib"

fun default_construct_matrix :: "'e DirectXMath \<Rightarrow> matrix_wrapper \<Rightarrow> memory \<Rightarrow> addr \<Rightarrow> 'e + memory" where
  "default_construct_matrix lib MXMFLOAT3X3 = MXMFLOAT3X3_ctor lib"
| "default_construct_matrix lib MXMFLOAT4X3 = MXMFLOAT4X3_ctor lib"
| "default_construct_matrix lib MXMFLOAT4X3A = MXMFLOAT4X3A_ctor lib"
| "default_construct_matrix lib MXMFLOAT4X4 = MXMFLOAT4X4_ctor lib"
| "default_construct_matrix lib MXMFLOAT4X4A = MXMFLOAT4X4A_ctor lib"

fun construct_vector_from_array :: "'e DirectXMath \<Rightarrow> vector_wrapper \<Rightarrow> memory \<Rightarrow> addr \<Rightarrow> addr \<Rightarrow> 'e + memory" where
  "construct_vector_from_array lib MXMFLOAT2 = MXMFLOAT2_ctor_array lib"
| "construct_vector_from_array lib MXMFLOAT2A = MXMFLOAT2A_ctor_array lib"
| "construct_vector_from_array lib MXMINT2 = MXMINT2_ctor_array lib"
| "construct_vector_from_array lib MXMUINT2 = MXMUINT2_ctor_array lib"
| "construct_vector_from_array lib MXMFLOAT3 = MXMFLOAT3_ctor_array lib"
| "construct_vector_from_array lib MXMFLOAT3A = MXMFLOAT3A_ctor_array lib"
| "construct_vector_from_array lib MXMINT3 = MXMINT3_ctor_array lib"
| "construct_vector_from_array lib MXMUINT3 = MXMUINT3_ctor_array lib"
| "construct_vector_from_array lib MXMFLOAT4 = MXMFLOAT4_ctor_array lib"
| "construct_vector_from_array lib MXMFLOAT4A = MXMFLOAT4A_ctor_array lib"
| "construct_vector_from_array lib MXMINT4 = MXMINT4_ctor_array lib"
| "construct_vector_from_array lib MXMUINT4 = MXMUINT4_ctor_array lib"

fun construct_matrix_from_array :: "'e DirectXMath \<Rightarrow> matrix_wrapper \<Rightarrow> memory \<Rightarrow> addr \<Rightarrow> addr \<Rightarrow> 'e + memory" where
  "construct_matrix_from_array lib MXMFLOAT3X3 = MXMFLOAT3X3_ctor_array lib"
| "construct_matrix_from_array lib MXMFLOAT4X3 = MXMFLOAT4X3_ctor_array lib"
| "construct_matrix_from_array lib MXMFLOAT4X3A = MXMFLOAT4X3A_ctor_array lib"
| "construct_matrix_from_array lib MXMFLOAT4X4 = MXMFLOAT4X4_ctor_array lib"
| "construct_matrix_from_array lib MXMFLOAT4X4A = MXMFLOAT4X4A_ctor_array lib"

fun construct_from_XMVECTOR :: "'e DirectXMath \<Rightarrow> vector_wrapper \<Rightarrow> memory \<Rightarrow> addr \<Rightarrow> XMVECTOR \<Rightarrow> 'e + memory" where
  "construct_from_XMVECTOR lib MXMFLOAT2 = MXMFLOAT2_ctor_XMVECTOR lib"
| "construct_from_XMVECTOR lib MXMFLOAT2A = MXMFLOAT2A_ctor_XMVECTOR lib"
| "construct_from_XMVECTOR lib MXMINT2 = MXMINT2_ctor_XMVECTOR lib"
| "construct_from_XMVECTOR lib MXMUINT2 = MXMUINT2_ctor_XMVECTOR lib"
| "construct_from_XMVECTOR lib MXMFLOAT3 = MXMFLOAT3_ctor_XMVECTOR lib"
| "construct_from_XMVECTOR lib MXMFLOAT3A = MXMFLOAT3A_ctor_XMVECTOR lib"
| "construct_from_XMVECTOR lib MXMINT3 = MXMINT3_ctor_XMVECTOR lib"
| "construct_from_XMVECTOR lib MXMUINT3 = MXMUINT3_ctor_XMVECTOR lib"
| "construct_from_XMVECTOR lib MXMFLOAT4 = MXMFLOAT4_ctor_XMVECTOR lib"
| "construct_from_XMVECTOR lib MXMFLOAT4A = MXMFLOAT4A_ctor_XMVECTOR lib"
| "construct_from_XMVECTOR lib MXMINT4 = MXMINT4_ctor_XMVECTOR lib"
| "construct_from_XMVECTOR lib MXMUINT4 = MXMUINT4_ctor_XMVECTOR lib"

fun construct_from_XMMATRIX :: "'e DirectXMath \<Rightarrow> matrix_wrapper \<Rightarrow> memory \<Rightarrow> addr \<Rightarrow> XMMATRIX \<Rightarrow> 'e + memory" where
  "construct_from_XMMATRIX lib MXMFLOAT3X3 = MXMFLOAT3X3_ctor_XMMATRIX lib"
| "construct_from_XMMATRIX lib MXMFLOAT4X3 = MXMFLOAT4X3_ctor_XMMATRIX lib"
| "construct_from_XMMATRIX lib MXMFLOAT4X3A = MXMFLOAT4X3A_ctor_XMMATRIX lib"
| "construct_from_XMMATRIX lib MXMFLOAT4X4 = MXMFLOAT4X4_ctor_XMMATRIX lib"
| "construct_from_XMMATRIX lib MXMFLOAT4X4A = MXMFLOAT4X4A_ctor_XMMATRIX lib"

fun to_XMVECTOR :: "'e DirectXMath \<Rightarrow> vector_wrapper \<Rightarrow> memory \<Rightarrow> addr \<Rightarrow> 'e + (XMVECTOR \<times> memory)" where
  "to_XMVECTOR lib MXMFLOAT2 = MXMFLOAT2_operator_XMVECTOR lib"
| "to_XMVECTOR lib MXMFLOAT2A = MXMFLOAT2A_operator_XMVECTOR lib"
| "to_XMVECTOR lib MXMINT2 = MXMINT2_operator_XMVECTOR lib"
| "to_XMVECTOR lib MXMUINT2 = MXMUINT2_operator_XMVECTOR lib"
| "to_XMVECTOR lib MXMFLOAT3 = MXMFLOAT3_operator_XMVECTOR lib"
| "to_XMVECTOR lib MXMFLOAT3A = MXMFLOAT3A_operator_XMVECTOR lib"
| "to_XMVECTOR lib MXMINT3 = MXMINT3_operator_XMVECTOR lib"
| "to_XMVECTOR lib MXMUINT3 = MXMUINT3_operator_XMVECTOR lib"
| "to_XMVECTOR lib MXMFLOAT4 = MXMFLOAT4_operator_XMVECTOR lib"
| "to_XMVECTOR lib MXMFLOAT4A = MXMFLOAT4A_operator_XMVECTOR lib"
| "to_XMVECTOR lib MXMINT4 = MXMINT4_operator_XMVECTOR lib"
| "to_XMVECTOR lib MXMUINT4 = MXMUINT4_operator_XMVECTOR lib"

fun to_XMMATRIX :: "'e DirectXMath \<Rightarrow> matrix_wrapper \<Rightarrow> memory \<Rightarrow> addr \<Rightarrow> 'e + (XMMATRIX \<times> memory)" where
  "to_XMMATRIX lib MXMFLOAT3X3 = MXMFLOAT3X3_operator_XMMATRIX lib"
| "to_XMMATRIX lib MXMFLOAT4X3 = MXMFLOAT4X3_operator_XMMATRIX lib"
| "to_XMMATRIX lib MXMFLOAT4X3A = MXMFLOAT4X3A_operator_XMMATRIX lib"
| "to_XMMATRIX lib MXMFLOAT4X4 = MXMFLOAT4X4_operator_XMMATRIX lib"
| "to_XMMATRIX lib MXMFLOAT4X4A = MXMFLOAT4X4A_operator_XMMATRIX lib"

fun assign_XMVECTOR :: "'e DirectXMath \<Rightarrow> vector_wrapper \<Rightarrow> memory \<Rightarrow> addr \<Rightarrow> XMVECTOR \<Rightarrow> 'e + (addr \<times> memory)" where
  "assign_XMVECTOR lib MXMFLOAT2 = MXMFLOAT2_operator_assign lib"
| "assign_XMVECTOR lib MXMFLOAT2A = MXMFLOAT2A_operator_assign lib"
| "assign_XMVECTOR lib MXMINT2 = MXMINT2_operator_assign lib"
| "assign_XMVECTOR lib MXMUINT2 = MXMUINT2_operator_assign lib"
| "assign_XMVECTOR lib MXMFLOAT3 = MXMFLOAT3_operator_assign lib"
| "assign_XMVECTOR lib MXMFLOAT3A = MXMFLOAT3A_operator_assign lib"
| "assign_XMVECTOR lib MXMINT3 = MXMINT3_operator_assign lib"
| "assign_XMVECTOR lib MXMUINT3 = MXMUINT3_operator_assign lib"
| "assign_XMVECTOR lib MXMFLOAT4 = MXMFLOAT4_operator_assign lib"
| "assign_XMVECTOR lib MXMFLOAT4A = MXMFLOAT4A_operator_assign lib"
| "assign_XMVECTOR lib MXMINT4 = MXMINT4_operator_assign lib"
| "assign_XMVECTOR lib MXMUINT4 = MXMUINT4_operator_assign lib"

fun assign_XMMATRIX :: "'e DirectXMath \<Rightarrow> matrix_wrapper \<Rightarrow> memory \<Rightarrow> addr \<Rightarrow> XMMATRIX \<Rightarrow> 'e + (addr \<times> memory)" where
  "assign_XMMATRIX lib MXMFLOAT3X3 = MXMFLOAT3X3_operator_assign lib"
| "assign_XMMATRIX lib MXMFLOAT4X3 = MXMFLOAT4X3_operator_assign lib"
| "assign_XMMATRIX lib MXMFLOAT4X3A = MXMFLOAT4X3A_operator_assign lib"
| "assign_XMMATRIX lib MXMFLOAT4X4 = MXMFLOAT4X4_operator_assign lib"
| "assign_XMMATRIX lib MXMFLOAT4X4A = MXMFLOAT4X4A_operator_assign lib"

subsection \<open>The overwrite defines\<close>

text \<open>
  Lines 499-522: under \<^verbatim>\<open>#ifdef _MXM_USE_OVERWRITE_DEFINES\<close> the header defines seventeen
  object-like macros, \<^verbatim>\<open># define XMFLOAT2 MXMFLOAT2\<close> and so on. The list below has
  them in the order of the source. The preprocessor replaces an identifier that is the
  name of a macro by the macro's replacement and leaves every other identifier as it is.
\<close>

definition overwrite_defines :: "bool \<Rightarrow> (string \<times> string) list" where
  "overwrite_defines MXM_USE_OVERWRITE_DEFINES =
     (if MXM_USE_OVERWRITE_DEFINES then
       [(''XMFLOAT2'', ''MXMFLOAT2''),
        (''XMINT2'', ''MXMINT2''),
        (''XMUINT2'', ''MXMUINT2''),
        (''XMFLOAT2A'', ''MXMFLOAT2A''),
        (''XMFLOAT3'', ''MXMFLOAT3''),
        (''XMFLOAT3A'', ''MXMFLOAT3A''),
        (''XMINT3'', ''MXMINT3''),
        (''XMUINT3'', ''MXMUINT3''),
        (''XMFLOAT4'', ''MXMFLOAT4''),
        (''XMFLOAT4A'', ''MXMFLOAT4A''),
        (''XMINT4'', ''MXMINT4''),
        (''XMUINT4'', ''MXMUINT4''),
        (''XMFLOAT3X3'', ''MXMFLOAT3X3''),
        (''XMFLOAT4X3'', ''MXMFLOAT4X3''),
        (''XMFLOAT4X3A'', ''MXMFLOAT4X3A''),
        (''XMFLOAT4X4'', ''MXMFLOAT4X4''),
        (''XMFLOAT4X4A'', ''MXMFLOAT4X4A'')]
      else [])"

definition preprocess :: "(string \<times> string) list \<Rightarrow> string \<Rightarrow> string" where
  "preprocess defines identifier =
     (case map_of defines identifier of None \<Rightarrow> identifier | Some replacement \<Rightarrow> replacement)"

section \<open>A reference implementation of the library\<close>

text \<open>
  The theorems about the header below hold for every implementation of the library.
  Where a statement needs a concrete one (a witness for a condition on the library, a
  concrete run), this section provides it. It is written from the documentation of
  DirectXMath, which is not part of the repository:
  \<^item> a load of a float type copies the members into the first lanes and fills the
    remaining lanes with \<open>0.0\<close>; a load of a 3x3 or 4x3 matrix fills each row's fourth
    lane with \<open>0.0\<close> and sets the fourth lane of the fourth row to \<open>1.0\<close>;
  \<^item> a store of a float type copies the first lanes into the members and drops the rest;
  \<^item> a load of an integer type converts each member to float, a store converts each
    lane to an integer; the conversions depend on the platform and are parameters here;
  \<^item> the routines of the aligned types require a pointer aligned to 16 bytes (four cells);
  \<^item> default-initialising a memory type leaves its members indeterminate (the memory
    stays as it is); \<^verbatim>\<open>T()\<close> sets them to zero, as value-initialisation does where the
    default constructor of \<^verbatim>\<open>T\<close> is defaulted (with a user-provided empty constructor
    it would leave them indeterminate as well); the other constructors copy their
    arguments.
\<close>

fun write_cells :: "memory \<Rightarrow> addr \<Rightarrow> 32 word list \<Rightarrow> memory" where
  "write_cells h p [] = h"
| "write_cells h p (c # cs) = write_cells (h(p := c)) (Suc p) cs"

fun read_cells :: "memory \<Rightarrow> addr \<Rightarrow> nat \<Rightarrow> 32 word list" where
  "read_cells h p 0 = []"
| "read_cells h p (Suc n) = h p # read_cells h (Suc p) n"

datatype xm_error = Misaligned

definition aligned16 :: "addr \<Rightarrow> bool" where
  "aligned16 p \<longleftrightarrow> p mod 4 = 0"

definition require_aligned16 :: "addr \<Rightarrow> 'a \<Rightarrow> xm_error + 'a" where
  "require_aligned16 p result = (if aligned16 p then Inr result else Inl Misaligned)"

record conversions =
  int_to_float :: "32 word \<Rightarrow> 32 word"
  float_to_int :: "32 word \<Rightarrow> 32 word"
  uint_to_float :: "32 word \<Rightarrow> 32 word"
  float_to_uint :: "32 word \<Rightarrow> 32 word"

definition float_zero :: "32 word" where
  "float_zero = 0"

definition float_one :: "32 word" where
  "float_one = 0x3F800000"

definition load2 :: "(32 word \<Rightarrow> 32 word) \<Rightarrow> memory \<Rightarrow> addr \<Rightarrow> XMVECTOR" where
  "load2 c h p = \<lparr>vec_x = c (h p), vec_y = c (h (p + 1)), vec_z = float_zero, vec_w = float_zero\<rparr>"

definition load3 :: "(32 word \<Rightarrow> 32 word) \<Rightarrow> memory \<Rightarrow> addr \<Rightarrow> XMVECTOR" where
  "load3 c h p = \<lparr>vec_x = c (h p), vec_y = c (h (p + 1)), vec_z = c (h (p + 2)), vec_w = float_zero\<rparr>"

definition load4 :: "(32 word \<Rightarrow> 32 word) \<Rightarrow> memory \<Rightarrow> addr \<Rightarrow> XMVECTOR" where
  "load4 c h p = \<lparr>vec_x = c (h p), vec_y = c (h (p + 1)), vec_z = c (h (p + 2)), vec_w = c (h (p + 3))\<rparr>"

definition store2 :: "(32 word \<Rightarrow> 32 word) \<Rightarrow> memory \<Rightarrow> addr \<Rightarrow> XMVECTOR \<Rightarrow> memory" where
  "store2 c h p v = write_cells h p [c (vec_x v), c (vec_y v)]"

definition store3 :: "(32 word \<Rightarrow> 32 word) \<Rightarrow> memory \<Rightarrow> addr \<Rightarrow> XMVECTOR \<Rightarrow> memory" where
  "store3 c h p v = write_cells h p [c (vec_x v), c (vec_y v), c (vec_z v)]"

definition store4 :: "(32 word \<Rightarrow> 32 word) \<Rightarrow> memory \<Rightarrow> addr \<Rightarrow> XMVECTOR \<Rightarrow> memory" where
  "store4 c h p v = write_cells h p [c (vec_x v), c (vec_y v), c (vec_z v), c (vec_w v)]"

definition load3x3 :: "memory \<Rightarrow> addr \<Rightarrow> XMMATRIX" where
  "load3x3 h p =
     \<lparr>r0 = load3 (\<lambda>c. c) h p, r1 = load3 (\<lambda>c. c) h (p + 3), r2 = load3 (\<lambda>c. c) h (p + 6),
      r3 = \<lparr>vec_x = float_zero, vec_y = float_zero, vec_z = float_zero, vec_w = float_one\<rparr>\<rparr>"

definition load4x3 :: "memory \<Rightarrow> addr \<Rightarrow> XMMATRIX" where
  "load4x3 h p =
     \<lparr>r0 = load3 (\<lambda>c. c) h p, r1 = load3 (\<lambda>c. c) h (p + 3), r2 = load3 (\<lambda>c. c) h (p + 6),
      r3 = (load3 (\<lambda>c. c) h (p + 9))\<lparr>vec_w := float_one\<rparr>\<rparr>"

definition load4x4 :: "memory \<Rightarrow> addr \<Rightarrow> XMMATRIX" where
  "load4x4 h p =
     \<lparr>r0 = load4 (\<lambda>c. c) h p, r1 = load4 (\<lambda>c. c) h (p + 4), r2 = load4 (\<lambda>c. c) h (p + 8),
      r3 = load4 (\<lambda>c. c) h (p + 12)\<rparr>"

definition lanes3 :: "XMVECTOR \<Rightarrow> 32 word list" where
  "lanes3 v = [vec_x v, vec_y v, vec_z v]"

definition lanes4 :: "XMVECTOR \<Rightarrow> 32 word list" where
  "lanes4 v = [vec_x v, vec_y v, vec_z v, vec_w v]"

definition store3x3 :: "memory \<Rightarrow> addr \<Rightarrow> XMMATRIX \<Rightarrow> memory" where
  "store3x3 h p m = write_cells h p (lanes3 (r0 m) @ lanes3 (r1 m) @ lanes3 (r2 m))"

definition store4x3 :: "memory \<Rightarrow> addr \<Rightarrow> XMMATRIX \<Rightarrow> memory" where
  "store4x3 h p m = write_cells h p (lanes3 (r0 m) @ lanes3 (r1 m) @ lanes3 (r2 m) @ lanes3 (r3 m))"

definition store4x4 :: "memory \<Rightarrow> addr \<Rightarrow> XMMATRIX \<Rightarrow> memory" where
  "store4x4 h p m = write_cells h p (lanes4 (r0 m) @ lanes4 (r1 m) @ lanes4 (r2 m) @ lanes4 (r3 m))"

fun XMLoad_vector_ref :: "conversions \<Rightarrow> XMLoad_vector \<Rightarrow> memory \<Rightarrow> addr \<Rightarrow> xm_error + XMVECTOR" where
  "XMLoad_vector_ref cv XMLoadFloat2 h p = Inr (load2 (\<lambda>c. c) h p)"
| "XMLoad_vector_ref cv XMLoadFloat2A h p = require_aligned16 p (load2 (\<lambda>c. c) h p)"
| "XMLoad_vector_ref cv XMLoadSInt2 h p = Inr (load2 (int_to_float cv) h p)"
| "XMLoad_vector_ref cv XMLoadUInt2 h p = Inr (load2 (uint_to_float cv) h p)"
| "XMLoad_vector_ref cv XMLoadFloat3 h p = Inr (load3 (\<lambda>c. c) h p)"
| "XMLoad_vector_ref cv XMLoadFloat3A h p = require_aligned16 p (load3 (\<lambda>c. c) h p)"
| "XMLoad_vector_ref cv XMLoadSInt3 h p = Inr (load3 (int_to_float cv) h p)"
| "XMLoad_vector_ref cv XMLoadUInt3 h p = Inr (load3 (uint_to_float cv) h p)"
| "XMLoad_vector_ref cv XMLoadFloat4 h p = Inr (load4 (\<lambda>c. c) h p)"
| "XMLoad_vector_ref cv XMLoadFloat4A h p = require_aligned16 p (load4 (\<lambda>c. c) h p)"
| "XMLoad_vector_ref cv XMLoadSInt4 h p = Inr (load4 (int_to_float cv) h p)"
| "XMLoad_vector_ref cv XMLoadUInt4 h p = Inr (load4 (uint_to_float cv) h p)"

fun XMStore_vector_ref ::
  "conversions \<Rightarrow> XMStore_vector \<Rightarrow> memory \<Rightarrow> addr \<Rightarrow> XMVECTOR \<Rightarrow> xm_error + memory" where
  "XMStore_vector_ref cv XMStoreFloat2 h p v = Inr (store2 (\<lambda>c. c) h p v)"
| "XMStore_vector_ref cv XMStoreFloat2A h p v = require_aligned16 p (store2 (\<lambda>c. c) h p v)"
| "XMStore_vector_ref cv XMStoreSInt2 h p v = Inr (store2 (float_to_int cv) h p v)"
| "XMStore_vector_ref cv XMStoreUInt2 h p v = Inr (store2 (float_to_uint cv) h p v)"
| "XMStore_vector_ref cv XMStoreFloat3 h p v = Inr (store3 (\<lambda>c. c) h p v)"
| "XMStore_vector_ref cv XMStoreFloat3A h p v = require_aligned16 p (store3 (\<lambda>c. c) h p v)"
| "XMStore_vector_ref cv XMStoreSInt3 h p v = Inr (store3 (float_to_int cv) h p v)"
| "XMStore_vector_ref cv XMStoreUInt3 h p v = Inr (store3 (float_to_uint cv) h p v)"
| "XMStore_vector_ref cv XMStoreFloat4 h p v = Inr (store4 (\<lambda>c. c) h p v)"
| "XMStore_vector_ref cv XMStoreFloat4A h p v = require_aligned16 p (store4 (\<lambda>c. c) h p v)"
| "XMStore_vector_ref cv XMStoreSInt4 h p v = Inr (store4 (float_to_int cv) h p v)"
| "XMStore_vector_ref cv XMStoreUInt4 h p v = Inr (store4 (float_to_uint cv) h p v)"

fun XMLoad_matrix_ref :: "XMLoad_matrix \<Rightarrow> memory \<Rightarrow> addr \<Rightarrow> xm_error + XMMATRIX" where
  "XMLoad_matrix_ref XMLoadFloat3x3 h p = Inr (load3x3 h p)"
| "XMLoad_matrix_ref XMLoadFloat4x3 h p = Inr (load4x3 h p)"
| "XMLoad_matrix_ref XMLoadFloat4x3A h p = require_aligned16 p (load4x3 h p)"
| "XMLoad_matrix_ref XMLoadFloat4x4 h p = Inr (load4x4 h p)"
| "XMLoad_matrix_ref XMLoadFloat4x4A h p = require_aligned16 p (load4x4 h p)"

fun XMStore_matrix_ref :: "XMStore_matrix \<Rightarrow> memory \<Rightarrow> addr \<Rightarrow> XMMATRIX \<Rightarrow> xm_error + memory" where
  "XMStore_matrix_ref XMStoreFloat3x3 h p m = Inr (store3x3 h p m)"
| "XMStore_matrix_ref XMStoreFloat4x3 h p m = Inr (store4x3 h p m)"
| "XMStore_matrix_ref XMStoreFloat4x3A h p m = require_aligned16 p (store4x3 h p m)"
| "XMStore_matrix_ref XMStoreFloat4x4 h p m = Inr (store4x4 h p m)"
| "XMStore_matrix_ref XMStoreFloat4x4A h p m = require_aligned16 p (store4x4 h p m)"

definition clear_sign :: "32 word \<Rightarrow> 32 word" where
  "clear_sign c = c AND 0x7FFFFFFF"

definition XMVectorAbs_ref :: "XMVECTOR \<Rightarrow> XMVECTOR" where
  "XMVectorAbs_ref v =
     \<lparr>vec_x = clear_sign (vec_x v), vec_y = clear_sign (vec_y v),
      vec_z = clear_sign (vec_z v), vec_w = clear_sign (vec_w v)\<rparr>"

definition DirectXMath_ref :: "conversions \<Rightarrow> xm_error DirectXMath" where
  "DirectXMath_ref cv =
     \<lparr>load_vector = XMLoad_vector_ref cv,
      store_vector = XMStore_vector_ref cv,
      load_matrix = XMLoad_matrix_ref,
      store_matrix = XMStore_matrix_ref,
      XMVectorAbs = XMVectorAbs_ref,
      default_initialize = (\<lambda>T h p. h),
      construct = (\<lambda>T h p. write_cells h p (replicate (components T) 0)),
      construct_components = (\<lambda>T h p cs. write_cells h p cs),
      construct_array = (\<lambda>T h p pArray. write_cells h p (read_cells h pArray (components T)))\<rparr>"

text \<open>
  What the reference routines make of a value that goes through memory and back: the
  scalar a store writes for a lane, the scalar a load returns for a member, the vector
  that a load returns after a store, the member that a store writes after a load, and the
  matrix that a load returns after a store.
\<close>

fun stored_component :: "conversions \<Rightarrow> vector_type \<Rightarrow> 32 word \<Rightarrow> 32 word" where
  "stored_component cv XMFLOAT2 c = c"
| "stored_component cv XMFLOAT2A c = c"
| "stored_component cv XMINT2 c = float_to_int cv c"
| "stored_component cv XMUINT2 c = float_to_uint cv c"
| "stored_component cv XMFLOAT3 c = c"
| "stored_component cv XMFLOAT3A c = c"
| "stored_component cv XMINT3 c = float_to_int cv c"
| "stored_component cv XMUINT3 c = float_to_uint cv c"
| "stored_component cv XMFLOAT4 c = c"
| "stored_component cv XMFLOAT4A c = c"
| "stored_component cv XMINT4 c = float_to_int cv c"
| "stored_component cv XMUINT4 c = float_to_uint cv c"

fun loaded_component :: "conversions \<Rightarrow> vector_type \<Rightarrow> 32 word \<Rightarrow> 32 word" where
  "loaded_component cv XMFLOAT2 c = c"
| "loaded_component cv XMFLOAT2A c = c"
| "loaded_component cv XMINT2 c = int_to_float cv c"
| "loaded_component cv XMUINT2 c = uint_to_float cv c"
| "loaded_component cv XMFLOAT3 c = c"
| "loaded_component cv XMFLOAT3A c = c"
| "loaded_component cv XMINT3 c = int_to_float cv c"
| "loaded_component cv XMUINT3 c = uint_to_float cv c"
| "loaded_component cv XMFLOAT4 c = c"
| "loaded_component cv XMFLOAT4A c = c"
| "loaded_component cv XMINT4 c = int_to_float cv c"
| "loaded_component cv XMUINT4 c = uint_to_float cv c"

definition first_lanes :: "nat \<Rightarrow> (32 word \<Rightarrow> 32 word) \<Rightarrow> XMVECTOR \<Rightarrow> XMVECTOR" where
  "first_lanes n f v =
     \<lparr>vec_x = f (vec_x v), vec_y = f (vec_y v),
      vec_z = (if 2 < n then f (vec_z v) else float_zero),
      vec_w = (if 3 < n then f (vec_w v) else float_zero)\<rparr>"

definition reloaded_vector :: "conversions \<Rightarrow> vector_type \<Rightarrow> XMVECTOR \<Rightarrow> XMVECTOR" where
  "reloaded_vector cv t v =
     first_lanes (vector_components t) (\<lambda>c. loaded_component cv t (stored_component cv t c)) v"

definition restored_component :: "conversions \<Rightarrow> vector_type \<Rightarrow> 32 word \<Rightarrow> 32 word" where
  "restored_component cv t c = stored_component cv t (loaded_component cv t c)"

fun reloaded_matrix :: "matrix_type \<Rightarrow> XMMATRIX \<Rightarrow> XMMATRIX" where
  "reloaded_matrix XMFLOAT3X3 m =
     \<lparr>r0 = (r0 m)\<lparr>vec_w := float_zero\<rparr>, r1 = (r1 m)\<lparr>vec_w := float_zero\<rparr>,
      r2 = (r2 m)\<lparr>vec_w := float_zero\<rparr>,
      r3 = \<lparr>vec_x = float_zero, vec_y = float_zero, vec_z = float_zero, vec_w = float_one\<rparr>\<rparr>"
| "reloaded_matrix XMFLOAT4X3 m =
     \<lparr>r0 = (r0 m)\<lparr>vec_w := float_zero\<rparr>, r1 = (r1 m)\<lparr>vec_w := float_zero\<rparr>,
      r2 = (r2 m)\<lparr>vec_w := float_zero\<rparr>, r3 = (r3 m)\<lparr>vec_w := float_one\<rparr>\<rparr>"
| "reloaded_matrix XMFLOAT4X3A m =
     \<lparr>r0 = (r0 m)\<lparr>vec_w := float_zero\<rparr>, r1 = (r1 m)\<lparr>vec_w := float_zero\<rparr>,
      r2 = (r2 m)\<lparr>vec_w := float_zero\<rparr>, r3 = (r3 m)\<lparr>vec_w := float_one\<rparr>\<rparr>"
| "reloaded_matrix XMFLOAT4X4 m = m"
| "reloaded_matrix XMFLOAT4X4A m = m"

text \<open>Sample values: the vectors \<open>(1.0, 2.0, 3.0, 4.0)\<close> and \<open>(-1.0, 2.0, 3.0, 4.0)\<close>, a
  matrix with these rows, and a memory whose cells are all zero.\<close>

definition example_vector :: XMVECTOR where
  "example_vector =
     \<lparr>vec_x = 0x3F800000, vec_y = 0x40000000, vec_z = 0x40400000, vec_w = 0x40800000\<rparr>"

definition example_negative_vector :: XMVECTOR where
  "example_negative_vector =
     \<lparr>vec_x = 0xBF800000, vec_y = 0x40000000, vec_z = 0x40400000, vec_w = 0x40800000\<rparr>"

definition example_matrix :: XMMATRIX where
  "example_matrix =
     \<lparr>r0 = example_negative_vector, r1 = example_vector, r2 = example_vector, r3 = example_vector\<rparr>"

definition zero_memory :: memory where
  "zero_memory = (\<lambda>a. 0)"

section \<open>Conditions on an implementation of the library\<close>

text \<open>
  What a load or a store may touch is decided by the library, not by the header. The
  conditions below say that the library keeps to the object it is given: \<open>p\<close> is the
  address of the object and \<open>n\<close> its number of cells.
\<close>

definition outside :: "addr \<Rightarrow> nat \<Rightarrow> addr \<Rightarrow> bool" where
  "outside p n a \<longleftrightarrow> a < p \<or> p + n \<le> a"

definition same_elsewhere :: "memory \<Rightarrow> memory \<Rightarrow> addr \<Rightarrow> nat \<Rightarrow> bool" where
  "same_elsewhere h h' p n \<longleftrightarrow> (\<forall>a. outside p n a \<longrightarrow> h' a = h a)"

definition same_object :: "memory \<Rightarrow> memory \<Rightarrow> addr \<Rightarrow> nat \<Rightarrow> bool" where
  "same_object h h' p n \<longleftrightarrow> (\<forall>i<n. h' (p + i) = h (p + i))"

text \<open>A store writes only the members of its destination.\<close>

definition stores_confined :: "'e DirectXMath \<Rightarrow> bool" where
  "stores_confined lib \<longleftrightarrow>
     (\<forall>t h p v h'. store_vector lib (XMStore_vector_for t) h p v = Inr h'
        \<longrightarrow> same_elsewhere h h' p (vector_components t)) \<and>
     (\<forall>t h p m h'. store_matrix lib (XMStore_matrix_for t) h p m = Inr h'
        \<longrightarrow> same_elsewhere h h' p (matrix_components t))"

text \<open>A load reads only the members of its source.\<close>

definition loads_local :: "'e DirectXMath \<Rightarrow> bool" where
  "loads_local lib \<longleftrightarrow>
     (\<forall>t h h' p. same_object h h' p (vector_components t)
        \<longrightarrow> load_vector lib (XMLoad_vector_for t) h' p = load_vector lib (XMLoad_vector_for t) h p) \<and>
     (\<forall>t h h' p. same_object h h' p (matrix_components t)
        \<longrightarrow> load_matrix lib (XMLoad_matrix_for t) h' p = load_matrix lib (XMLoad_matrix_for t) h p)"

text \<open>What a store writes into its destination is determined by the value stored: it
  reads no memory.\<close>

definition stores_determined :: "'e DirectXMath \<Rightarrow> bool" where
  "stores_determined lib \<longleftrightarrow>
     (\<forall>t h h' p v h1 h1'.
        store_vector lib (XMStore_vector_for t) h p v = Inr h1
        \<and> store_vector lib (XMStore_vector_for t) h' p v = Inr h1'
        \<longrightarrow> same_object h1 h1' p (vector_components t)) \<and>
     (\<forall>t h h' p m h1 h1'.
        store_matrix lib (XMStore_matrix_for t) h p m = Inr h1
        \<and> store_matrix lib (XMStore_matrix_for t) h' p m = Inr h1'
        \<longrightarrow> same_object h1 h1' p (matrix_components t))"

text \<open>A store overwrites all members of its destination: what they held before does not
  matter.\<close>

definition stores_overwrite :: "'e DirectXMath \<Rightarrow> bool" where
  "stores_overwrite lib \<longleftrightarrow>
     (\<forall>t h h' p v. same_elsewhere h h' p (vector_components t)
        \<longrightarrow> store_vector lib (XMStore_vector_for t) h' p v = store_vector lib (XMStore_vector_for t) h p v) \<and>
     (\<forall>t h h' p m. same_elsewhere h h' p (matrix_components t)
        \<longrightarrow> store_matrix lib (XMStore_matrix_for t) h' p m = store_matrix lib (XMStore_matrix_for t) h p m)"

text \<open>The default constructor of a memory type, and its default-initialisation, touch
  only the object.\<close>

definition initializers_confined :: "'e DirectXMath \<Rightarrow> bool" where
  "initializers_confined lib \<longleftrightarrow>
     (\<forall>T h p. same_elsewhere h (default_initialize lib T h p) p (components T)) \<and>
     (\<forall>T h p. same_elsewhere h (construct lib T h p) p (components T))"

text \<open>The SIMD values, enumerated by their lanes: an \<^verbatim>\<open>XMVECTOR\<close> is any four scalars,
  an \<^verbatim>\<open>XMMATRIX\<close> any four such rows.\<close>

definition vector_of_lanes :: "32 word \<times> 32 word \<times> 32 word \<times> 32 word \<Rightarrow> XMVECTOR" where
  "vector_of_lanes l = (case l of (a, b, c, d) \<Rightarrow> \<lparr>vec_x = a, vec_y = b, vec_z = c, vec_w = d\<rparr>)"

definition matrix_of_lanes ::
  "(32 word \<times> 32 word \<times> 32 word \<times> 32 word) \<times> (32 word \<times> 32 word \<times> 32 word \<times> 32 word)
   \<times> (32 word \<times> 32 word \<times> 32 word \<times> 32 word) \<times> (32 word \<times> 32 word \<times> 32 word \<times> 32 word)
   \<Rightarrow> XMMATRIX" where
  "matrix_of_lanes l =
     (case l of (a, b, c, d) \<Rightarrow>
        \<lparr>r0 = vector_of_lanes a, r1 = vector_of_lanes b,
         r2 = vector_of_lanes c, r3 = vector_of_lanes d\<rparr>)"

section \<open>Facts about cells\<close>

lemma write_cells_outside: "outside p (length cs) a \<Longrightarrow> write_cells h p cs a = h a"
proof (induction cs arbitrary: h p)
  case Nil
  then show ?case by simp
next
  case (Cons c cs)
  from Cons.prems have "a \<noteq> p" and "outside (Suc p) (length cs) a"
    by (auto simp: outside_def)
  then have "write_cells (h(p := c)) (Suc p) cs a = (h(p := c)) a"
    by (simp only: Cons.IH)
  with \<open>a \<noteq> p\<close> show ?case by simp
qed

lemma write_cells_inside: "i < length cs \<Longrightarrow> write_cells h p cs (p + i) = cs ! i"
proof (induction cs arbitrary: h p i)
  case Nil
  then show ?case by simp
next
  case (Cons c cs)
  show ?case
  proof (cases i)
    case 0
    have "outside (Suc p) (length cs) p" by (simp add: outside_def)
    then show ?thesis using 0 by (simp add: write_cells_outside)
  next
    case (Suc j)
    with Cons.prems have "j < length cs" by simp
    then have "write_cells (h(p := c)) (Suc p) cs (Suc p + j) = cs ! j"
      by (rule Cons.IH)
    then show ?thesis using Suc by simp
  qed
qed

lemma write_cells_cell:
  "write_cells h p cs a = (if p \<le> a \<and> a < p + length cs then cs ! (a - p) else h a)"
proof (cases "p \<le> a \<and> a < p + length cs")
  case True
  then have "a - p < length cs" and "p + (a - p) = a" by auto
  then have "write_cells h p cs a = cs ! (a - p)"
    using write_cells_inside [of "a - p" cs h p] by simp
  then show ?thesis using True by simp
next
  case False
  then have "outside p (length cs) a" by (auto simp: outside_def)
  then have "write_cells h p cs a = h a" by (rule write_cells_outside)
  then show ?thesis using False by auto
qed

lemma write_cells_same_elsewhere:
  "length cs = n \<Longrightarrow> same_elsewhere h (write_cells h p cs) p n"
  by (auto simp: same_elsewhere_def write_cells_outside)

lemma write_cells_overwrites:
  assumes "length cs = n" and "same_elsewhere h h' p n"
  shows "write_cells h' p cs = write_cells h p cs"
proof
  fix a
  show "write_cells h' p cs a = write_cells h p cs a"
    using assms by (auto simp: write_cells_cell same_elsewhere_def outside_def)
qed

lemma length_read_cells [simp]: "length (read_cells h p n) = n"
  by (induction n arbitrary: p) auto

lemma nth_read_cells: "i < n \<Longrightarrow> read_cells h p n ! i = h (p + i)"
proof (induction n arbitrary: p i)
  case 0
  then show ?case by simp
next
  case (Suc n)
  then show ?case by (cases i) auto
qed

lemma write_cells_read_cells: "write_cells h p (read_cells h p n) = h"
proof
  fix a
  show "write_cells h p (read_cells h p n) a = h a"
  proof (cases "p \<le> a \<and> a < p + n")
    case True
    then have "a - p < n" and "p + (a - p) = a" by auto
    then have "read_cells h p n ! (a - p) = h a"
      using nth_read_cells [of "a - p" n h p] by simp
    then show ?thesis by (simp add: write_cells_cell)
  next
    case False
    then show ?thesis by (auto simp: write_cells_cell)
  qed
qed

lemma read_cells_write_cells: "read_cells (write_cells h p cs) p (length cs) = cs"
  by (rule nth_equalityI) (simp_all add: nth_read_cells write_cells_inside)

lemma same_elsewhere_refl: "same_elsewhere h h p n"
  by (simp add: same_elsewhere_def)

lemma same_object_cell: "same_object h h' p n \<Longrightarrow> i < n \<Longrightarrow> h' (p + i) = h (p + i)"
  by (simp add: same_object_def)

lemma same_object_part:
  "same_object h h' p n \<Longrightarrow> k + m \<le> n \<Longrightarrow> same_object h h' (p + k) m"
  by (simp add: same_object_def add.assoc)

section \<open>The reference implementation keeps to its object\<close>

lemma load2_local: "same_object h h' p 2 \<Longrightarrow> load2 c h' p = load2 c h p"
  using same_object_cell [of h h' p 2 0] same_object_cell [of h h' p 2 1]
  by (simp add: load2_def)

lemma load3_local: "same_object h h' p 3 \<Longrightarrow> load3 c h' p = load3 c h p"
  using same_object_cell [of h h' p 3 0] same_object_cell [of h h' p 3 1]
    same_object_cell [of h h' p 3 2]
  by (simp add: load3_def)

lemma load4_local: "same_object h h' p 4 \<Longrightarrow> load4 c h' p = load4 c h p"
  using same_object_cell [of h h' p 4 0] same_object_cell [of h h' p 4 1]
    same_object_cell [of h h' p 4 2] same_object_cell [of h h' p 4 3]
  by (simp add: load4_def)

lemma load3x3_local: "same_object h h' p 9 \<Longrightarrow> load3x3 h' p = load3x3 h p"
  using same_object_part [of h h' p 9 0 3] same_object_part [of h h' p 9 3 3]
    same_object_part [of h h' p 9 6 3]
  by (simp add: load3x3_def load3_local)

lemma load4x3_local: "same_object h h' p 12 \<Longrightarrow> load4x3 h' p = load4x3 h p"
  using same_object_part [of h h' p 12 0 3] same_object_part [of h h' p 12 3 3]
    same_object_part [of h h' p 12 6 3] same_object_part [of h h' p 12 9 3]
  by (simp add: load4x3_def load3_local)

lemma load4x4_local: "same_object h h' p 16 \<Longrightarrow> load4x4 h' p = load4x4 h p"
  using same_object_part [of h h' p 16 0 4] same_object_part [of h h' p 16 4 4]
    same_object_part [of h h' p 16 8 4] same_object_part [of h h' p 16 12 4]
  by (simp add: load4x4_def load4_local)

lemma XMLoad_vector_ref_local:
  "same_object h h' p (vector_components t)
    \<Longrightarrow> XMLoad_vector_ref cv (XMLoad_vector_for t) h' p = XMLoad_vector_ref cv (XMLoad_vector_for t) h p"
  by (cases t) (simp_all add: load2_local load3_local load4_local)

lemma XMLoad_matrix_ref_local:
  "same_object h h' p (matrix_components t)
    \<Longrightarrow> XMLoad_matrix_ref (XMLoad_matrix_for t) h' p = XMLoad_matrix_ref (XMLoad_matrix_for t) h p"
  by (cases t) (simp_all add: load3x3_local load4x3_local load4x4_local)

lemma loads_local_ref: "loads_local (DirectXMath_ref cv)"
  by (simp add: loads_local_def DirectXMath_ref_def XMLoad_vector_ref_local XMLoad_matrix_ref_local)

lemma length_lanes: "length (lanes3 v) = 3" "length (lanes4 v) = 4"
  by (simp_all add: lanes3_def lanes4_def)

lemma store2_confined: "same_elsewhere h (store2 c h p v) p 2"
  unfolding store2_def by (rule write_cells_same_elsewhere) simp

lemma store3_confined: "same_elsewhere h (store3 c h p v) p 3"
  unfolding store3_def by (rule write_cells_same_elsewhere) simp

lemma store4_confined: "same_elsewhere h (store4 c h p v) p 4"
  unfolding store4_def by (rule write_cells_same_elsewhere) simp

lemma store3x3_confined: "same_elsewhere h (store3x3 h p m) p 9"
  unfolding store3x3_def by (rule write_cells_same_elsewhere) (simp add: length_lanes)

lemma store4x3_confined: "same_elsewhere h (store4x3 h p m) p 12"
  unfolding store4x3_def by (rule write_cells_same_elsewhere) (simp add: length_lanes)

lemma store4x4_confined: "same_elsewhere h (store4x4 h p m) p 16"
  unfolding store4x4_def by (rule write_cells_same_elsewhere) (simp add: length_lanes)

lemma XMStore_vector_ref_confined:
  "XMStore_vector_ref cv (XMStore_vector_for t) h p v = Inr h'
    \<Longrightarrow> same_elsewhere h h' p (vector_components t)"
  by (cases t)
    (auto simp: require_aligned16_def store2_confined store3_confined store4_confined
      split: if_splits)

lemma XMStore_matrix_ref_confined:
  "XMStore_matrix_ref (XMStore_matrix_for t) h p m = Inr h'
    \<Longrightarrow> same_elsewhere h h' p (matrix_components t)"
  by (cases t)
    (auto simp: require_aligned16_def store3x3_confined store4x3_confined store4x4_confined
      split: if_splits)

lemma stores_confined_ref: "stores_confined (DirectXMath_ref cv)"
  unfolding stores_confined_def
  by (auto simp: DirectXMath_ref_def dest: XMStore_vector_ref_confined XMStore_matrix_ref_confined)

lemma write_cells_determined:
  "length cs = n \<Longrightarrow> same_object (write_cells h p cs) (write_cells h' p cs) p n"
  by (auto simp: same_object_def write_cells_inside)

lemma store2_determined: "same_object (store2 c h p v) (store2 c h' p v) p 2"
  unfolding store2_def by (rule write_cells_determined) simp

lemma store3_determined: "same_object (store3 c h p v) (store3 c h' p v) p 3"
  unfolding store3_def by (rule write_cells_determined) simp

lemma store4_determined: "same_object (store4 c h p v) (store4 c h' p v) p 4"
  unfolding store4_def by (rule write_cells_determined) simp

lemma store3x3_determined: "same_object (store3x3 h p m) (store3x3 h' p m) p 9"
  unfolding store3x3_def by (rule write_cells_determined) (simp add: length_lanes)

lemma store4x3_determined: "same_object (store4x3 h p m) (store4x3 h' p m) p 12"
  unfolding store4x3_def by (rule write_cells_determined) (simp add: length_lanes)

lemma store4x4_determined: "same_object (store4x4 h p m) (store4x4 h' p m) p 16"
  unfolding store4x4_def by (rule write_cells_determined) (simp add: length_lanes)

lemma XMStore_vector_ref_determined:
  "XMStore_vector_ref cv (XMStore_vector_for t) h p v = Inr h1
    \<Longrightarrow> XMStore_vector_ref cv (XMStore_vector_for t) h' p v = Inr h1'
    \<Longrightarrow> same_object h1 h1' p (vector_components t)"
  by (cases t)
    (auto simp: require_aligned16_def store2_determined store3_determined store4_determined
      split: if_splits)

lemma XMStore_matrix_ref_determined:
  "XMStore_matrix_ref (XMStore_matrix_for t) h p m = Inr h1
    \<Longrightarrow> XMStore_matrix_ref (XMStore_matrix_for t) h' p m = Inr h1'
    \<Longrightarrow> same_object h1 h1' p (matrix_components t)"
  by (cases t)
    (auto simp: require_aligned16_def store3x3_determined store4x3_determined
      store4x4_determined split: if_splits)

lemma stores_determined_ref: "stores_determined (DirectXMath_ref cv)"
  unfolding stores_determined_def
  by (auto simp: DirectXMath_ref_def
      dest: XMStore_vector_ref_determined XMStore_matrix_ref_determined)

lemma store2_overwrites: "same_elsewhere h h' p 2 \<Longrightarrow> store2 c h' p v = store2 c h p v"
  unfolding store2_def by (rule write_cells_overwrites [where n = 2]) simp_all

lemma store3_overwrites: "same_elsewhere h h' p 3 \<Longrightarrow> store3 c h' p v = store3 c h p v"
  unfolding store3_def by (rule write_cells_overwrites [where n = 3]) simp_all

lemma store4_overwrites: "same_elsewhere h h' p 4 \<Longrightarrow> store4 c h' p v = store4 c h p v"
  unfolding store4_def by (rule write_cells_overwrites [where n = 4]) simp_all

lemma store3x3_overwrites: "same_elsewhere h h' p 9 \<Longrightarrow> store3x3 h' p m = store3x3 h p m"
  unfolding store3x3_def
  by (rule write_cells_overwrites [where n = 9]) (simp_all add: length_lanes)

lemma store4x3_overwrites: "same_elsewhere h h' p 12 \<Longrightarrow> store4x3 h' p m = store4x3 h p m"
  unfolding store4x3_def
  by (rule write_cells_overwrites [where n = 12]) (simp_all add: length_lanes)

lemma store4x4_overwrites: "same_elsewhere h h' p 16 \<Longrightarrow> store4x4 h' p m = store4x4 h p m"
  unfolding store4x4_def
  by (rule write_cells_overwrites [where n = 16]) (simp_all add: length_lanes)

lemma XMStore_vector_ref_overwrites:
  "same_elsewhere h h' p (vector_components t)
    \<Longrightarrow> XMStore_vector_ref cv (XMStore_vector_for t) h' p v = XMStore_vector_ref cv (XMStore_vector_for t) h p v"
  by (cases t)
    (simp_all add: require_aligned16_def store2_overwrites store3_overwrites store4_overwrites)

lemma XMStore_matrix_ref_overwrites:
  "same_elsewhere h h' p (matrix_components t)
    \<Longrightarrow> XMStore_matrix_ref (XMStore_matrix_for t) h' p m = XMStore_matrix_ref (XMStore_matrix_for t) h p m"
  by (cases t)
    (simp_all add: require_aligned16_def store3x3_overwrites store4x3_overwrites store4x4_overwrites)

lemma stores_overwrite_ref: "stores_overwrite (DirectXMath_ref cv)"
  by (simp add: stores_overwrite_def DirectXMath_ref_def
      XMStore_vector_ref_overwrites XMStore_matrix_ref_overwrites)

lemma initializers_confined_ref: "initializers_confined (DirectXMath_ref cv)"
proof -
  have "same_elsewhere h (write_cells h p (replicate (components T) 0)) p (components T)"
    for h p T
    by (rule write_cells_same_elsewhere) simp
  then show ?thesis
    by (simp add: initializers_confined_def DirectXMath_ref_def same_elsewhere_refl)
qed

section \<open>Every member function forwards\<close>

text \<open>The definitions of all member functions of one kind, for unfolding.\<close>

lemmas vector_member_defs =
  MXMFLOAT2_ctor_def MXMFLOAT2A_ctor_def MXMINT2_ctor_def MXMUINT2_ctor_def MXMFLOAT3_ctor_def MXMFLOAT3A_ctor_def MXMINT3_ctor_def MXMUINT3_ctor_def MXMFLOAT4_ctor_def MXMFLOAT4A_ctor_def MXMINT4_ctor_def MXMUINT4_ctor_def
  MXMFLOAT2_ctor_array_def MXMFLOAT2A_ctor_array_def MXMINT2_ctor_array_def MXMUINT2_ctor_array_def MXMFLOAT3_ctor_array_def MXMFLOAT3A_ctor_array_def MXMINT3_ctor_array_def MXMUINT3_ctor_array_def MXMFLOAT4_ctor_array_def MXMFLOAT4A_ctor_array_def MXMINT4_ctor_array_def MXMUINT4_ctor_array_def
  MXMFLOAT2_ctor_XMVECTOR_def MXMFLOAT2A_ctor_XMVECTOR_def MXMINT2_ctor_XMVECTOR_def MXMUINT2_ctor_XMVECTOR_def MXMFLOAT3_ctor_XMVECTOR_def MXMFLOAT3A_ctor_XMVECTOR_def MXMINT3_ctor_XMVECTOR_def MXMUINT3_ctor_XMVECTOR_def MXMFLOAT4_ctor_XMVECTOR_def MXMFLOAT4A_ctor_XMVECTOR_def MXMINT4_ctor_XMVECTOR_def MXMUINT4_ctor_XMVECTOR_def
  MXMFLOAT2_operator_XMVECTOR_def MXMFLOAT2A_operator_XMVECTOR_def MXMINT2_operator_XMVECTOR_def MXMUINT2_operator_XMVECTOR_def MXMFLOAT3_operator_XMVECTOR_def MXMFLOAT3A_operator_XMVECTOR_def MXMINT3_operator_XMVECTOR_def MXMUINT3_operator_XMVECTOR_def MXMFLOAT4_operator_XMVECTOR_def MXMFLOAT4A_operator_XMVECTOR_def MXMINT4_operator_XMVECTOR_def MXMUINT4_operator_XMVECTOR_def
  MXMFLOAT2_operator_assign_def MXMFLOAT2A_operator_assign_def MXMINT2_operator_assign_def MXMUINT2_operator_assign_def MXMFLOAT3_operator_assign_def MXMFLOAT3A_operator_assign_def MXMINT3_operator_assign_def MXMUINT3_operator_assign_def MXMFLOAT4_operator_assign_def MXMFLOAT4A_operator_assign_def MXMINT4_operator_assign_def MXMUINT4_operator_assign_def

lemmas matrix_member_defs =
  MXMFLOAT3X3_ctor_def MXMFLOAT4X3_ctor_def MXMFLOAT4X3A_ctor_def MXMFLOAT4X4_ctor_def MXMFLOAT4X4A_ctor_def
  MXMFLOAT3X3_ctor_array_def MXMFLOAT4X3_ctor_array_def MXMFLOAT4X3A_ctor_array_def MXMFLOAT4X4_ctor_array_def MXMFLOAT4X4A_ctor_array_def
  MXMFLOAT3X3_ctor_XMMATRIX_def MXMFLOAT4X3_ctor_XMMATRIX_def MXMFLOAT4X3A_ctor_XMMATRIX_def MXMFLOAT4X4_ctor_XMMATRIX_def MXMFLOAT4X4A_ctor_XMMATRIX_def
  MXMFLOAT3X3_operator_XMMATRIX_def MXMFLOAT4X3_operator_XMMATRIX_def MXMFLOAT4X3A_operator_XMMATRIX_def MXMFLOAT4X4_operator_XMMATRIX_def MXMFLOAT4X4A_operator_XMMATRIX_def
  MXMFLOAT3X3_operator_assign_def MXMFLOAT4X3_operator_assign_def MXMFLOAT4X3A_operator_assign_def MXMFLOAT4X4_operator_assign_def MXMFLOAT4X4A_operator_assign_def

lemmas component_constructor_defs =
  MXMFLOAT2_ctor_components_def MXMFLOAT2A_ctor_components_def MXMINT2_ctor_components_def MXMUINT2_ctor_components_def MXMFLOAT3_ctor_components_def MXMFLOAT3A_ctor_components_def MXMINT3_ctor_components_def MXMUINT3_ctor_components_def MXMFLOAT4_ctor_components_def MXMFLOAT4A_ctor_components_def MXMINT4_ctor_components_def MXMUINT4_ctor_components_def
  MXMFLOAT3X3_ctor_components_def MXMFLOAT4X3_ctor_components_def MXMFLOAT4X3A_ctor_components_def MXMFLOAT4X4_ctor_components_def MXMFLOAT4X4A_ctor_components_def

text \<open>
  For every wrapper type, the member function the header defines calls the routine that
  the library declares for the base of that type: the routine is looked up from the base
  (\<open>XMStore_vector_for (vector_base w)\<close>), not read off the body of the member function.
\<close>

lemma assign_XMVECTOR_forwards:
  "assign_XMVECTOR lib w h this v =
     (case store_vector lib (XMStore_vector_for (vector_base w)) h this v of
        Inl e \<Rightarrow> Inl e | Inr h' \<Rightarrow> Inr (this, h'))"
  by (cases w) (simp_all add: vector_member_defs)

lemma assign_XMMATRIX_forwards:
  "assign_XMMATRIX lib w h this m =
     (case store_matrix lib (XMStore_matrix_for (matrix_base w)) h this m of
        Inl e \<Rightarrow> Inl e | Inr h' \<Rightarrow> Inr (this, h'))"
  by (cases w) (simp_all add: matrix_member_defs)

lemma to_XMVECTOR_forwards:
  "to_XMVECTOR lib w h this =
     (case load_vector lib (XMLoad_vector_for (vector_base w)) h this of
        Inl e \<Rightarrow> Inl e | Inr v \<Rightarrow> Inr (v, h))"
  by (cases w) (simp_all add: vector_member_defs)

lemma to_XMMATRIX_forwards:
  "to_XMMATRIX lib w h this =
     (case load_matrix lib (XMLoad_matrix_for (matrix_base w)) h this of
        Inl e \<Rightarrow> Inl e | Inr m \<Rightarrow> Inr (m, h))"
  by (cases w) (simp_all add: matrix_member_defs)

lemma construct_from_XMVECTOR_forwards:
  "construct_from_XMVECTOR lib w h this v =
     store_vector lib (XMStore_vector_for (vector_base w))
       (default_initialize lib (Vector (vector_base w)) h this) this v"
  by (cases w) (simp_all add: vector_member_defs)

lemma construct_from_XMMATRIX_forwards:
  "construct_from_XMMATRIX lib w h this m =
     store_matrix lib (XMStore_matrix_for (matrix_base w))
       (default_initialize lib (Matrix (matrix_base w)) h this) this m"
  by (cases w) (simp_all add: matrix_member_defs)

lemma default_construct_vector_forwards:
  "default_construct_vector lib w h this = Inr (construct lib (Vector (vector_base w)) h this)"
  by (cases w) (simp_all add: vector_member_defs)

lemma default_construct_matrix_forwards:
  "default_construct_matrix lib w h this = Inr (construct lib (Matrix (matrix_base w)) h this)"
  by (cases w) (simp_all add: matrix_member_defs)

lemma construct_vector_from_array_forwards:
  "construct_vector_from_array lib w h this pArray =
     Inr (construct_array lib (Vector (vector_base w)) h this pArray)"
  by (cases w) (simp_all add: vector_member_defs)

lemma construct_matrix_from_array_forwards:
  "construct_matrix_from_array lib w h this pArray =
     Inr (construct_array lib (Matrix (matrix_base w)) h this pArray)"
  by (cases w) (simp_all add: matrix_member_defs)

section \<open>Round trips through the reference implementation\<close>

lemma read_cells_2: "read_cells h p 2 = [h p, h (p + 1)]"
  by (simp add: eval_nat_numeral)

lemma read_cells_3: "read_cells h p 3 = [h p, h (p + 1), h (p + 2)]"
  by (simp add: eval_nat_numeral)

lemma read_cells_4: "read_cells h p 4 = [h p, h (p + 1), h (p + 2), h (p + 3)]"
  by (simp add: eval_nat_numeral)

lemma read_cells_add: "read_cells h p (n + k) = read_cells h p n @ read_cells h (p + n) k"
  by (induction n arbitrary: p) simp_all

lemma load2_store2:
  "load2 f (store2 g h p v) p =
     \<lparr>vec_x = f (g (vec_x v)), vec_y = f (g (vec_y v)), vec_z = float_zero, vec_w = float_zero\<rparr>"
  by (simp add: load2_def store2_def)

lemma load3_store3:
  "load3 f (store3 g h p v) p =
     \<lparr>vec_x = f (g (vec_x v)), vec_y = f (g (vec_y v)), vec_z = f (g (vec_z v)), vec_w = float_zero\<rparr>"
  by (simp add: load3_def store3_def eval_nat_numeral)

lemma load4_store4:
  "load4 f (store4 g h p v) p =
     \<lparr>vec_x = f (g (vec_x v)), vec_y = f (g (vec_y v)), vec_z = f (g (vec_z v)),
      vec_w = f (g (vec_w v))\<rparr>"
  by (simp add: load4_def store4_def eval_nat_numeral)

lemma store2_load2:
  "store2 g h p (load2 f h p) = write_cells h p (map (\<lambda>c. g (f c)) (read_cells h p 2))"
  by (simp add: load2_def store2_def read_cells_2)

lemma store3_load3:
  "store3 g h p (load3 f h p) = write_cells h p (map (\<lambda>c. g (f c)) (read_cells h p 3))"
  by (simp add: load3_def store3_def read_cells_3)

lemma store4_load4:
  "store4 g h p (load4 f h p) = write_cells h p (map (\<lambda>c. g (f c)) (read_cells h p 4))"
  by (simp add: load4_def store4_def read_cells_4)

lemma lanes3_load3: "lanes3 (load3 (\<lambda>c. c) h p) = read_cells h p 3"
  by (simp add: lanes3_def load3_def read_cells_3)

lemma lanes3_load3_w: "lanes3 ((load3 (\<lambda>c. c) h p)\<lparr>vec_w := c\<rparr>) = read_cells h p 3"
  by (simp add: lanes3_def load3_def read_cells_3)

lemma lanes4_load4: "lanes4 (load4 (\<lambda>c. c) h p) = read_cells h p 4"
  by (simp add: lanes4_def load4_def read_cells_4)

lemma read_cells_3x3:
  "read_cells h p 3 @ read_cells h (p + 3) 3 @ read_cells h (p + 6) 3 = read_cells h p 9"
  by (simp add: eval_nat_numeral)

lemma read_cells_4x3:
  "read_cells h p 3 @ read_cells h (p + 3) 3 @ read_cells h (p + 6) 3 @ read_cells h (p + 9) 3
     = read_cells h p 12"
  by (simp add: eval_nat_numeral)

lemma read_cells_4x4:
  "read_cells h p 4 @ read_cells h (p + 4) 4 @ read_cells h (p + 8) 4 @ read_cells h (p + 12) 4
     = read_cells h p 16"
  by (simp add: eval_nat_numeral)

lemma store3x3_load3x3: "store3x3 h p (load3x3 h p) = h"
  by (simp add: store3x3_def load3x3_def lanes3_load3 read_cells_3x3 write_cells_read_cells)

lemma store4x3_load4x3: "store4x3 h p (load4x3 h p) = h"
  by (simp add: store4x3_def load4x3_def lanes3_load3 lanes3_load3_w read_cells_4x3
      write_cells_read_cells)

lemma store4x4_load4x4: "store4x4 h p (load4x4 h p) = h"
  by (simp add: store4x4_def load4x4_def lanes4_load4 read_cells_4x4 write_cells_read_cells)

lemma write_cells_append:
  "write_cells h p (cs @ ds) = write_cells (write_cells h p cs) (p + length cs) ds"
  by (induction cs arbitrary: h p) simp_all

lemma load3_write_cells:
  "length cs = k \<Longrightarrow> load3 f (write_cells h p (cs @ [a, b, c] @ ds)) (p + k)
     = \<lparr>vec_x = f a, vec_y = f b, vec_z = f c, vec_w = float_zero\<rparr>"
  by (simp add: load3_def write_cells_cell nth_append add.assoc)

lemma load4_write_cells:
  "length cs = k \<Longrightarrow> load4 f (write_cells h p (cs @ [a, b, c, d] @ ds)) (p + k)
     = \<lparr>vec_x = f a, vec_y = f b, vec_z = f c, vec_w = f d\<rparr>"
  by (simp add: load4_def write_cells_cell nth_append add.assoc)

lemma load3x3_store3x3: "load3x3 (store3x3 h p m) p = reloaded_matrix XMFLOAT3X3 m"
  using load3_write_cells [of "[]" 0 "\<lambda>c. c" h p "vec_x (r0 m)" "vec_y (r0 m)" "vec_z (r0 m)"
      "lanes3 (r1 m) @ lanes3 (r2 m)"]
    load3_write_cells [of "lanes3 (r0 m)" 3 "\<lambda>c. c" h p "vec_x (r1 m)" "vec_y (r1 m)" "vec_z (r1 m)"
      "lanes3 (r2 m)"]
    load3_write_cells [of "lanes3 (r0 m) @ lanes3 (r1 m)" 6 "\<lambda>c. c" h p
      "vec_x (r2 m)" "vec_y (r2 m)" "vec_z (r2 m)" "[]"]
  by (simp add: load3x3_def store3x3_def lanes3_def float_zero_def)

lemma load4x3_store4x3: "load4x3 (store4x3 h p m) p = reloaded_matrix XMFLOAT4X3 m"
  using load3_write_cells [of "[]" 0 "\<lambda>c. c" h p "vec_x (r0 m)" "vec_y (r0 m)" "vec_z (r0 m)"
      "lanes3 (r1 m) @ lanes3 (r2 m) @ lanes3 (r3 m)"]
    load3_write_cells [of "lanes3 (r0 m)" 3 "\<lambda>c. c" h p "vec_x (r1 m)" "vec_y (r1 m)" "vec_z (r1 m)"
      "lanes3 (r2 m) @ lanes3 (r3 m)"]
    load3_write_cells [of "lanes3 (r0 m) @ lanes3 (r1 m)" 6 "\<lambda>c. c" h p
      "vec_x (r2 m)" "vec_y (r2 m)" "vec_z (r2 m)" "lanes3 (r3 m)"]
    load3_write_cells [of "lanes3 (r0 m) @ lanes3 (r1 m) @ lanes3 (r2 m)" 9 "\<lambda>c. c" h p
      "vec_x (r3 m)" "vec_y (r3 m)" "vec_z (r3 m)" "[]"]
  by (simp add: load4x3_def store4x3_def lanes3_def float_zero_def)

lemma load4x4_store4x4: "load4x4 (store4x4 h p m) p = m"
  using load4_write_cells [of "[]" 0 "\<lambda>c. c" h p "vec_x (r0 m)" "vec_y (r0 m)" "vec_z (r0 m)"
      "vec_w (r0 m)" "lanes4 (r1 m) @ lanes4 (r2 m) @ lanes4 (r3 m)"]
    load4_write_cells [of "lanes4 (r0 m)" 4 "\<lambda>c. c" h p "vec_x (r1 m)" "vec_y (r1 m)" "vec_z (r1 m)"
      "vec_w (r1 m)" "lanes4 (r2 m) @ lanes4 (r3 m)"]
    load4_write_cells [of "lanes4 (r0 m) @ lanes4 (r1 m)" 8 "\<lambda>c. c" h p
      "vec_x (r2 m)" "vec_y (r2 m)" "vec_z (r2 m)" "vec_w (r2 m)" "lanes4 (r3 m)"]
    load4_write_cells [of "lanes4 (r0 m) @ lanes4 (r1 m) @ lanes4 (r2 m)" 12 "\<lambda>c. c" h p
      "vec_x (r3 m)" "vec_y (r3 m)" "vec_z (r3 m)" "vec_w (r3 m)" "[]"]
  by (simp add: load4x4_def store4x4_def lanes4_def)


lemma ref_store_then_load_vector:
  "assign_XMVECTOR (DirectXMath_ref cv) w h this v = Inr (r, h1)
    \<Longrightarrow> to_XMVECTOR (DirectXMath_ref cv) w h1 r = Inr (reloaded_vector cv (vector_base w) v, h1)"
  unfolding assign_XMVECTOR_forwards to_XMVECTOR_forwards
  by (cases w)
    (auto simp: DirectXMath_ref_def
      require_aligned16_def load2_store2 load3_store3 load4_store4 reloaded_vector_def
      first_lanes_def split: if_splits sum.splits)

lemma ref_load_then_store_vector:
  "to_XMVECTOR (DirectXMath_ref cv) w h this = Inr (v, h1)
    \<Longrightarrow> assign_XMVECTOR (DirectXMath_ref cv) w h1 this v =
        Inr (this, write_cells h this
          (map (restored_component cv (vector_base w))
            (read_cells h this (vector_components (vector_base w)))))"
  unfolding assign_XMVECTOR_forwards to_XMVECTOR_forwards
  by (cases w)
    (auto simp: DirectXMath_ref_def
      require_aligned16_def store2_load2 store3_load3 store4_load4 restored_component_def
      read_cells_2 read_cells_3 read_cells_4 split: if_splits sum.splits)

lemma restored_float_component:
  "w \<in> {MXMFLOAT2, MXMFLOAT2A, MXMFLOAT3, MXMFLOAT3A, MXMFLOAT4, MXMFLOAT4A}
    \<Longrightarrow> map (restored_component cv (vector_base w)) cs = cs"
  by (induction cs) (auto simp: restored_component_def)

lemma ref_store_then_load_matrix:
  "assign_XMMATRIX (DirectXMath_ref cv) w h this m = Inr (r, h1)
    \<Longrightarrow> to_XMMATRIX (DirectXMath_ref cv) w h1 r = Inr (reloaded_matrix (matrix_base w) m, h1)"
  unfolding assign_XMMATRIX_forwards to_XMMATRIX_forwards
  by (cases w)
    (auto simp: DirectXMath_ref_def
      require_aligned16_def load3x3_store3x3 load4x3_store4x3 load4x4_store4x4
      split: if_splits sum.splits)

lemma ref_load_then_store_matrix:
  "to_XMMATRIX (DirectXMath_ref cv) w h this = Inr (m, h1)
    \<Longrightarrow> assign_XMMATRIX (DirectXMath_ref cv) w h1 this m = Inr (this, h)"
  unfolding assign_XMMATRIX_forwards to_XMMATRIX_forwards
  by (cases w)
    (auto simp: DirectXMath_ref_def
      require_aligned16_def store3x3_load3x3 store4x3_load4x3 store4x4_load4x4
      split: if_splits sum.splits)

section \<open>The overwrite defines, evaluated\<close>

lemma overwritten_names:
  "map fst (overwrite_defines True) =
    [''XMFLOAT2'', ''XMINT2'', ''XMUINT2'', ''XMFLOAT2A'', ''XMFLOAT3'', ''XMFLOAT3A'', ''XMINT3'',
     ''XMUINT3'', ''XMFLOAT4'', ''XMFLOAT4A'', ''XMINT4'', ''XMUINT4'', ''XMFLOAT3X3'', ''XMFLOAT4X3'',
     ''XMFLOAT4X3A'', ''XMFLOAT4X4'', ''XMFLOAT4X4A'']"
  by (simp add: overwrite_defines_def)

lemma preprocess_other:
  "identifier \<notin> set (map fst defines) \<Longrightarrow> preprocess defines identifier = identifier"
proof -
  assume "identifier \<notin> set (map fst defines)"
  then have "map_of defines identifier = None"
    by (simp add: map_of_eq_None_iff)
  then show ?thesis by (simp add: preprocess_def)
qed

lemma preprocess_vector_type:
  "preprocess (overwrite_defines True) (vector_type_name (vector_base w)) = vector_wrapper_name w"
  by (cases w) (simp_all add: preprocess_def overwrite_defines_def)

lemma preprocess_matrix_type:
  "preprocess (overwrite_defines True) (matrix_type_name (matrix_base w)) = matrix_wrapper_name w"
  by (cases w) (simp_all add: preprocess_def overwrite_defines_def)

lemma vector_wrapper_name_prefixed:
  "vector_wrapper_name w = ''M'' @ vector_type_name (vector_base w)"
  by (cases w) simp_all

lemma matrix_wrapper_name_prefixed:
  "matrix_wrapper_name w = ''M'' @ matrix_type_name (matrix_base w)"
  by (cases w) simp_all

lemma vector_wrapper_once:
  "count_list (map snd (overwrite_defines True)) (vector_wrapper_name w) = 1"
  by (cases w) (simp_all add: overwrite_defines_def)

lemma matrix_wrapper_once:
  "count_list (map snd (overwrite_defines True)) (matrix_wrapper_name w) = 1"
  by (cases w) (simp_all add: overwrite_defines_def)

section \<open>The footprint of a wrapper object, and two initial states\<close>

lemma vector_wrapper_components_base:
  "vector_wrapper_components w = vector_components (vector_base w)"
  by (cases w) (simp_all add: vector_wrapper_components_def)

lemma matrix_wrapper_components_base:
  "matrix_wrapper_components w = matrix_components (matrix_base w)"
  by (cases w) (simp_all add: matrix_wrapper_components_def)

lemma same_elsewhere_sym: "same_elsewhere h h' p n \<Longrightarrow> same_elsewhere h' h p n"
  by (simp add: same_elsewhere_def)

lemma same_elsewhere_trans:
  "same_elsewhere h h' p n \<Longrightarrow> same_elsewhere h' h'' p n \<Longrightarrow> same_elsewhere h h'' p n"
  by (simp add: same_elsewhere_def)

lemma initializers_agree_elsewhere:
  assumes "initializers_confined lib"
  shows "same_elsewhere (construct lib T h p) (default_initialize lib T h p) p (components T)"
proof -
  from assms have "same_elsewhere h (default_initialize lib T h p) p (components T)"
    and "same_elsewhere h (construct lib T h p) p (components T)"
    by (simp_all add: initializers_confined_def)
  then show ?thesis
    by (blast intro: same_elsewhere_sym same_elsewhere_trans)
qed

section \<open>A memory type with fewer scalars cannot hold every SIMD value\<close>

text \<open>
  An \<^verbatim>\<open>XMVECTOR\<close> has 128 bits and an \<^verbatim>\<open>XMMATRIX\<close> 512. An object with \<open>n\<close>
  scalar members has \<open>32 * n\<close> bits. If the library's loads read only their source, the
  value a conversion returns is a function of the object's cells; so where the object
  has fewer bits than the SIMD type, two SIMD values are stored as the same object or
  one of them is not returned by the conversion. This holds for every implementation of
  the library; it does not depend on the reference implementation.
\<close>

lemma card_lists_of_length: "card {cs :: 32 word list. length cs = n} = 2 ^ (32 * n)"
  using card_lists_length_eq [of "UNIV :: 32 word set" n]
  by (simp add: card_word power_mult)

lemma finite_lists_of_length: "finite {cs :: 32 word list. length cs = n}"
  using finite_lists_length_eq [of "UNIV :: 32 word set" n] by simp

lemma same_object_read_cells:
  assumes "read_cells h' p n = read_cells h p n"
  shows "same_object h h' p n"
  unfolding same_object_def
proof (intro allI impI)
  fix i
  assume "i < n"
  then have "h' (p + i) = read_cells h' p n ! i" and "h (p + i) = read_cells h p n ! i"
    by (simp_all add: nth_read_cells)
  with assms show "h' (p + i) = h (p + i)" by simp
qed

lemma inj_vector_of_lanes: "inj vector_of_lanes"
  by (rule injI) (auto simp: vector_of_lanes_def)

lemma card_lanes: "card (UNIV :: (32 word \<times> 32 word \<times> 32 word \<times> 32 word) set) = 2 ^ 128"
proof -
  have "card (UNIV :: (32 word \<times> 32 word \<times> 32 word \<times> 32 word) set)
      = card ((UNIV :: 32 word set) \<times> (UNIV :: 32 word set) \<times> (UNIV :: 32 word set)
          \<times> (UNIV :: 32 word set))"
    by simp
  also have "\<dots> = 2 ^ 32 * (2 ^ 32 * (2 ^ 32 * 2 ^ 32))"
    unfolding card_cartesian_product card_word by simp
  also have "\<dots> = (2::nat) ^ (32 + (32 + (32 + 32)))"
    by (simp only: power_add)
  also have "\<dots> = 2 ^ 128" by simp
  finally show ?thesis .
qed

lemma card_vectors: "card (range vector_of_lanes) = 2 ^ 128"
  using card_image [OF inj_vector_of_lanes] card_lanes by simp

theorem narrow_vector_round_trip_impossible:
  assumes reads: "loads_local lib"
    and narrow: "vector_components (vector_base w) < 4"
  shows "\<not> (\<forall>v. \<exists>h1. assign_XMVECTOR lib w h this v = Inr (this, h1)
                  \<and> to_XMVECTOR lib w h1 this = Inr (v, h1))"
proof
  let ?n = "vector_components (vector_base w)"
  let ?S = "store_vector lib (XMStore_vector_for (vector_base w)) h this"
  let ?L = "load_vector lib (XMLoad_vector_for (vector_base w))"
  assume trip: "\<forall>v. \<exists>h1. assign_XMVECTOR lib w h this v = Inr (this, h1)
      \<and> to_XMVECTOR lib w h1 this = Inr (v, h1)"
  define key where "key v = read_cells (projr (?S v)) this ?n" for v
  have loaded: "?L (projr (?S v)) this = Inr v" for v
  proof -
    from trip obtain h1 where a: "assign_XMVECTOR lib w h this v = Inr (this, h1)"
      and l: "to_XMVECTOR lib w h1 this = Inr (v, h1)" by blast
    from a have "?S v = Inr h1"
      by (simp add: assign_XMVECTOR_forwards split: sum.splits)
    moreover from l have "?L h1 this = Inr v"
      by (simp add: to_XMVECTOR_forwards split: sum.splits)
    ultimately show ?thesis by simp
  qed
  have "inj key"
  proof (rule injI)
    fix v u
    assume "key v = key u"
    then have "same_object (projr (?S u)) (projr (?S v)) this ?n"
      unfolding key_def by (rule same_object_read_cells)
    with reads have "?L (projr (?S v)) this = ?L (projr (?S u)) this"
      unfolding loads_local_def by blast
    then have "Inr v = (Inr u :: 'a + XMVECTOR)"
      by (simp only: loaded)
    then show "v = u" by simp
  qed
  then have "inj_on key (range vector_of_lanes)"
    by (rule inj_on_subset) simp
  then have "card (key ` range vector_of_lanes) = card (range vector_of_lanes)"
    by (rule card_image)
  moreover have "key ` range vector_of_lanes \<subseteq> {cs. length cs = ?n}"
    by (auto simp: key_def)
  then have "card (key ` range vector_of_lanes) \<le> card {cs :: 32 word list. length cs = ?n}"
    by (rule card_mono [OF finite_lists_of_length])
  ultimately have "(2::nat) ^ 128 \<le> 2 ^ (32 * ?n)"
    by (simp only: card_vectors card_lists_of_length)
  then have "128 \<le> 32 * ?n"
    by (simp only: power_increasing_iff one_less_numeral_iff semiring_norm)
  with narrow show False by simp
qed

lemma inj_matrix_of_lanes: "inj matrix_of_lanes"
  by (rule injI) (auto simp: matrix_of_lanes_def vector_of_lanes_def)

lemma card_matrices: "card (range matrix_of_lanes) = 2 ^ 512"
proof -
  let ?L = "UNIV :: (32 word \<times> 32 word \<times> 32 word \<times> 32 word) set"
  have "card (range matrix_of_lanes) = card (UNIV :: ((32 word \<times> 32 word \<times> 32 word \<times> 32 word)
      \<times> (32 word \<times> 32 word \<times> 32 word \<times> 32 word) \<times> (32 word \<times> 32 word \<times> 32 word \<times> 32 word)
      \<times> (32 word \<times> 32 word \<times> 32 word \<times> 32 word)) set)"
    by (rule card_image) (rule inj_matrix_of_lanes)
  also have "\<dots> = card (?L \<times> ?L \<times> ?L \<times> ?L)"
    by simp
  also have "\<dots> = 2 ^ 128 * (2 ^ 128 * (2 ^ 128 * 2 ^ 128))"
    unfolding card_cartesian_product card_lanes by simp
  also have "\<dots> = (2::nat) ^ (128 + (128 + (128 + 128)))"
    by (simp only: power_add)
  also have "\<dots> = 2 ^ 512" by simp
  finally show ?thesis .
qed

theorem narrow_matrix_round_trip_impossible:
  assumes reads: "loads_local lib"
    and narrow: "matrix_components (matrix_base w) < 16"
  shows "\<not> (\<forall>m. \<exists>h1. assign_XMMATRIX lib w h this m = Inr (this, h1)
                  \<and> to_XMMATRIX lib w h1 this = Inr (m, h1))"
proof
  let ?n = "matrix_components (matrix_base w)"
  let ?S = "store_matrix lib (XMStore_matrix_for (matrix_base w)) h this"
  let ?L = "load_matrix lib (XMLoad_matrix_for (matrix_base w))"
  assume trip: "\<forall>m. \<exists>h1. assign_XMMATRIX lib w h this m = Inr (this, h1)
      \<and> to_XMMATRIX lib w h1 this = Inr (m, h1)"
  define key where "key m = read_cells (projr (?S m)) this ?n" for m
  have loaded: "?L (projr (?S m)) this = Inr m" for m
  proof -
    from trip obtain h1 where a: "assign_XMMATRIX lib w h this m = Inr (this, h1)"
      and l: "to_XMMATRIX lib w h1 this = Inr (m, h1)" by blast
    from a have "?S m = Inr h1"
      by (simp add: assign_XMMATRIX_forwards split: sum.splits)
    moreover from l have "?L h1 this = Inr m"
      by (simp add: to_XMMATRIX_forwards split: sum.splits)
    ultimately show ?thesis by simp
  qed
  have "inj key"
  proof (rule injI)
    fix m k
    assume "key m = key k"
    then have "same_object (projr (?S k)) (projr (?S m)) this ?n"
      unfolding key_def by (rule same_object_read_cells)
    with reads have "?L (projr (?S m)) this = ?L (projr (?S k)) this"
      unfolding loads_local_def by blast
    then have "Inr m = (Inr k :: 'a + XMMATRIX)"
      by (simp only: loaded)
    then show "m = k" by simp
  qed
  then have "inj_on key (range matrix_of_lanes)"
    by (rule inj_on_subset) simp
  then have "card (key ` range matrix_of_lanes) = card (range matrix_of_lanes)"
    by (rule card_image)
  moreover have "key ` range matrix_of_lanes \<subseteq> {cs. length cs = ?n}"
    by (auto simp: key_def)
  then have "card (key ` range matrix_of_lanes) \<le> card {cs :: 32 word list. length cs = ?n}"
    by (rule card_mono [OF finite_lists_of_length])
  ultimately have "(2::nat) ^ 512 \<le> 2 ^ (32 * ?n)"
    by (simp only: card_matrices card_lists_of_length)
  then have "512 \<le> 32 * ?n"
    by (simp only: power_increasing_iff one_less_numeral_iff semiring_norm)
  with narrow show False by simp
qed

section \<open>The claims\<close>

subsection \<open>C1: the implicit path is the explicit path\<close>

text \<open>
  Claim C1. For every wrapper type, every memory, every object address and every SIMD
  value: the memory after assigning the SIMD value to the wrapper object (or the error)
  is exactly the memory after (or the error of) the library's store routine for the base
  type, called with the same address and value; and the SIMD value that converting the
  wrapper object returns (or the error) is exactly what the library's load routine for
  the base type returns on the same memory and address. Equal memories are in
  particular equal in the bytes of the object. This holds for every implementation of
  the library.
\<close>

theorem C1_implicit_conversion_is_explicit_call:
  "map_sum id snd (assign_XMVECTOR lib w h this v) =
     store_vector lib (XMStore_vector_for (vector_base w)) h this v
   \<and> map_sum id fst (to_XMVECTOR lib w h this) =
     load_vector lib (XMLoad_vector_for (vector_base w)) h this
   \<and> map_sum id snd (assign_XMMATRIX lib w' h this m) =
     store_matrix lib (XMStore_matrix_for (matrix_base w')) h this m
   \<and> map_sum id fst (to_XMMATRIX lib w' h this) =
     load_matrix lib (XMLoad_matrix_for (matrix_base w')) h this"
  by (simp add: assign_XMVECTOR_forwards to_XMVECTOR_forwards assign_XMMATRIX_forwards
      to_XMMATRIX_forwards split: sum.splits)

subsection \<open>C2: what the operations forward to\<close>

text \<open>
  Claim C2 says that every operation of the header is a one-line forwarding call to a
  load or store routine of the library. If that were so, the result of every operation
  would be fixed by the load and store routines alone. It is not: two implementations
  of the library with the same load and store routines, which differ only in
  \<^verbatim>\<open>XMVectorAbs\<close>, give different results of \<^verbatim>\<open>MXMMatrixAbs\<close> on the sample
  matrix, whose first row starts with \<open>-1.0\<close>.
\<close>

theorem C2_counterexample:
  "\<forall>lib :: xm_error DirectXMath.
     load_vector (lib\<lparr>XMVectorAbs := XMVectorAbs_ref\<rparr>) = load_vector (lib\<lparr>XMVectorAbs := (\<lambda>v. v)\<rparr>)
   \<and> store_vector (lib\<lparr>XMVectorAbs := XMVectorAbs_ref\<rparr>) = store_vector (lib\<lparr>XMVectorAbs := (\<lambda>v. v)\<rparr>)
   \<and> load_matrix (lib\<lparr>XMVectorAbs := XMVectorAbs_ref\<rparr>) = load_matrix (lib\<lparr>XMVectorAbs := (\<lambda>v. v)\<rparr>)
   \<and> store_matrix (lib\<lparr>XMVectorAbs := XMVectorAbs_ref\<rparr>) = store_matrix (lib\<lparr>XMVectorAbs := (\<lambda>v. v)\<rparr>)
   \<and> MXMMatrixAbs (lib\<lparr>XMVectorAbs := XMVectorAbs_ref\<rparr>) example_matrix example_matrix
       \<noteq> MXMMatrixAbs (lib\<lparr>XMVectorAbs := (\<lambda>v. v)\<rparr>) example_matrix example_matrix"
proof -
  have "clear_sign 0xBF800000 = 0x3F800000"
    by (simp add: clear_sign_def)
  then have "XMVectorAbs_ref example_negative_vector \<noteq> example_negative_vector"
    by (simp add: XMVectorAbs_ref_def example_negative_vector_def)
  then show ?thesis
    by (simp add: MXMMatrixAbs_def MXMMatrixAbs_body_def Let_def example_matrix_def)
qed

text \<open>
  Claim C2, as amended. For every implementation of the library and every wrapper type:
  the constructor from a SIMD value, the conversion operator and the assignment operator
  are each one call of the library's store or load routine for the base type (the
  constructor after the default-initialisation of the base); the default constructor,
  the array constructor and the component-wise constructor are each one call of the
  corresponding constructor of the base type, with the same arguments in the same
  order; and \<^verbatim>\<open>MXMMatrixAbs\<close> returns the matrix whose rows are the library's
  \<^verbatim>\<open>XMVectorAbs\<close> of the rows of its argument. Every scalar of every result is
  produced by a routine of the library; the header computes none itself.
\<close>

theorem C2_operations_forward:
  "construct_from_XMVECTOR lib w h this v =
     store_vector lib (XMStore_vector_for (vector_base w))
       (default_initialize lib (Vector (vector_base w)) h this) this v
   \<and> to_XMVECTOR lib w h this =
     map_sum id (\<lambda>v. (v, h)) (load_vector lib (XMLoad_vector_for (vector_base w)) h this)
   \<and> assign_XMVECTOR lib w h this v =
     map_sum id (\<lambda>h'. (this, h')) (store_vector lib (XMStore_vector_for (vector_base w)) h this v)
   \<and> construct_from_XMMATRIX lib w' h this m =
     store_matrix lib (XMStore_matrix_for (matrix_base w'))
       (default_initialize lib (Matrix (matrix_base w')) h this) this m
   \<and> to_XMMATRIX lib w' h this =
     map_sum id (\<lambda>m. (m, h)) (load_matrix lib (XMLoad_matrix_for (matrix_base w')) h this)
   \<and> assign_XMMATRIX lib w' h this m =
     map_sum id (\<lambda>h'. (this, h')) (store_matrix lib (XMStore_matrix_for (matrix_base w')) h this m)
   \<and> default_construct_vector lib w h this = Inr (construct lib (Vector (vector_base w)) h this)
   \<and> default_construct_matrix lib w' h this = Inr (construct lib (Matrix (matrix_base w')) h this)
   \<and> construct_vector_from_array lib w h this pArray =
     Inr (construct_array lib (Vector (vector_base w)) h this pArray)
   \<and> construct_matrix_from_array lib w' h this pArray =
     Inr (construct_array lib (Matrix (matrix_base w')) h this pArray)
   \<and> MXMFLOAT2_ctor_components lib h this c0 c1 =
       Inr (construct_components lib (Vector XMFLOAT2) h this [c0, c1])
   \<and> MXMFLOAT2A_ctor_components lib h this c0 c1 =
       Inr (construct_components lib (Vector XMFLOAT2A) h this [c0, c1])
   \<and> MXMINT2_ctor_components lib h this c0 c1 =
       Inr (construct_components lib (Vector XMINT2) h this [c0, c1])
   \<and> MXMUINT2_ctor_components lib h this c0 c1 =
       Inr (construct_components lib (Vector XMUINT2) h this [c0, c1])
   \<and> MXMFLOAT3_ctor_components lib h this c0 c1 c2 =
       Inr (construct_components lib (Vector XMFLOAT3) h this [c0, c1, c2])
   \<and> MXMFLOAT3A_ctor_components lib h this c0 c1 c2 =
       Inr (construct_components lib (Vector XMFLOAT3A) h this [c0, c1, c2])
   \<and> MXMINT3_ctor_components lib h this c0 c1 c2 =
       Inr (construct_components lib (Vector XMINT3) h this [c0, c1, c2])
   \<and> MXMUINT3_ctor_components lib h this c0 c1 c2 =
       Inr (construct_components lib (Vector XMUINT3) h this [c0, c1, c2])
   \<and> MXMFLOAT4_ctor_components lib h this c0 c1 c2 c3 =
       Inr (construct_components lib (Vector XMFLOAT4) h this [c0, c1, c2, c3])
   \<and> MXMFLOAT4A_ctor_components lib h this c0 c1 c2 c3 =
       Inr (construct_components lib (Vector XMFLOAT4A) h this [c0, c1, c2, c3])
   \<and> MXMINT4_ctor_components lib h this c0 c1 c2 c3 =
       Inr (construct_components lib (Vector XMINT4) h this [c0, c1, c2, c3])
   \<and> MXMUINT4_ctor_components lib h this c0 c1 c2 c3 =
       Inr (construct_components lib (Vector XMUINT4) h this [c0, c1, c2, c3])
   \<and> MXMFLOAT3X3_ctor_components lib h this c0 c1 c2 c3 c4 c5 c6 c7 c8 =
       Inr (construct_components lib (Matrix XMFLOAT3X3) h this [c0, c1, c2, c3, c4, c5, c6, c7, c8])
   \<and> MXMFLOAT4X3_ctor_components lib h this c0 c1 c2 c3 c4 c5 c6 c7 c8 c9 c10 c11 =
       Inr (construct_components lib (Matrix XMFLOAT4X3) h this [c0, c1, c2, c3, c4, c5, c6, c7, c8, c9, c10, c11])
   \<and> MXMFLOAT4X3A_ctor_components lib h this c0 c1 c2 c3 c4 c5 c6 c7 c8 c9 c10 c11 =
       Inr (construct_components lib (Matrix XMFLOAT4X3A) h this [c0, c1, c2, c3, c4, c5, c6, c7, c8, c9, c10, c11])
   \<and> MXMFLOAT4X4_ctor_components lib h this c0 c1 c2 c3 c4 c5 c6 c7 c8 c9 c10 c11 c12 c13 c14 c15 =
       Inr (construct_components lib (Matrix XMFLOAT4X4) h this [c0, c1, c2, c3, c4, c5, c6, c7, c8, c9, c10, c11, c12, c13, c14, c15])
   \<and> MXMFLOAT4X4A_ctor_components lib h this c0 c1 c2 c3 c4 c5 c6 c7 c8 c9 c10 c11 c12 c13 c14 c15 =
       Inr (construct_components lib (Matrix XMFLOAT4X4A) h this [c0, c1, c2, c3, c4, c5, c6, c7, c8, c9, c10, c11, c12, c13, c14, c15])
   \<and> MXMMatrixAbs lib indeterminate m =
     \<lparr>r0 = XMVectorAbs lib (r0 m), r1 = XMVectorAbs lib (r1 m),
      r2 = XMVectorAbs lib (r2 m), r3 = XMVectorAbs lib (r3 m)\<rparr>"
  by (simp add: default_construct_vector_forwards default_construct_matrix_forwards
      construct_vector_from_array_forwards construct_matrix_from_array_forwards
      component_constructor_defs construct_from_XMVECTOR_forwards
      construct_from_XMMATRIX_forwards to_XMVECTOR_forwards to_XMMATRIX_forwards
      assign_XMVECTOR_forwards assign_XMMATRIX_forwards
      MXMMatrixAbs_def MXMMatrixAbs_body_def Let_def split: sum.splits)

subsection \<open>C3: round trips\<close>

text \<open>
  Claim C3 says that, for every wrapper type, storing a SIMD value into a wrapper object
  and converting the object back yields the original SIMD value. With the reference
  implementation this fails for \<^verbatim>\<open>MXMFLOAT3\<close>: the vector \<open>(1.0, 2.0, 3.0, 4.0)\<close>,
  assigned to an object at address 8 of the zero memory and converted back, comes back
  with its fourth lane \<open>0.0\<close>. (That no library could do better for a memory type with
  fewer scalars than the SIMD type is \<open>narrow_vector_round_trip_impossible\<close> and
  \<open>narrow_matrix_round_trip_impossible\<close> above.)
\<close>

theorem C3_counterexample:
  "\<forall>cv. assign_XMVECTOR (DirectXMath_ref cv) MXMFLOAT3 zero_memory 8 example_vector
          = Inr (8, store3 (\<lambda>c. c) zero_memory 8 example_vector)
      \<and> to_XMVECTOR (DirectXMath_ref cv) MXMFLOAT3 (store3 (\<lambda>c. c) zero_memory 8 example_vector) 8
          = Inr (example_vector\<lparr>vec_w := 0\<rparr>, store3 (\<lambda>c. c) zero_memory 8 example_vector)
      \<and> example_vector\<lparr>vec_w := 0\<rparr> \<noteq> example_vector"
  by (simp add: MXMFLOAT3_operator_assign_def MXMFLOAT3_operator_XMVECTOR_def DirectXMath_ref_def
      load3_store3 example_vector_def float_zero_def)

text \<open>
  Claim C3, as amended, for the reference implementation with any conversions between
  integers and floats, and for every wrapper type:
  \<^item> storing a SIMD value and converting back returns the value described by
    \<open>reloaded_vector\<close> or \<open>reloaded_matrix\<close>: for \<^verbatim>\<open>MXMFLOAT4\<close>, \<^verbatim>\<open>MXMFLOAT4A\<close>,
    \<^verbatim>\<open>MXMFLOAT4X4\<close> and \<^verbatim>\<open>MXMFLOAT4X4A\<close> this is the original value; for the
    two- and three-component float vectors the lanes that the memory type lacks come back
    as \<open>0.0\<close>; for the 3x3 and 4x3 matrices the fourth lane of each row comes back as
    \<open>0.0\<close>, that of the fourth row as \<open>1.0\<close>, and the fourth row of a 3x3 matrix as
    \<open>(0, 0, 0, 1)\<close>; for the integer types each lane goes through the conversion to
    integer and back;
  \<^item> converting a wrapper object to a SIMD value and assigning that value back leaves
    the memory unchanged for every float vector type and every matrix type; for an
    integer type each member goes through the conversion to float and back.
\<close>

theorem C3_round_trips:
  "(assign_XMVECTOR (DirectXMath_ref cv) w h this v = Inr (r, h1) \<longrightarrow>
      to_XMVECTOR (DirectXMath_ref cv) w h1 r = Inr (reloaded_vector cv (vector_base w) v, h1))
   \<and> (to_XMVECTOR (DirectXMath_ref cv) w h this = Inr (v, h1) \<longrightarrow>
      assign_XMVECTOR (DirectXMath_ref cv) w h1 this v =
        Inr (this, write_cells h this
          (map (restored_component cv (vector_base w))
            (read_cells h this (vector_components (vector_base w))))))
   \<and> (assign_XMMATRIX (DirectXMath_ref cv) w' h this m = Inr (r, h1) \<longrightarrow>
      to_XMMATRIX (DirectXMath_ref cv) w' h1 r = Inr (reloaded_matrix (matrix_base w') m, h1))
   \<and> (to_XMMATRIX (DirectXMath_ref cv) w' h this = Inr (m, h1) \<longrightarrow>
      assign_XMMATRIX (DirectXMath_ref cv) w' h1 this m = Inr (this, h))
   \<and> (w \<in> {MXMFLOAT2, MXMFLOAT2A, MXMFLOAT3, MXMFLOAT3A, MXMFLOAT4, MXMFLOAT4A}
      \<and> to_XMVECTOR (DirectXMath_ref cv) w h this = Inr (v, h1) \<longrightarrow>
      assign_XMVECTOR (DirectXMath_ref cv) w h1 this v = Inr (this, h))
   \<and> (w \<in> {MXMFLOAT4, MXMFLOAT4A} \<longrightarrow> reloaded_vector cv (vector_base w) v = v)
   \<and> (w \<in> {MXMFLOAT3, MXMFLOAT3A} \<longrightarrow>
      reloaded_vector cv (vector_base w) v = v\<lparr>vec_w := float_zero\<rparr>)
   \<and> (w \<in> {MXMFLOAT2, MXMFLOAT2A} \<longrightarrow>
      reloaded_vector cv (vector_base w) v = v\<lparr>vec_z := float_zero, vec_w := float_zero\<rparr>)
   \<and> (w' \<in> {MXMFLOAT4X4, MXMFLOAT4X4A} \<longrightarrow> reloaded_matrix (matrix_base w') m = m)
   \<and> (w' \<in> {MXMFLOAT4X3, MXMFLOAT4X3A} \<longrightarrow>
      reloaded_matrix (matrix_base w') m =
        \<lparr>r0 = (r0 m)\<lparr>vec_w := float_zero\<rparr>, r1 = (r1 m)\<lparr>vec_w := float_zero\<rparr>,
         r2 = (r2 m)\<lparr>vec_w := float_zero\<rparr>, r3 = (r3 m)\<lparr>vec_w := float_one\<rparr>\<rparr>)
   \<and> (w' = MXMFLOAT3X3 \<longrightarrow>
      reloaded_matrix (matrix_base w') m =
        \<lparr>r0 = (r0 m)\<lparr>vec_w := float_zero\<rparr>, r1 = (r1 m)\<lparr>vec_w := float_zero\<rparr>,
         r2 = (r2 m)\<lparr>vec_w := float_zero\<rparr>,
         r3 = \<lparr>vec_x = float_zero, vec_y = float_zero, vec_z = float_zero, vec_w = float_one\<rparr>\<rparr>)"
proof (intro conjI impI)
  show "assign_XMVECTOR (DirectXMath_ref cv) w h1 this v = Inr (this, h)"
    if "w \<in> {MXMFLOAT2, MXMFLOAT2A, MXMFLOAT3, MXMFLOAT3A, MXMFLOAT4, MXMFLOAT4A}
      \<and> to_XMVECTOR (DirectXMath_ref cv) w h this = Inr (v, h1)"
    using that ref_load_then_store_vector [of cv w h this v h1]
    by (simp only: restored_float_component write_cells_read_cells)
  show "reloaded_vector cv (vector_base w) v = v" if "w \<in> {MXMFLOAT4, MXMFLOAT4A}"
    using that by (auto simp: reloaded_vector_def first_lanes_def)
  show "reloaded_vector cv (vector_base w) v = v\<lparr>vec_w := float_zero\<rparr>"
    if "w \<in> {MXMFLOAT3, MXMFLOAT3A}"
    using that by (auto simp: reloaded_vector_def first_lanes_def)
  show "reloaded_vector cv (vector_base w) v = v\<lparr>vec_z := float_zero, vec_w := float_zero\<rparr>"
    if "w \<in> {MXMFLOAT2, MXMFLOAT2A}"
    using that by (auto simp: reloaded_vector_def first_lanes_def)
  show "reloaded_matrix (matrix_base w') m = m" if "w' \<in> {MXMFLOAT4X4, MXMFLOAT4X4A}"
    using that by auto
qed (auto simp: ref_store_then_load_vector ref_load_then_store_vector
    ref_store_then_load_matrix ref_load_then_store_matrix)

theorem C3_round_trips_witness:
  "\<forall>cv. assign_XMVECTOR (DirectXMath_ref cv) MXMFLOAT3A zero_memory 8 example_vector
          = Inr (8, store3 (\<lambda>c. c) zero_memory 8 example_vector)
      \<and> to_XMVECTOR (DirectXMath_ref cv) MXMFLOAT3A (store3 (\<lambda>c. c) zero_memory 8 example_vector) 8
          = Inr (reloaded_vector cv (vector_base MXMFLOAT3A) example_vector,
                 store3 (\<lambda>c. c) zero_memory 8 example_vector)
      \<and> reloaded_vector cv (vector_base MXMFLOAT3A) example_vector
          = example_vector\<lparr>vec_w := float_zero\<rparr>
      \<and> to_XMVECTOR (DirectXMath_ref cv) MXMFLOAT3A zero_memory 8
          = Inr (load3 (\<lambda>c. c) zero_memory 8, zero_memory)
      \<and> assign_XMVECTOR (DirectXMath_ref cv) MXMFLOAT3A zero_memory 8 (load3 (\<lambda>c. c) zero_memory 8)
          = Inr (8, zero_memory)
      \<and> assign_XMMATRIX (DirectXMath_ref cv) MXMFLOAT4X4 zero_memory 8 example_matrix
          = Inr (8, store4x4 zero_memory 8 example_matrix)
      \<and> to_XMMATRIX (DirectXMath_ref cv) MXMFLOAT4X4 (store4x4 zero_memory 8 example_matrix) 8
          = Inr (reloaded_matrix (matrix_base MXMFLOAT4X4) example_matrix,
                 store4x4 zero_memory 8 example_matrix)
      \<and> reloaded_matrix (matrix_base MXMFLOAT4X4) example_matrix = example_matrix
      \<and> to_XMMATRIX (DirectXMath_ref cv) MXMFLOAT4X4 zero_memory 8
          = Inr (load4x4 zero_memory 8, zero_memory)
      \<and> assign_XMMATRIX (DirectXMath_ref cv) MXMFLOAT4X4 zero_memory 8 (load4x4 zero_memory 8)
          = Inr (8, zero_memory)"
proof
  fix cv
  let ?R = "DirectXMath_ref cv"
  let ?h = "store3 (\<lambda>c. c) zero_memory 8 example_vector"
  let ?g = "store4x4 zero_memory 8 example_matrix"
  have a: "assign_XMVECTOR ?R MXMFLOAT3A zero_memory 8 example_vector = Inr (8, ?h)"
    by (simp add: MXMFLOAT3A_operator_assign_def DirectXMath_ref_def require_aligned16_def
        aligned16_def)
  have l: "to_XMVECTOR ?R MXMFLOAT3A zero_memory 8 = Inr (load3 (\<lambda>c. c) zero_memory 8, zero_memory)"
    by (simp add: MXMFLOAT3A_operator_XMVECTOR_def DirectXMath_ref_def require_aligned16_def
        aligned16_def)
  have b: "assign_XMMATRIX ?R MXMFLOAT4X4 zero_memory 8 example_matrix = Inr (8, ?g)"
    by (simp add: MXMFLOAT4X4_operator_assign_def DirectXMath_ref_def)
  have c: "to_XMMATRIX ?R MXMFLOAT4X4 zero_memory 8 = Inr (load4x4 zero_memory 8, zero_memory)"
    by (simp add: MXMFLOAT4X4_operator_XMMATRIX_def DirectXMath_ref_def)
  have v: "MXMFLOAT3A \<in> {MXMFLOAT2, MXMFLOAT2A, MXMFLOAT3, MXMFLOAT3A, MXMFLOAT4, MXMFLOAT4A}"
    and v3: "MXMFLOAT3A \<in> {MXMFLOAT3, MXMFLOAT3A}"
    and m4: "MXMFLOAT4X4 \<in> {MXMFLOAT4X4, MXMFLOAT4X4A}"
    by simp_all
  note t1 = C3_round_trips [of cv MXMFLOAT3A zero_memory 8 example_vector 8 ?h MXMFLOAT4X4
      example_matrix]
  note t2 = C3_round_trips [of cv MXMFLOAT3A zero_memory 8 "load3 (\<lambda>c. c) zero_memory 8" 8
      zero_memory MXMFLOAT4X4 "load4x4 zero_memory 8"]
  note t3 = C3_round_trips [of cv MXMFLOAT3A zero_memory 8 example_vector 8 ?g MXMFLOAT4X4
      example_matrix]
  show "assign_XMVECTOR ?R MXMFLOAT3A zero_memory 8 example_vector = Inr (8, ?h)
      \<and> to_XMVECTOR ?R MXMFLOAT3A ?h 8
          = Inr (reloaded_vector cv (vector_base MXMFLOAT3A) example_vector, ?h)
      \<and> reloaded_vector cv (vector_base MXMFLOAT3A) example_vector
          = example_vector\<lparr>vec_w := float_zero\<rparr>
      \<and> to_XMVECTOR ?R MXMFLOAT3A zero_memory 8 = Inr (load3 (\<lambda>c. c) zero_memory 8, zero_memory)
      \<and> assign_XMVECTOR ?R MXMFLOAT3A zero_memory 8 (load3 (\<lambda>c. c) zero_memory 8)
          = Inr (8, zero_memory)
      \<and> assign_XMMATRIX ?R MXMFLOAT4X4 zero_memory 8 example_matrix = Inr (8, ?g)
      \<and> to_XMMATRIX ?R MXMFLOAT4X4 ?g 8
          = Inr (reloaded_matrix (matrix_base MXMFLOAT4X4) example_matrix, ?g)
      \<and> reloaded_matrix (matrix_base MXMFLOAT4X4) example_matrix = example_matrix
      \<and> to_XMMATRIX ?R MXMFLOAT4X4 zero_memory 8 = Inr (load4x4 zero_memory 8, zero_memory)
      \<and> assign_XMMATRIX ?R MXMFLOAT4X4 zero_memory 8 (load4x4 zero_memory 8)
          = Inr (8, zero_memory)"
    using a l b c v v3 m4 t1 t2 t3 by blast
qed

subsection \<open>C4: the overwrite defines\<close>

text \<open>
  Claim C4. With \<^verbatim>\<open>_MXM_USE_OVERWRITE_DEFINES\<close> defined, the preprocessor replaces
  each of the seventeen names \<^verbatim>\<open>XMFLOAT2\<close>, ..., \<^verbatim>\<open>XMFLOAT4X4A\<close> by the same
  name with an \<^verbatim>\<open>M\<close> in front. For every wrapper struct of the header, the name of
  its base is replaced by the name of the struct, which is the name of the base with
  \<^verbatim>\<open>M\<close> in front; the name of every wrapper struct is the replacement of exactly one of
  the seventeen macros; and an identifier that is none of the seventeen names is left as
  it is.
\<close>

theorem C4_overwrite_defines:
  "map (preprocess (overwrite_defines True))
    [''XMFLOAT2'', ''XMFLOAT2A'', ''XMINT2'', ''XMUINT2'',
     ''XMFLOAT3'', ''XMFLOAT3A'', ''XMINT3'', ''XMUINT3'',
     ''XMFLOAT4'', ''XMFLOAT4A'', ''XMINT4'', ''XMUINT4'',
     ''XMFLOAT3X3'', ''XMFLOAT4X3'', ''XMFLOAT4X3A'', ''XMFLOAT4X4'',
     ''XMFLOAT4X4A'']
   = [''MXMFLOAT2'', ''MXMFLOAT2A'', ''MXMINT2'', ''MXMUINT2'',
     ''MXMFLOAT3'', ''MXMFLOAT3A'', ''MXMINT3'', ''MXMUINT3'',
     ''MXMFLOAT4'', ''MXMFLOAT4A'', ''MXMINT4'', ''MXMUINT4'',
     ''MXMFLOAT3X3'', ''MXMFLOAT4X3'', ''MXMFLOAT4X3A'', ''MXMFLOAT4X4'',
     ''MXMFLOAT4X4A'']
   \<and> preprocess (overwrite_defines True) (vector_type_name (vector_base w)) = vector_wrapper_name w
   \<and> vector_wrapper_name w = ''M'' @ vector_type_name (vector_base w)
   \<and> preprocess (overwrite_defines True) (matrix_type_name (matrix_base w')) = matrix_wrapper_name w'
   \<and> matrix_wrapper_name w' = ''M'' @ matrix_type_name (matrix_base w')
   \<and> count_list (map snd (overwrite_defines True)) (vector_wrapper_name w) = 1
   \<and> count_list (map snd (overwrite_defines True)) (matrix_wrapper_name w') = 1
   \<and> length (overwrite_defines True) = 17
   \<and> (identifier \<notin> set
        [''XMFLOAT2'', ''XMFLOAT2A'', ''XMINT2'', ''XMUINT2'',
     ''XMFLOAT3'', ''XMFLOAT3A'', ''XMINT3'', ''XMUINT3'',
     ''XMFLOAT4'', ''XMFLOAT4A'', ''XMINT4'', ''XMUINT4'',
     ''XMFLOAT3X3'', ''XMFLOAT4X3'', ''XMFLOAT4X3A'', ''XMFLOAT4X4'',
     ''XMFLOAT4X4A'']
      \<longrightarrow> preprocess (overwrite_defines True) identifier = identifier)"
proof -
  have all: "map (preprocess (overwrite_defines True))
    [''XMFLOAT2'', ''XMFLOAT2A'', ''XMINT2'', ''XMUINT2'',
     ''XMFLOAT3'', ''XMFLOAT3A'', ''XMINT3'', ''XMUINT3'',
     ''XMFLOAT4'', ''XMFLOAT4A'', ''XMINT4'', ''XMUINT4'',
     ''XMFLOAT3X3'', ''XMFLOAT4X3'', ''XMFLOAT4X3A'', ''XMFLOAT4X4'',
     ''XMFLOAT4X4A'']
   = [''MXMFLOAT2'', ''MXMFLOAT2A'', ''MXMINT2'', ''MXMUINT2'',
     ''MXMFLOAT3'', ''MXMFLOAT3A'', ''MXMINT3'', ''MXMUINT3'',
     ''MXMFLOAT4'', ''MXMFLOAT4A'', ''MXMINT4'', ''MXMUINT4'',
     ''MXMFLOAT3X3'', ''MXMFLOAT4X3'', ''MXMFLOAT4X3A'', ''MXMFLOAT4X4'',
     ''MXMFLOAT4X4A'']"
    by (simp add: preprocess_def overwrite_defines_def)
  have len: "length (overwrite_defines True) = 17"
    by (simp add: overwrite_defines_def)
  have other: "identifier \<notin> set
        [''XMFLOAT2'', ''XMFLOAT2A'', ''XMINT2'', ''XMUINT2'',
     ''XMFLOAT3'', ''XMFLOAT3A'', ''XMINT3'', ''XMUINT3'',
     ''XMFLOAT4'', ''XMFLOAT4A'', ''XMINT4'', ''XMUINT4'',
     ''XMFLOAT3X3'', ''XMFLOAT4X3'', ''XMFLOAT4X3A'', ''XMFLOAT4X4'',
     ''XMFLOAT4X4A'']
      \<longrightarrow> preprocess (overwrite_defines True) identifier = identifier"
  proof
    assume "identifier \<notin> set
        [''XMFLOAT2'', ''XMFLOAT2A'', ''XMINT2'', ''XMUINT2'',
     ''XMFLOAT3'', ''XMFLOAT3A'', ''XMINT3'', ''XMUINT3'',
     ''XMFLOAT4'', ''XMFLOAT4A'', ''XMINT4'', ''XMUINT4'',
     ''XMFLOAT3X3'', ''XMFLOAT4X3'', ''XMFLOAT4X3A'', ''XMFLOAT4X4'',
     ''XMFLOAT4X4A'']"
    then have "identifier \<notin> set (map fst (overwrite_defines True))"
      unfolding overwritten_names by simp
    then show "preprocess (overwrite_defines True) identifier = identifier"
      by (rule preprocess_other)
  qed
  show ?thesis
    by (intro conjI)
      (rule all len other preprocess_vector_type preprocess_matrix_type vector_wrapper_once
        matrix_wrapper_once vector_wrapper_name_prefixed matrix_wrapper_name_prefixed)+
qed

theorem C4_overwrite_defines_witness:
  "''XMVECTOR'' \<notin> set
        [''XMFLOAT2'', ''XMFLOAT2A'', ''XMINT2'', ''XMUINT2'',
     ''XMFLOAT3'', ''XMFLOAT3A'', ''XMINT3'', ''XMUINT3'',
     ''XMFLOAT4'', ''XMFLOAT4A'', ''XMINT4'', ''XMUINT4'',
     ''XMFLOAT3X3'', ''XMFLOAT4X3'', ''XMFLOAT4X3A'', ''XMFLOAT4X4'',
     ''XMFLOAT4X4A'']
   \<and> preprocess (overwrite_defines True) ''XMVECTOR'' = ''XMVECTOR''
   \<and> preprocess (overwrite_defines True) ''XMFLOAT3A'' = ''MXMFLOAT3A''"
  using C4_overwrite_defines [of MXMFLOAT3A MXMFLOAT4X4 "''XMVECTOR''"] by simp

subsection \<open>C5: the wrappers add no data members\<close>

text \<open>
  Claim C5. Every wrapper struct declares no data member: an object of the struct has
  exactly as many scalar members as its base, the alignment of its base (the five structs
  declared \<^verbatim>\<open>__declspec(align(16))\<close> are those whose base is aligned to 16 bytes),
  and in every memory, so also in the memory after any operation, the cells of the
  wrapper object at an address are the cells of the base object at that address. The
  model has scalar members and alignment only; padding is not part of it.
\<close>

theorem C5_no_data_members:
  "vector_wrapper_members w = []
   \<and> vector_wrapper_components w = vector_components (vector_base w)
   \<and> vector_wrapper_alignment w = vector_alignment (vector_base w)
   \<and> read_cells h this (vector_wrapper_components w) = read_cells h this (vector_components (vector_base w))
   \<and> matrix_wrapper_members w' = []
   \<and> matrix_wrapper_components w' = matrix_components (matrix_base w')
   \<and> matrix_wrapper_alignment w' = matrix_alignment (matrix_base w')
   \<and> read_cells h this (matrix_wrapper_components w') = read_cells h this (matrix_components (matrix_base w'))"
proof -
  have v: "vector_wrapper_members w = []" by (cases w) simp_all
  have m: "matrix_wrapper_members w' = []" by (cases w') simp_all
  have va: "vector_wrapper_alignment w = vector_alignment (vector_base w)"
    by (cases w) (simp_all add: vector_wrapper_alignment_def)
  have ma: "matrix_wrapper_alignment w' = matrix_alignment (matrix_base w')"
    by (cases w') (simp_all add: matrix_wrapper_alignment_def)
  show ?thesis
    using v m va ma by (simp add: vector_wrapper_components_def matrix_wrapper_components_def)
qed

subsection \<open>C6: no failure of the header's own\<close>

text \<open>
  Claim C6. For every implementation of the library, every wrapper type and every input:
  the default, array and component-wise constructors always return; the constructor from
  a SIMD value, the conversion operator and the assignment operator fail with an error
  exactly when the one load or store routine they call fails with that error on the
  same arguments. (\<^verbatim>\<open>MXMMatrixAbs\<close> is a total function of its argument.)
\<close>

theorem C6_no_failure_of_its_own:
  "(\<exists>h'. default_construct_vector lib w h this = Inr h')
   \<and> (\<exists>h'. default_construct_matrix lib w' h this = Inr h')
   \<and> (\<exists>h'. construct_vector_from_array lib w h this pArray = Inr h')
   \<and> (\<exists>h'. construct_matrix_from_array lib w' h this pArray = Inr h')
   \<and> (\<exists>h'. MXMFLOAT2_ctor_components lib h this c0 c1 = Inr h')
   \<and> (\<exists>h'. MXMFLOAT2A_ctor_components lib h this c0 c1 = Inr h')
   \<and> (\<exists>h'. MXMINT2_ctor_components lib h this c0 c1 = Inr h')
   \<and> (\<exists>h'. MXMUINT2_ctor_components lib h this c0 c1 = Inr h')
   \<and> (\<exists>h'. MXMFLOAT3_ctor_components lib h this c0 c1 c2 = Inr h')
   \<and> (\<exists>h'. MXMFLOAT3A_ctor_components lib h this c0 c1 c2 = Inr h')
   \<and> (\<exists>h'. MXMINT3_ctor_components lib h this c0 c1 c2 = Inr h')
   \<and> (\<exists>h'. MXMUINT3_ctor_components lib h this c0 c1 c2 = Inr h')
   \<and> (\<exists>h'. MXMFLOAT4_ctor_components lib h this c0 c1 c2 c3 = Inr h')
   \<and> (\<exists>h'. MXMFLOAT4A_ctor_components lib h this c0 c1 c2 c3 = Inr h')
   \<and> (\<exists>h'. MXMINT4_ctor_components lib h this c0 c1 c2 c3 = Inr h')
   \<and> (\<exists>h'. MXMUINT4_ctor_components lib h this c0 c1 c2 c3 = Inr h')
   \<and> (\<exists>h'. MXMFLOAT3X3_ctor_components lib h this c0 c1 c2 c3 c4 c5 c6 c7 c8 = Inr h')
   \<and> (\<exists>h'. MXMFLOAT4X3_ctor_components lib h this c0 c1 c2 c3 c4 c5 c6 c7 c8 c9 c10 c11 = Inr h')
   \<and> (\<exists>h'. MXMFLOAT4X3A_ctor_components lib h this c0 c1 c2 c3 c4 c5 c6 c7 c8 c9 c10 c11 = Inr h')
   \<and> (\<exists>h'. MXMFLOAT4X4_ctor_components lib h this c0 c1 c2 c3 c4 c5 c6 c7 c8 c9 c10 c11 c12 c13 c14 c15 = Inr h')
   \<and> (\<exists>h'. MXMFLOAT4X4A_ctor_components lib h this c0 c1 c2 c3 c4 c5 c6 c7 c8 c9 c10 c11 c12 c13 c14 c15 = Inr h')
   \<and> (construct_from_XMVECTOR lib w h this v = Inl e
        \<longleftrightarrow> store_vector lib (XMStore_vector_for (vector_base w))
             (default_initialize lib (Vector (vector_base w)) h this) this v = Inl e)
   \<and> (construct_from_XMMATRIX lib w' h this m = Inl e
        \<longleftrightarrow> store_matrix lib (XMStore_matrix_for (matrix_base w'))
             (default_initialize lib (Matrix (matrix_base w')) h this) this m = Inl e)
   \<and> (to_XMVECTOR lib w h this = Inl e
        \<longleftrightarrow> load_vector lib (XMLoad_vector_for (vector_base w)) h this = Inl e)
   \<and> (to_XMMATRIX lib w' h this = Inl e
        \<longleftrightarrow> load_matrix lib (XMLoad_matrix_for (matrix_base w')) h this = Inl e)
   \<and> (assign_XMVECTOR lib w h this v = Inl e
        \<longleftrightarrow> store_vector lib (XMStore_vector_for (vector_base w)) h this v = Inl e)
   \<and> (assign_XMMATRIX lib w' h this m = Inl e
        \<longleftrightarrow> store_matrix lib (XMStore_matrix_for (matrix_base w')) h this m = Inl e)"
  by (simp add: default_construct_vector_forwards default_construct_matrix_forwards
      construct_vector_from_array_forwards construct_matrix_from_array_forwards
      component_constructor_defs construct_from_XMVECTOR_forwards
      construct_from_XMMATRIX_forwards to_XMVECTOR_forwards to_XMMATRIX_forwards
      assign_XMVECTOR_forwards assign_XMMATRIX_forwards split: sum.splits)

subsection \<open>C7: what a conversion touches\<close>

text \<open>
  Claim C7. For every wrapper type:
  \<^item> converting an object to a SIMD value returns the memory it was given;
  \<^item> if the library's stores write only their destination, then assigning a SIMD value
    to an object changes no cell outside that object;
  \<^item> if the library's loads read only their source, then the value a conversion returns
    depends on no cell outside the object;
  \<^item> if what the library's stores write is determined by the value stored, then so is
    what an assignment leaves in the object: it depends on no cell of the memory.
\<close>

theorem C7_frame:
  "(to_XMVECTOR lib w h this = Inr (v, h1) \<longrightarrow> h1 = h)
   \<and> (to_XMMATRIX lib w' h this = Inr (m, h1) \<longrightarrow> h1 = h)
   \<and> (stores_confined lib \<and> assign_XMVECTOR lib w h this v = Inr (r, h2)
        \<longrightarrow> same_elsewhere h h2 this (vector_wrapper_components w))
   \<and> (stores_confined lib \<and> assign_XMMATRIX lib w' h this m = Inr (r, h2)
        \<longrightarrow> same_elsewhere h h2 this (matrix_wrapper_components w'))
   \<and> (loads_local lib \<and> same_object h h' this (vector_wrapper_components w)
        \<longrightarrow> map_sum id fst (to_XMVECTOR lib w h' this) = map_sum id fst (to_XMVECTOR lib w h this))
   \<and> (loads_local lib \<and> same_object h h' this (matrix_wrapper_components w')
        \<longrightarrow> map_sum id fst (to_XMMATRIX lib w' h' this) = map_sum id fst (to_XMMATRIX lib w' h this))
   \<and> (stores_determined lib \<and> assign_XMVECTOR lib w h this v = Inr (r, h2)
        \<and> assign_XMVECTOR lib w h' this v = Inr (r', h2')
        \<longrightarrow> same_object h2 h2' this (vector_wrapper_components w))
   \<and> (stores_determined lib \<and> assign_XMMATRIX lib w' h this m = Inr (r, h2)
        \<and> assign_XMMATRIX lib w' h' this m = Inr (r', h2')
        \<longrightarrow> same_object h2 h2' this (matrix_wrapper_components w'))"
proof (intro conjI impI)
  show "h1 = h" if "to_XMVECTOR lib w h this = Inr (v, h1)"
    using that by (simp add: to_XMVECTOR_forwards split: sum.splits)
  show "h1 = h" if "to_XMMATRIX lib w' h this = Inr (m, h1)"
    using that by (simp add: to_XMMATRIX_forwards split: sum.splits)
  show "same_elsewhere h h2 this (vector_wrapper_components w)"
    if "stores_confined lib \<and> assign_XMVECTOR lib w h this v = Inr (r, h2)"
  proof -
    from that have "store_vector lib (XMStore_vector_for (vector_base w)) h this v = Inr h2"
      by (simp add: assign_XMVECTOR_forwards split: sum.splits)
    with that show ?thesis
      by (simp add: stores_confined_def vector_wrapper_components_base)
  qed
  show "same_elsewhere h h2 this (matrix_wrapper_components w')"
    if "stores_confined lib \<and> assign_XMMATRIX lib w' h this m = Inr (r, h2)"
  proof -
    from that have "store_matrix lib (XMStore_matrix_for (matrix_base w')) h this m = Inr h2"
      by (simp add: assign_XMMATRIX_forwards split: sum.splits)
    with that show ?thesis
      by (simp add: stores_confined_def matrix_wrapper_components_base)
  qed
  show "map_sum id fst (to_XMVECTOR lib w h' this) = map_sum id fst (to_XMVECTOR lib w h this)"
    if "loads_local lib \<and> same_object h h' this (vector_wrapper_components w)"
  proof -
    from that have "load_vector lib (XMLoad_vector_for (vector_base w)) h' this
        = load_vector lib (XMLoad_vector_for (vector_base w)) h this"
      by (simp add: loads_local_def vector_wrapper_components_base)
    then show ?thesis
      by (simp add: to_XMVECTOR_forwards split: sum.splits)
  qed
  show "map_sum id fst (to_XMMATRIX lib w' h' this) = map_sum id fst (to_XMMATRIX lib w' h this)"
    if "loads_local lib \<and> same_object h h' this (matrix_wrapper_components w')"
  proof -
    from that have "load_matrix lib (XMLoad_matrix_for (matrix_base w')) h' this
        = load_matrix lib (XMLoad_matrix_for (matrix_base w')) h this"
      by (simp add: loads_local_def matrix_wrapper_components_base)
    then show ?thesis
      by (simp add: to_XMMATRIX_forwards split: sum.splits)
  qed
  show "same_object h2 h2' this (vector_wrapper_components w)"
    if "stores_determined lib \<and> assign_XMVECTOR lib w h this v = Inr (r, h2)
        \<and> assign_XMVECTOR lib w h' this v = Inr (r', h2')"
  proof -
    from that have "store_vector lib (XMStore_vector_for (vector_base w)) h this v = Inr h2"
      and "store_vector lib (XMStore_vector_for (vector_base w)) h' this v = Inr h2'"
      by (simp_all add: assign_XMVECTOR_forwards split: sum.splits)
    moreover from that have "stores_determined lib" by simp
    ultimately show ?thesis
      unfolding stores_determined_def vector_wrapper_components_base by blast
  qed
  show "same_object h2 h2' this (matrix_wrapper_components w')"
    if "stores_determined lib \<and> assign_XMMATRIX lib w' h this m = Inr (r, h2)
        \<and> assign_XMMATRIX lib w' h' this m = Inr (r', h2')"
  proof -
    from that have "store_matrix lib (XMStore_matrix_for (matrix_base w')) h this m = Inr h2"
      and "store_matrix lib (XMStore_matrix_for (matrix_base w')) h' this m = Inr h2'"
      by (simp_all add: assign_XMMATRIX_forwards split: sum.splits)
    moreover from that have "stores_determined lib" by simp
    ultimately show ?thesis
      unfolding stores_determined_def matrix_wrapper_components_base by blast
  qed
qed

theorem C7_frame_witness:
  "\<forall>cv. stores_confined (DirectXMath_ref cv) \<and> loads_local (DirectXMath_ref cv)
      \<and> stores_determined (DirectXMath_ref cv)
      \<and> to_XMVECTOR (DirectXMath_ref cv) MXMFLOAT4 zero_memory 8
          = Inr (load4 (\<lambda>c. c) zero_memory 8, zero_memory)
      \<and> to_XMMATRIX (DirectXMath_ref cv) MXMFLOAT4X4 zero_memory 8
          = Inr (load4x4 zero_memory 8, zero_memory)
      \<and> assign_XMVECTOR (DirectXMath_ref cv) MXMFLOAT4 zero_memory 8 example_vector
          = Inr (8, store4 (\<lambda>c. c) zero_memory 8 example_vector)
      \<and> same_elsewhere zero_memory (store4 (\<lambda>c. c) zero_memory 8 example_vector) 8
          (vector_wrapper_components MXMFLOAT4)
      \<and> assign_XMMATRIX (DirectXMath_ref cv) MXMFLOAT4X4 zero_memory 8 example_matrix
          = Inr (8, store4x4 zero_memory 8 example_matrix)
      \<and> same_elsewhere zero_memory (store4x4 zero_memory 8 example_matrix) 8
          (matrix_wrapper_components MXMFLOAT4X4)
      \<and> same_object zero_memory (zero_memory(100 := 5)) 8 (vector_wrapper_components MXMFLOAT4)
      \<and> map_sum id fst (to_XMVECTOR (DirectXMath_ref cv) MXMFLOAT4 (zero_memory(100 := 5)) 8)
          = map_sum id fst (to_XMVECTOR (DirectXMath_ref cv) MXMFLOAT4 zero_memory 8)
      \<and> same_object zero_memory (zero_memory(100 := 5)) 8 (matrix_wrapper_components MXMFLOAT4X4)
      \<and> map_sum id fst (to_XMMATRIX (DirectXMath_ref cv) MXMFLOAT4X4 (zero_memory(100 := 5)) 8)
          = map_sum id fst (to_XMMATRIX (DirectXMath_ref cv) MXMFLOAT4X4 zero_memory 8)
      \<and> assign_XMVECTOR (DirectXMath_ref cv) MXMFLOAT4 (zero_memory(100 := 5)) 8 example_vector
          = Inr (8, store4 (\<lambda>c. c) (zero_memory(100 := 5)) 8 example_vector)
      \<and> same_object (store4 (\<lambda>c. c) zero_memory 8 example_vector)
          (store4 (\<lambda>c. c) (zero_memory(100 := 5)) 8 example_vector) 8
          (vector_wrapper_components MXMFLOAT4)
      \<and> assign_XMMATRIX (DirectXMath_ref cv) MXMFLOAT4X4 (zero_memory(100 := 5)) 8 example_matrix
          = Inr (8, store4x4 (zero_memory(100 := 5)) 8 example_matrix)
      \<and> same_object (store4x4 zero_memory 8 example_matrix)
          (store4x4 (zero_memory(100 := 5)) 8 example_matrix) 8
          (matrix_wrapper_components MXMFLOAT4X4)"
proof
  fix cv
  let ?R = "DirectXMath_ref cv"
  let ?h' = "zero_memory(100 := 5)"
  have lv: "to_XMVECTOR ?R MXMFLOAT4 zero_memory 8 = Inr (load4 (\<lambda>c. c) zero_memory 8, zero_memory)"
    by (simp add: MXMFLOAT4_operator_XMVECTOR_def DirectXMath_ref_def)
  have lm: "to_XMMATRIX ?R MXMFLOAT4X4 zero_memory 8 = Inr (load4x4 zero_memory 8, zero_memory)"
    by (simp add: MXMFLOAT4X4_operator_XMMATRIX_def DirectXMath_ref_def)
  have av: "assign_XMVECTOR ?R MXMFLOAT4 h 8 example_vector
      = Inr (8, store4 (\<lambda>c. c) h 8 example_vector)" for h
    by (simp add: MXMFLOAT4_operator_assign_def DirectXMath_ref_def)
  have am: "assign_XMMATRIX ?R MXMFLOAT4X4 h 8 example_matrix
      = Inr (8, store4x4 h 8 example_matrix)" for h
    by (simp add: MXMFLOAT4X4_operator_assign_def DirectXMath_ref_def)
  have sv: "same_object zero_memory ?h' 8 (vector_wrapper_components MXMFLOAT4)"
    by (simp add: same_object_def vector_wrapper_components_def)
  have sm: "same_object zero_memory ?h' 8 (matrix_wrapper_components MXMFLOAT4X4)"
    by (simp add: same_object_def matrix_wrapper_components_def)
  note t1 = C7_frame [of ?R MXMFLOAT4 zero_memory 8 example_vector
      "store4 (\<lambda>c. c) zero_memory 8 example_vector" MXMFLOAT4X4 example_matrix 8
      "store4 (\<lambda>c. c) zero_memory 8 example_vector" ?h' 8
      "store4 (\<lambda>c. c) ?h' 8 example_vector"]
  note t2 = C7_frame [of ?R MXMFLOAT4 zero_memory 8 example_vector
      "store4x4 zero_memory 8 example_matrix" MXMFLOAT4X4 example_matrix 8
      "store4x4 zero_memory 8 example_matrix" ?h' 8
      "store4x4 ?h' 8 example_matrix"]
  show "stores_confined ?R \<and> loads_local ?R \<and> stores_determined ?R
      \<and> to_XMVECTOR ?R MXMFLOAT4 zero_memory 8 = Inr (load4 (\<lambda>c. c) zero_memory 8, zero_memory)
      \<and> to_XMMATRIX ?R MXMFLOAT4X4 zero_memory 8 = Inr (load4x4 zero_memory 8, zero_memory)
      \<and> assign_XMVECTOR ?R MXMFLOAT4 zero_memory 8 example_vector
          = Inr (8, store4 (\<lambda>c. c) zero_memory 8 example_vector)
      \<and> same_elsewhere zero_memory (store4 (\<lambda>c. c) zero_memory 8 example_vector) 8
          (vector_wrapper_components MXMFLOAT4)
      \<and> assign_XMMATRIX ?R MXMFLOAT4X4 zero_memory 8 example_matrix
          = Inr (8, store4x4 zero_memory 8 example_matrix)
      \<and> same_elsewhere zero_memory (store4x4 zero_memory 8 example_matrix) 8
          (matrix_wrapper_components MXMFLOAT4X4)
      \<and> same_object zero_memory ?h' 8 (vector_wrapper_components MXMFLOAT4)
      \<and> map_sum id fst (to_XMVECTOR ?R MXMFLOAT4 ?h' 8)
          = map_sum id fst (to_XMVECTOR ?R MXMFLOAT4 zero_memory 8)
      \<and> same_object zero_memory ?h' 8 (matrix_wrapper_components MXMFLOAT4X4)
      \<and> map_sum id fst (to_XMMATRIX ?R MXMFLOAT4X4 ?h' 8)
          = map_sum id fst (to_XMMATRIX ?R MXMFLOAT4X4 zero_memory 8)
      \<and> assign_XMVECTOR ?R MXMFLOAT4 ?h' 8 example_vector
          = Inr (8, store4 (\<lambda>c. c) ?h' 8 example_vector)
      \<and> same_object (store4 (\<lambda>c. c) zero_memory 8 example_vector)
          (store4 (\<lambda>c. c) ?h' 8 example_vector) 8 (vector_wrapper_components MXMFLOAT4)
      \<and> assign_XMMATRIX ?R MXMFLOAT4X4 ?h' 8 example_matrix
          = Inr (8, store4x4 ?h' 8 example_matrix)
      \<and> same_object (store4x4 zero_memory 8 example_matrix)
          (store4x4 ?h' 8 example_matrix) 8 (matrix_wrapper_components MXMFLOAT4X4)"
    using stores_confined_ref [of cv] loads_local_ref [of cv] stores_determined_ref [of cv]
      lv lm av [of zero_memory] av [of ?h'] am [of zero_memory] am [of ?h'] sv sm t1 t2
    by blast
qed

subsection \<open>C8: MXMMatrixAbs\<close>

text \<open>
  Claim C8. For every input matrix \<open>m\<close>, each of the four rows of the result of
  \<^verbatim>\<open>MXMMatrixAbs\<close> is the library's \<^verbatim>\<open>XMVectorAbs\<close> of the same row of \<open>m\<close>,
  whatever the local \<^verbatim>\<open>res\<close> held before; and the body leaves the parameter
  \<^verbatim>\<open>mat\<close> as it was.
\<close>

theorem C8_MXMMatrixAbs_rows:
  "r0 (MXMMatrixAbs lib indeterminate m) = XMVectorAbs lib (r0 m)
   \<and> r1 (MXMMatrixAbs lib indeterminate m) = XMVectorAbs lib (r1 m)
   \<and> r2 (MXMMatrixAbs lib indeterminate m) = XMVectorAbs lib (r2 m)
   \<and> r3 (MXMMatrixAbs lib indeterminate m) = XMVectorAbs lib (r3 m)
   \<and> mat (MXMMatrixAbs_body lib s) = mat s"
  by (simp add: MXMMatrixAbs_def MXMMatrixAbs_body_def Let_def)

subsection \<open>C9: constructing from a SIMD value\<close>

text \<open>
  Claim C9. For every wrapper type and every SIMD value: the constructor from the value
  and the assignment operator call the same store routine, the one for the base type; and
  if the initialisers of the base type touch only the object and the store overwrites
  all members of its destination, then constructing an object from the value leaves the
  same memory as default-constructing the object and then assigning the value to it.
\<close>

theorem C9_converting_constructor_is_default_then_assign:
  "(initializers_confined lib \<and> stores_overwrite lib \<longrightarrow>
      construct_from_XMVECTOR lib w h this v =
        (case default_construct_vector lib w h this of
           Inl e \<Rightarrow> Inl e
         | Inr h1 \<Rightarrow> map_sum id snd (assign_XMVECTOR lib w h1 this v)))
   \<and> (initializers_confined lib \<and> stores_overwrite lib \<longrightarrow>
      construct_from_XMMATRIX lib w' h this m =
        (case default_construct_matrix lib w' h this of
           Inl e \<Rightarrow> Inl e
         | Inr h1 \<Rightarrow> map_sum id snd (assign_XMMATRIX lib w' h1 this m)))
   \<and> construct_from_XMVECTOR lib w h this v =
       store_vector lib (XMStore_vector_for (vector_base w))
         (default_initialize lib (Vector (vector_base w)) h this) this v
   \<and> map_sum id snd (assign_XMVECTOR lib w h this v) =
       store_vector lib (XMStore_vector_for (vector_base w)) h this v
   \<and> construct_from_XMMATRIX lib w' h this m =
       store_matrix lib (XMStore_matrix_for (matrix_base w'))
         (default_initialize lib (Matrix (matrix_base w')) h this) this m
   \<and> map_sum id snd (assign_XMMATRIX lib w' h this m) =
       store_matrix lib (XMStore_matrix_for (matrix_base w')) h this m"
proof (intro conjI impI)
  show "construct_from_XMVECTOR lib w h this v =
        (case default_construct_vector lib w h this of
           Inl e \<Rightarrow> Inl e
         | Inr h1 \<Rightarrow> map_sum id snd (assign_XMVECTOR lib w h1 this v))"
    if "initializers_confined lib \<and> stores_overwrite lib"
  proof -
    from that have "same_elsewhere (construct lib (Vector (vector_base w)) h this)
        (default_initialize lib (Vector (vector_base w)) h this) this
        (vector_components (vector_base w))"
      using initializers_agree_elsewhere [of lib "Vector (vector_base w)" h this] by simp
    with that have "store_vector lib (XMStore_vector_for (vector_base w))
          (default_initialize lib (Vector (vector_base w)) h this) this v
        = store_vector lib (XMStore_vector_for (vector_base w))
          (construct lib (Vector (vector_base w)) h this) this v"
      by (simp add: stores_overwrite_def)
    then show ?thesis
      by (simp add: construct_from_XMVECTOR_forwards default_construct_vector_forwards
          assign_XMVECTOR_forwards split: sum.splits)
  qed
  show "construct_from_XMMATRIX lib w' h this m =
        (case default_construct_matrix lib w' h this of
           Inl e \<Rightarrow> Inl e
         | Inr h1 \<Rightarrow> map_sum id snd (assign_XMMATRIX lib w' h1 this m))"
    if "initializers_confined lib \<and> stores_overwrite lib"
  proof -
    from that have "same_elsewhere (construct lib (Matrix (matrix_base w')) h this)
        (default_initialize lib (Matrix (matrix_base w')) h this) this
        (matrix_components (matrix_base w'))"
      using initializers_agree_elsewhere [of lib "Matrix (matrix_base w')" h this] by simp
    with that have "store_matrix lib (XMStore_matrix_for (matrix_base w'))
          (default_initialize lib (Matrix (matrix_base w')) h this) this m
        = store_matrix lib (XMStore_matrix_for (matrix_base w'))
          (construct lib (Matrix (matrix_base w')) h this) this m"
      by (simp add: stores_overwrite_def)
    then show ?thesis
      by (simp add: construct_from_XMMATRIX_forwards default_construct_matrix_forwards
          assign_XMMATRIX_forwards split: sum.splits)
  qed
qed (simp_all add: construct_from_XMVECTOR_forwards construct_from_XMMATRIX_forwards
    assign_XMVECTOR_forwards assign_XMMATRIX_forwards split: sum.splits)

theorem C9_converting_constructor_is_default_then_assign_witness:
  "\<forall>cv. initializers_confined (DirectXMath_ref cv) \<and> stores_overwrite (DirectXMath_ref cv)
      \<and> construct_from_XMVECTOR (DirectXMath_ref cv) MXMFLOAT4 (zero_memory(8 := 7)) 8 example_vector
          = (case default_construct_vector (DirectXMath_ref cv) MXMFLOAT4 (zero_memory(8 := 7)) 8 of
               Inl e \<Rightarrow> Inl e
             | Inr h1 \<Rightarrow> map_sum id snd
                 (assign_XMVECTOR (DirectXMath_ref cv) MXMFLOAT4 h1 8 example_vector))
      \<and> construct_from_XMMATRIX (DirectXMath_ref cv) MXMFLOAT4X4 (zero_memory(8 := 7)) 8 example_matrix
          = (case default_construct_matrix (DirectXMath_ref cv) MXMFLOAT4X4 (zero_memory(8 := 7)) 8 of
               Inl e \<Rightarrow> Inl e
             | Inr h1 \<Rightarrow> map_sum id snd
                 (assign_XMMATRIX (DirectXMath_ref cv) MXMFLOAT4X4 h1 8 example_matrix))
      \<and> default_construct_vector (DirectXMath_ref cv) MXMFLOAT4 (zero_memory(8 := 7)) 8
          = Inr (write_cells (zero_memory(8 := 7)) 8 [0, 0, 0, 0])
      \<and> construct_from_XMVECTOR (DirectXMath_ref cv) MXMFLOAT4 (zero_memory(8 := 7)) 8 example_vector
          = Inr (store4 (\<lambda>c. c) (zero_memory(8 := 7)) 8 example_vector)"
proof
  fix cv
  let ?R = "DirectXMath_ref cv"
  have d: "default_construct_vector ?R MXMFLOAT4 (zero_memory(8 := 7)) 8
      = Inr (write_cells (zero_memory(8 := 7)) 8 [0, 0, 0, 0])"
    by (simp add: MXMFLOAT4_ctor_def DirectXMath_ref_def eval_nat_numeral)
  have c: "construct_from_XMVECTOR ?R MXMFLOAT4 (zero_memory(8 := 7)) 8 example_vector
      = Inr (store4 (\<lambda>c. c) (zero_memory(8 := 7)) 8 example_vector)"
    by (simp add: MXMFLOAT4_ctor_XMVECTOR_def DirectXMath_ref_def)
  show "initializers_confined ?R \<and> stores_overwrite ?R
      \<and> construct_from_XMVECTOR ?R MXMFLOAT4 (zero_memory(8 := 7)) 8 example_vector
          = (case default_construct_vector ?R MXMFLOAT4 (zero_memory(8 := 7)) 8 of
               Inl e \<Rightarrow> Inl e
             | Inr h1 \<Rightarrow> map_sum id snd (assign_XMVECTOR ?R MXMFLOAT4 h1 8 example_vector))
      \<and> construct_from_XMMATRIX ?R MXMFLOAT4X4 (zero_memory(8 := 7)) 8 example_matrix
          = (case default_construct_matrix ?R MXMFLOAT4X4 (zero_memory(8 := 7)) 8 of
               Inl e \<Rightarrow> Inl e
             | Inr h1 \<Rightarrow> map_sum id snd (assign_XMMATRIX ?R MXMFLOAT4X4 h1 8 example_matrix))
      \<and> default_construct_vector ?R MXMFLOAT4 (zero_memory(8 := 7)) 8
          = Inr (write_cells (zero_memory(8 := 7)) 8 [0, 0, 0, 0])
      \<and> construct_from_XMVECTOR ?R MXMFLOAT4 (zero_memory(8 := 7)) 8 example_vector
          = Inr (store4 (\<lambda>c. c) (zero_memory(8 := 7)) 8 example_vector)"
    using initializers_confined_ref [of cv] stores_overwrite_ref [of cv] d c
      C9_converting_constructor_is_default_then_assign
        [of ?R MXMFLOAT4 "zero_memory(8 := 7)" 8 example_vector MXMFLOAT4X4 example_matrix]
    by blast
qed

subsection \<open>C10: the assignment returns the object\<close>

text \<open>
  Claim C10. For every wrapper type: an assignment from a SIMD value that returns,
  returns the address of the object it was called on, together with the memory that the
  library's store routine left; so a conversion through the returned reference reads the
  object just stored.
\<close>

theorem C10_assignment_returns_this:
  "(assign_XMVECTOR lib w h this v = Inr (r, h')
      \<longrightarrow> r = this \<and> store_vector lib (XMStore_vector_for (vector_base w)) h this v = Inr h'
        \<and> to_XMVECTOR lib w h' r = to_XMVECTOR lib w h' this)
   \<and> (assign_XMMATRIX lib w' h this m = Inr (r, h')
      \<longrightarrow> r = this \<and> store_matrix lib (XMStore_matrix_for (matrix_base w')) h this m = Inr h'
        \<and> to_XMMATRIX lib w' h' r = to_XMMATRIX lib w' h' this)"
  by (auto simp: assign_XMVECTOR_forwards assign_XMMATRIX_forwards split: sum.splits)

theorem C10_assignment_returns_this_witness:
  "\<forall>cv. assign_XMVECTOR (DirectXMath_ref cv) MXMFLOAT4 zero_memory 8 example_vector
          = Inr (8, store4 (\<lambda>c. c) zero_memory 8 example_vector)
      \<and> store_vector (DirectXMath_ref cv) (XMStore_vector_for (vector_base MXMFLOAT4))
          zero_memory 8 example_vector
          = Inr (store4 (\<lambda>c. c) zero_memory 8 example_vector)
      \<and> assign_XMMATRIX (DirectXMath_ref cv) MXMFLOAT4X4 zero_memory 8 example_matrix
          = Inr (8, store4x4 zero_memory 8 example_matrix)
      \<and> store_matrix (DirectXMath_ref cv) (XMStore_matrix_for (matrix_base MXMFLOAT4X4))
          zero_memory 8 example_matrix
          = Inr (store4x4 zero_memory 8 example_matrix)"
proof
  fix cv
  let ?R = "DirectXMath_ref cv"
  have av: "assign_XMVECTOR ?R MXMFLOAT4 zero_memory 8 example_vector
      = Inr (8, store4 (\<lambda>c. c) zero_memory 8 example_vector)"
    by (simp add: MXMFLOAT4_operator_assign_def DirectXMath_ref_def)
  have am: "assign_XMMATRIX ?R MXMFLOAT4X4 zero_memory 8 example_matrix
      = Inr (8, store4x4 zero_memory 8 example_matrix)"
    by (simp add: MXMFLOAT4X4_operator_assign_def DirectXMath_ref_def)
  note t1 = C10_assignment_returns_this [of ?R MXMFLOAT4 zero_memory 8 example_vector 8
      "store4 (\<lambda>c. c) zero_memory 8 example_vector" MXMFLOAT4X4 example_matrix]
  note t2 = C10_assignment_returns_this [of ?R MXMFLOAT4 zero_memory 8 example_vector 8
      "store4x4 zero_memory 8 example_matrix" MXMFLOAT4X4 example_matrix]
  show "assign_XMVECTOR ?R MXMFLOAT4 zero_memory 8 example_vector
          = Inr (8, store4 (\<lambda>c. c) zero_memory 8 example_vector)
      \<and> store_vector ?R (XMStore_vector_for (vector_base MXMFLOAT4)) zero_memory 8 example_vector
          = Inr (store4 (\<lambda>c. c) zero_memory 8 example_vector)
      \<and> assign_XMMATRIX ?R MXMFLOAT4X4 zero_memory 8 example_matrix
          = Inr (8, store4x4 zero_memory 8 example_matrix)
      \<and> store_matrix ?R (XMStore_matrix_for (matrix_base MXMFLOAT4X4)) zero_memory 8 example_matrix
          = Inr (store4x4 zero_memory 8 example_matrix)"
    using av am t1 t2 by blast
qed

end
